theory Spec2Isabelle
  imports Complex_Main "HOL-Library.AList"
begin

section \<open>Python values, errors and random sources\<close>

text \<open>
  Every exception the modelled code can raise is a value of \<open>py_error\<close>; a function
  that may raise returns \<open>py_error + 'a\<close> with \<open>Inl\<close> for the exception.
  \<open>AssertionError\<close> carries the message of the failed \<^verbatim>\<open>assert\<close>.
\<close>

datatype py_error =
    KeyError
  | IndexError
  | ZeroDivisionError
  | ValueError
  | RuntimeError
  | TypeError
  | AttributeError
  | AssertionError string

definition then_do :: "py_error + 'a \<Rightarrow> ('a \<Rightarrow> py_error + 'b) \<Rightarrow> py_error + 'b" where
  "then_do m f = (case m of Inl e \<Rightarrow> Inl e | Inr x \<Rightarrow> f x)"

text \<open>The decimal rendering of a count, as \<^verbatim>\<open>"%i" % n\<close> prints it.\<close>

definition digit_char :: "nat \<Rightarrow> char" where
  "digit_char d = char_of (48 + d)"

fun str_nat :: "nat \<Rightarrow> string" where
  "str_nat n = (if n < 10 then [digit_char n] else str_nat (n div 10) @ [digit_char (n mod 10)])"

declare str_nat.simps [simp del]

text \<open>
  Floating-point values are modelled by real numbers (rounding is outside the model)
  together with \<open>NaN\<close>, which numpy produces for \<^verbatim>\<open>0/0\<close> and propagates
  through every arithmetic operation.
\<close>

datatype flt = Fin real | NaN

fun flt_add :: "flt \<Rightarrow> flt \<Rightarrow> flt" where
  "flt_add (Fin a) (Fin b) = Fin (a + b)"
| "flt_add _ _ = NaN"

fun flt_mul :: "flt \<Rightarrow> flt \<Rightarrow> flt" where
  "flt_mul (Fin a) (Fin b) = Fin (a * b)"
| "flt_mul _ _ = NaN"

fun flt_neg :: "flt \<Rightarrow> flt" where
  "flt_neg (Fin a) = Fin (- a)"
| "flt_neg NaN = NaN"

text \<open>
  The code draws from two ambient generators: Python's \<^verbatim>\<open>random.random()\<close> and
  numpy's \<^verbatim>\<open>np.random.randint\<close>. Each is a stream of future outputs with a read
  position. \<^verbatim>\<open>np.random.randint(low, high)\<close> returns an integer of the half-open
  range \<open>[low, high)\<close> and raises \<^verbatim>\<open>ValueError\<close> when \<open>low \<ge> high\<close>; the raw
  generator output is reduced into that range.
\<close>

record rng =
  rand_stream :: "nat \<Rightarrow> real"
  rand_pos :: nat
  randint_stream :: "nat \<Rightarrow> nat"
  randint_pos :: nat

definition random_random :: "rng \<Rightarrow> real \<times> rng" where
  "random_random g = (rand_stream g (rand_pos g), g\<lparr>rand_pos := Suc (rand_pos g)\<rparr>)"

definition np_random_randint :: "int \<Rightarrow> int \<Rightarrow> rng \<Rightarrow> py_error + (int \<times> rng)" where
  "np_random_randint low high g =
     (if high \<le> low then Inl ValueError
      else Inr (low + int (randint_stream g (randint_pos g) mod nat (high - low)),
                g\<lparr>randint_pos := Suc (randint_pos g)\<rparr>))"

section \<open>Regions of interest and volume specs\<close>

text \<open>
  Modelled from the spec: the region-of-interest and coordinate library
  (\<^verbatim>\<open>gunpowder.roi\<close>, \<^verbatim>\<open>gunpowder.coordinate\<close>) is not among the sources. A ROI is
  an axis-aligned box, an offset and a shape in world units; \<open>roi_grow\<close> extends it
  before and after by the given amounts per axis; \<open>roi_div\<close> divides offset and shape
  by the voxel size, axis by axis, with Python's floor division.
\<close>

record roi =
  roi_offset :: "int list"
  roi_shape :: "int list"

definition roi_dims :: "roi \<Rightarrow> nat" where
  "roi_dims r = length (roi_offset r)"

definition roi_grow :: "roi \<Rightarrow> int list \<Rightarrow> int list \<Rightarrow> roi" where
  "roi_grow r amount_neg amount_pos =
     \<lparr>roi_offset = map2 (\<lambda>a b. a - b) (roi_offset r) amount_neg,
      roi_shape = map2 (\<lambda>a b. a + b) (map2 (\<lambda>a b. a + b) (roi_shape r) amount_neg) amount_pos\<rparr>"

definition coordinate_div :: "int list \<Rightarrow> int list \<Rightarrow> py_error + int list" where
  "coordinate_div a b =
     (if list_ex (\<lambda>v. v = 0) (take (length a) b) then Inl ZeroDivisionError
      else Inr (map2 (\<lambda>x v. x div v) a b))"

definition roi_div :: "roi \<Rightarrow> int list \<Rightarrow> py_error + roi" where
  "roi_div r vs =
     then_do (coordinate_div (roi_offset r) vs) (\<lambda>off.
     then_do (coordinate_div (roi_shape r) vs) (\<lambda>sh.
       Inr \<lparr>roi_offset = off, roi_shape = sh\<rparr>))"

text \<open>
  \<^verbatim>\<open>VolumeSpec\<close> (volume_spec.py): the four attributes of the class. The ROI and the
  voxel size are set wherever the modelled code reads them; \<^verbatim>\<open>interpolatable\<close> keeps
  its default \<^verbatim>\<open>None\<close>, which Python reads as false.
\<close>

datatype np_dtype = Float32 | Float64 | UInt8 | Bool8

record volume_spec =
  spec_roi :: roi
  voxel_size :: "int list"
  interpolatable :: "bool option"
  dtype :: "np_dtype option"

datatype volume_type = RAW | ALPHA_MASK | OTHER nat

type_synonym batch_request = "volume_type \<rightharpoonup> volume_spec"

section \<open>Arrays\<close>

text \<open>
  A numpy array is its shape and its element at each index (a list of positions, one per
  axis). Elements at indices outside the shape carry no meaning. \<open>indices\<close> lists the
  indices of a shape in row-major order, the order of \<^verbatim>\<open>reshape\<close>.
\<close>

record 'a ndarray =
  shape :: "nat list"
  elem :: "nat list \<Rightarrow> 'a"

fun indices :: "nat list \<Rightarrow> nat list list" where
  "indices [] = [[]]"
| "indices (n # ns) = concat (map (\<lambda>i. map ((#) i) (indices ns)) [0..<n])"

definition flatten :: "'a ndarray \<Rightarrow> 'a list" where
  "flatten a = map (elem a) (indices (shape a))"

definition np_full :: "nat list \<Rightarrow> 'a \<Rightarrow> 'a ndarray" where
  "np_full sh v = \<lparr>shape = sh, elem = (\<lambda>_. v)\<rparr>"

definition nd_map :: "('a \<Rightarrow> 'b) \<Rightarrow> 'a ndarray \<Rightarrow> 'b ndarray" where
  "nd_map f a = \<lparr>shape = shape a, elem = (\<lambda>idx. f (elem a idx))\<rparr>"

text \<open>
  Broadcasting: shapes are aligned at their last axis; two lengths are compatible when
  they are equal or one of them is 1, otherwise the operation raises
  \<^verbatim>\<open>ValueError\<close>.
\<close>

definition bc_dim :: "nat \<Rightarrow> nat \<Rightarrow> nat option" where
  "bc_dim a b = (if a = b then Some a else if a = 1 then Some b else if b = 1 then Some a else None)"

definition pad_shape :: "nat \<Rightarrow> nat list \<Rightarrow> nat list" where
  "pad_shape n sh = replicate (n - length sh) 1 @ sh"

definition broadcast_shapes :: "nat list \<Rightarrow> nat list \<Rightarrow> nat list option" where
  "broadcast_shapes sa sb =
     (let n = max (length sa) (length sb);
          ds = map2 bc_dim (pad_shape n sa) (pad_shape n sb)
      in if list_all (\<lambda>d. d \<noteq> None) ds then Some (map the ds) else None)"

definition bc_index :: "nat list \<Rightarrow> nat list \<Rightarrow> nat list" where
  "bc_index sh idx = map2 (\<lambda>d i. if d = 1 then 0 else i) sh (drop (length idx - length sh) idx)"

definition nd_map2 :: "('a \<Rightarrow> 'b \<Rightarrow> 'c) \<Rightarrow> 'a ndarray \<Rightarrow> 'b ndarray \<Rightarrow> py_error + 'c ndarray" where
  "nd_map2 f a b =
     (case broadcast_shapes (shape a) (shape b) of
        None \<Rightarrow> Inl ValueError
      | Some sh \<Rightarrow>
          Inr \<lparr>shape = sh,
               elem = (\<lambda>idx. f (elem a (bc_index (shape a) idx)) (elem b (bc_index (shape b) idx)))\<rparr>)"

text \<open>Python's index normalisation: a negative index counts from the end.\<close>

definition norm_index :: "nat \<Rightarrow> int \<Rightarrow> nat option" where
  "norm_index n i =
     (if 0 \<le> i \<and> i < int n then Some (nat i)
      else if - int n \<le> i \<and> i < 0 then Some (nat (int n + i))
      else None)"

section \<open>The image-processing library\<close>

text \<open>
  The calls into skimage and scipy are parameters of the model, one field per function:
  \<^item> \<open>lib_line x0 y0 x1 y1\<close> is \<^verbatim>\<open>skimage.draw.line\<close>, the pixels \<open>(rr, cc)\<close> of the
    rasterised segment;
  \<^item> \<open>lib_label a\<close> is \<^verbatim>\<open>scipy.ndimage.label\<close>, the array of component labels and
    the number of components;
  \<^item> \<open>lib_binary_dilation a n\<close> is \<^verbatim>\<open>binary_dilation(a, iterations=n)\<close>;
  \<^item> \<open>lib_map_coordinates a coords mode order cval\<close> is
    \<^verbatim>\<open>map_coordinates(a, coords, mode=mode, order=order)\<close> with the fill value
    \<open>cval\<close> (scipy's default 0.0), returning the flattened samples.
  A theorem that holds for every such record holds for the library the code runs on.
\<close>

record ndimage_lib =
  lib_line :: "int \<Rightarrow> int \<Rightarrow> int \<Rightarrow> int \<Rightarrow> (int \<times> int) list"
  lib_label :: "bool ndarray \<Rightarrow> nat ndarray \<times> nat"
  lib_binary_dilation :: "bool ndarray \<Rightarrow> nat \<Rightarrow> bool ndarray"
  lib_map_coordinates ::
    "real ndarray \<Rightarrow> flt list list \<Rightarrow> string \<Rightarrow> nat \<Rightarrow> real \<Rightarrow> py_error + real list"

section \<open>DefectAugment: configuration and per-request state\<close>

text \<open>
  The constructor's arguments (defect_augment.py, lines 58-65) and the provider spec of
  the raw volume (\<^verbatim>\<open>self.spec[VolumeTypes.RAW]\<close>). The deformation strength and the
  axis are non-negative integers. \<open>augment_state\<close> holds the two dictionaries that
  \<^verbatim>\<open>prepare\<close> writes and \<^verbatim>\<open>process\<close> reads, in insertion order.
\<close>

record defect_augment =
  prob_missing :: real
  prob_low_contrast :: real
  prob_artifact :: real
  prob_deform :: real
  contrast_scale :: real
  deformation_strength :: nat
  axis :: nat
  raw_spec :: volume_spec

record transform =
  flow_x :: "flt list"
  flow_y :: "flt list"
  line_mask :: "bool ndarray"

record augment_state =
  slice_to_augmentation :: "(nat \<times> string) list"
  deform_slice_transformations :: "(nat \<times> transform) list"

section \<open>Flow-field generation\<close>

text \<open>
  \<^verbatim>\<open>__prepare_deform_slice\<close>, lines 231-238: the orientation and the endpoints of the
  tear line in the padded shape \<open>(sh0, sh1)\<close>. The result is
  \<open>(fixed_x, x0, y0, x1, y1)\<close>.
\<close>

definition tear_line_endpoints ::
  "int \<times> int \<Rightarrow> rng \<Rightarrow> py_error + ((bool \<times> int \<times> int \<times> int \<times> int) \<times> rng)" where
  "tear_line_endpoints sh g =
     (let (sh0, sh1) = sh;
          (r, g1) = random_random g;
          fixed_x = (r < 1 / 2)
      in if fixed_x then
           then_do (np_random_randint 1 (sh1 - 2) g1) (\<lambda>(y0, g2).
           then_do (np_random_randint 1 (sh1 - 2) g2) (\<lambda>(y1, g3).
             Inr ((fixed_x, 0, y0, sh0 - 1, y1), g3)))
         else
           then_do (np_random_randint 1 (sh0 - 2) g1) (\<lambda>(x0, g2).
           then_do (np_random_randint 1 (sh0 - 2) g2) (\<lambda>(x1, g3).
             Inr ((fixed_x, x0, 0, x1, sh1 - 1), g3))))"

text \<open>
  Lines 241-243: the boolean mask of the rasterised line. \<^verbatim>\<open>np.zeros\<close> refuses a
  negative dimension; the indexed assignment refuses a pixel outside the array.
\<close>

definition set_pixels :: "bool ndarray \<Rightarrow> (int \<times> int) list \<Rightarrow> py_error + bool ndarray" where
  "set_pixels m ps =
     (case shape m of
        [h, w] \<Rightarrow>
          if list_all (\<lambda>(r, c). norm_index h r \<noteq> None \<and> norm_index w c \<noteq> None) ps
          then Inr (m\<lparr>elem := (\<lambda>idx. elem m idx \<or>
                      list_ex (\<lambda>(r, c). idx = [the (norm_index h r), the (norm_index w c)]) ps)\<rparr>)
          else Inl IndexError
      | _ \<Rightarrow> Inl IndexError)"

definition rasterize_line ::
  "ndimage_lib \<Rightarrow> int \<times> int \<Rightarrow> int \<times> int \<times> int \<times> int \<Rightarrow> py_error + bool ndarray" where
  "rasterize_line lib sh ep =
     (let (sh0, sh1) = sh; (x0, y0, x1, y1) = ep
      in if sh0 < 0 \<or> sh1 < 0 then Inl ValueError
         else set_pixels (np_full [nat sh0, nat sh1] False) (lib_line lib x0 y0 x1 y1))"

text \<open>
  Lines 247-252: the unit vector of the line and its normal. The norm is zero only when
  both components are zero, and numpy's \<^verbatim>\<open>0/0\<close> is NaN.
\<close>

definition line_unit_vector :: "int \<times> int \<times> int \<times> int \<Rightarrow> flt \<times> flt" where
  "line_unit_vector ep =
     (let (x0, y0, x1, y1) = ep;
          dx = real_of_int (x1 - x0); dy = real_of_int (y1 - y0);
          n = sqrt (dx * dx + dy * dy)
      in if n = 0 then (NaN, NaN) else (Fin (dx / n), Fin (dy / n)))"

definition normal_vector :: "flt \<times> flt \<Rightarrow> flt \<times> flt" where
  "normal_vector lv = (flt_neg (snd lv), fst lv)"

text \<open>
  Line 255: \<^verbatim>\<open>np.meshgrid(np.arange(sh0), np.arange(sh1))\<close> in its default
  \<^verbatim>\<open>'xy'\<close> indexing: both arrays have shape \<open>(sh1, sh0)\<close>, with \<open>x[i, j] = j\<close> and
  \<open>y[i, j] = i\<close>.
\<close>

definition meshgrid_x :: "nat \<Rightarrow> nat \<Rightarrow> flt ndarray" where
  "meshgrid_x sh0 sh1 = \<lparr>shape = [sh1, sh0], elem = (\<lambda>idx. Fin (real (idx ! 1)))\<rparr>"

definition meshgrid_y :: "nat \<Rightarrow> nat \<Rightarrow> flt ndarray" where
  "meshgrid_y sh0 sh1 = \<lparr>shape = [sh1, sh0], elem = (\<lambda>idx. Fin (real (idx ! 0)))\<rparr>"

text \<open>
  Lines 257 and 266-269: the displacement field of one coordinate, an array of the
  padded shape that starts at zero; the pixels labelled \<open>pos_val\<close> receive \<open>v\<close>, then
  the pixels labelled \<open>neg_val\<close> receive \<open>w\<close>.
\<close>

definition displacement ::
  "nat list \<Rightarrow> nat ndarray \<Rightarrow> nat \<Rightarrow> nat \<Rightarrow> flt \<Rightarrow> flt \<Rightarrow> flt ndarray" where
  "displacement sh components pos_val neg_val v w =
     \<lparr>shape = sh,
      elem = (\<lambda>idx. if elem components idx = neg_val then w
                     else if elem components idx = pos_val then v
                     else Fin 0)\<rparr>"

text \<open>
  Lines 247-272: the flow fields, as column vectors. The corner reads of line 263 need
  a non-empty label array, and the masked assignments of lines 266-269 need the label
  array to have the padded shape. The sum of line 272 broadcasts the meshgrid, of shape
  \<open>(sh1, sh0)\<close>, against the displacement, of shape \<open>(sh0, sh1)\<close>.
\<close>

definition flow_fields ::
  "ndimage_lib \<Rightarrow> int \<Rightarrow> int \<times> int \<Rightarrow> bool \<Rightarrow> int \<times> int \<times> int \<times> int \<Rightarrow> bool ndarray
     \<Rightarrow> py_error + (flt list \<times> flt list)" where
  "flow_fields lib s sh fixed_x ep raster =
     (let nv = normal_vector (line_unit_vector ep);
          sh0 = nat (fst sh); sh1 = nat (snd sh);
          (components, n_components) = lib_label lib (nd_map Not raster)
      in if n_components \<noteq> 2 then Inl (AssertionError (str_nat n_components))
         else if shape components \<noteq> [sh0, sh1] \<or> sh0 = 0 \<or> sh1 = 0 then Inl IndexError
         else
           (let first_val = elem components [0, 0];
                last_val = elem components [sh0 - 1, sh1 - 1];
                neg_val = (if fixed_x then first_val else last_val);
                pos_val = (if fixed_x then last_val else first_val);
                strength = Fin (real_of_int s);
                dx = displacement [sh0, sh1] components pos_val neg_val
                       (flt_mul strength (snd nv)) (flt_mul (flt_neg strength) (snd nv));
                dy = displacement [sh0, sh1] components pos_val neg_val
                       (flt_mul strength (fst nv)) (flt_mul (flt_neg strength) (fst nv))
            in then_do (nd_map2 flt_add (meshgrid_x sh0 sh1) dx) (\<lambda>fx.
               then_do (nd_map2 flt_add (meshgrid_y sh0 sh1) dy) (\<lambda>fy.
                 Inr (flatten fx, flatten fy)))))"

text \<open>\<^verbatim>\<open>__prepare_deform_slice\<close>, lines 226-277.\<close>

definition prepare_deform_slice ::
  "ndimage_lib \<Rightarrow> defect_augment \<Rightarrow> int list \<Rightarrow> rng \<Rightarrow> py_error + (transform \<times> rng)" where
  "prepare_deform_slice lib cfg slice_shape g =
     (case slice_shape of
        a # b # _ \<Rightarrow>
          (let s = int (deformation_strength cfg);
               sh = (a + 2 * s, b + 2 * s)
           in then_do (tear_line_endpoints sh g) (\<lambda>((fixed_x, ep), g').
              then_do (rasterize_line lib sh ep) (\<lambda>raster.
              then_do (flow_fields lib s sh fixed_x ep raster) (\<lambda>(fx, fy).
                Inr (\<lparr>flow_x = fx, flow_y = fy,
                      line_mask = lib_binary_dilation lib raster 10\<rparr>, g')))))
      | _ \<Rightarrow> Inl IndexError)"

section \<open>Preparing a request\<close>

text \<open>
  \<^verbatim>\<open>prepare\<close>, lines 99-119: the body of the loop over the slice indices. \<open>vshape\<close> is
  the shape of the requested ROI in voxels. The dictionaries are updated as Python
  updates a \<^verbatim>\<open>dict\<close>: in place for a key already present, at the end otherwise.
\<close>

definition empty_state :: augment_state where
  "empty_state = \<lparr>slice_to_augmentation = [], deform_slice_transformations = []\<rparr>"

definition set_augmentation :: "nat \<Rightarrow> string \<Rightarrow> augment_state \<Rightarrow> augment_state" where
  "set_augmentation c kind st =
     st\<lparr>slice_to_augmentation := AList.update c kind (slice_to_augmentation st)\<rparr>"

definition prepare_slice ::
  "ndimage_lib \<Rightarrow> defect_augment \<Rightarrow> int list \<Rightarrow> nat \<Rightarrow> augment_state \<times> rng
     \<Rightarrow> py_error + (augment_state \<times> rng)" where
  "prepare_slice lib cfg vshape c sg =
     (let (st, g) = sg;
          prob_missing_threshold = prob_missing cfg;
          prob_low_contrast_threshold = prob_missing_threshold + prob_low_contrast cfg;
          prob_artifact_threshold = prob_low_contrast_threshold + prob_artifact cfg;
          prob_deform_slice = prob_artifact_threshold + prob_deform cfg;
          (r, g1) = random_random g
      in if r < prob_missing_threshold then Inr (set_augmentation c ''zero_out'' st, g1)
         else if r < prob_low_contrast_threshold then Inr (set_augmentation c ''lower_contrast'' st, g1)
         else if r < prob_artifact_threshold then Inr (set_augmentation c ''artifact'' st, g1)
         else if r < prob_deform_slice then
           then_do (prepare_deform_slice lib cfg
                      (take (axis cfg) vshape @ drop (Suc (axis cfg)) vshape) g1) (\<lambda>(tr, g2).
             Inr ((set_augmentation c ''deformed_slice'' st)
                    \<lparr>deform_slice_transformations :=
                       AList.update c tr (deform_slice_transformations st)\<rparr>, g2))
         else Inr (st, g1))"

fun prepare_loop ::
  "ndimage_lib \<Rightarrow> defect_augment \<Rightarrow> int list \<Rightarrow> nat list \<Rightarrow> augment_state \<times> rng
     \<Rightarrow> py_error + (augment_state \<times> rng)" where
  "prepare_loop lib cfg vshape [] sg = Inr sg"
| "prepare_loop lib cfg vshape (c # cs) sg =
     then_do (prepare_slice lib cfg vshape c sg) (prepare_loop lib cfg vshape cs)"

text \<open>
  Lines 123-137: the growth of the requested ROI, zero on the cut axis and
  \<open>voxel_size[d] * deformation_strength\<close> on every other axis \<open>d\<close>.
\<close>

definition growth :: "defect_augment \<Rightarrow> nat \<Rightarrow> py_error + int list" where
  "growth cfg dims =
     (let vs = voxel_size (raw_spec cfg)
      in if list_ex (\<lambda>d. d \<noteq> axis cfg \<and> length vs \<le> d) [0..<dims] then Inl IndexError
         else Inr (map (\<lambda>d. if d = axis cfg then 0
                             else vs ! d * int (deformation_strength cfg)) [0..<dims]))"

text \<open>
  \<^verbatim>\<open>prepare\<close>, lines 78-138. The result is the state kept for \<^verbatim>\<open>process\<close>, the
  request sent upstream and the random sources after the call.
\<close>

definition prepare ::
  "ndimage_lib \<Rightarrow> defect_augment \<Rightarrow> batch_request \<Rightarrow> rng
     \<Rightarrow> py_error + (augment_state \<times> batch_request \<times> rng)" where
  "prepare lib cfg request g =
     (case request RAW of
        None \<Rightarrow> Inl KeyError
      | Some spec \<Rightarrow>
          then_do (roi_div (spec_roi spec) (voxel_size (raw_spec cfg))) (\<lambda>vroi.
            let vshape = roi_shape vroi
            in if length vshape \<le> axis cfg then Inl IndexError
               else
                 then_do (prepare_loop lib cfg vshape [0..<nat (vshape ! axis cfg)]
                            (empty_state, g)) (\<lambda>(st, g').
                   if ''deformed_slice'' \<in> snd ` set (slice_to_augmentation st) then
                     then_do (growth cfg (roi_dims (spec_roi spec))) (\<lambda>gr.
                       Inr (st,
                            request(RAW \<mapsto> spec\<lparr>spec_roi := roi_grow (spec_roi spec) gr gr\<rparr>),
                            g'))
                   else Inr (st, request, g'))))"

section \<open>Sections of an array\<close>

text \<open>
  \<^verbatim>\<open>raw.data[section_selector]\<close>: the selector has \<open>ndims\<close> entries, all of them
  \<^verbatim>\<open>slice(None)\<close> except the entry of the cut axis, which is \<^verbatim>\<open>slice(c, c+1)\<close>. The
  result is a view of the array; a selector longer than the array's rank raises
  \<^verbatim>\<open>IndexError\<close>.
\<close>

definition section_shape :: "nat list \<Rightarrow> nat \<Rightarrow> nat \<Rightarrow> nat \<Rightarrow> nat list" where
  "section_shape sh ndims ax c =
     (if ax < ndims then sh[ax := (if c < sh ! ax then 1 else 0)] else sh)"

definition section_index :: "nat \<Rightarrow> nat \<Rightarrow> nat \<Rightarrow> nat list \<Rightarrow> nat list" where
  "section_index ndims ax c idx = (if ax < ndims then idx[ax := idx ! ax + c] else idx)"

definition in_section :: "nat \<Rightarrow> nat \<Rightarrow> nat \<Rightarrow> nat list \<Rightarrow> bool" where
  "in_section ndims ax c idx = (if ax < ndims then idx ! ax = c else True)"

definition select_section :: "'a ndarray \<Rightarrow> nat \<Rightarrow> nat \<Rightarrow> nat \<Rightarrow> py_error + 'a ndarray" where
  "select_section a ndims ax c =
     (if length (shape a) < ndims then Inl IndexError
      else Inr \<lparr>shape = section_shape (shape a) ndims ax c,
                elem = (\<lambda>idx. elem a (section_index ndims ax c idx))\<rparr>)"

text \<open>
  \<^verbatim>\<open>raw.data[section_selector] = value\<close>: the value is broadcast to the shape of the
  section. numpy first drops leading axes of length 1 that the value has in excess of
  the section's rank.
\<close>

fun strip_leading :: "nat \<Rightarrow> nat list \<Rightarrow> nat list" where
  "strip_leading n [] = []"
| "strip_leading n (d # ds) = (if n < length (d # ds) \<and> d = 1 then strip_leading n ds else d # ds)"

definition assignable :: "nat list \<Rightarrow> nat list \<Rightarrow> bool" where
  "assignable src tgt =
     (let s = strip_leading (length tgt) src
      in length s \<le> length tgt \<and>
         list_all (\<lambda>(d, t). d = t \<or> d = 1) (zip s (drop (length tgt - length s) tgt)))"

definition assign_index :: "nat list \<Rightarrow> nat list \<Rightarrow> nat list" where
  "assign_index src idx =
     (let s = strip_leading (length idx) src
      in replicate (length src - length s) 0 @ bc_index s idx)"

definition assign_section ::
  "'a ndarray \<Rightarrow> nat \<Rightarrow> nat \<Rightarrow> nat \<Rightarrow> 'a ndarray \<Rightarrow> py_error + 'a ndarray" where
  "assign_section a ndims ax c v =
     (if length (shape a) < ndims then Inl IndexError
      else if \<not> assignable (shape v) (section_shape (shape a) ndims ax c) then Inl ValueError
      else Inr (a\<lparr>elem := (\<lambda>idx. if in_section ndims ax c idx
                                   then elem v (assign_index (shape v)
                                          (if ax < ndims then idx[ax := idx ! ax - c] else idx))
                                   else elem a idx)\<rparr>))"

text \<open>
  \<^verbatim>\<open>squeeze()\<close> drops every axis of length 1; \<open>unsqueeze\<close> maps an index of the
  squeezed array back to the index of the array it came from. \<open>ravel_index\<close> is the
  row-major position of an index, used by \<^verbatim>\<open>reshape\<close>.
\<close>

fun unsqueeze :: "nat list \<Rightarrow> nat list \<Rightarrow> nat list" where
  "unsqueeze [] idx = []"
| "unsqueeze (d # ds) idx =
     (if d = 1 then 0 # unsqueeze ds idx
      else (case idx of [] \<Rightarrow> 0 # unsqueeze ds [] | i # rest \<Rightarrow> i # unsqueeze ds rest))"

definition squeeze :: "'a ndarray \<Rightarrow> 'a ndarray" where
  "squeeze a = \<lparr>shape = filter (\<lambda>d. d \<noteq> 1) (shape a),
                 elem = (\<lambda>idx. elem a (unsqueeze (shape a) idx))\<rparr>"

text \<open>
  An array handed to the library is a value of its own: \<open>materialize\<close> keeps the
  elements at the indices of the shape and nothing of the array it is a view of.
\<close>

definition in_bounds :: "nat list \<Rightarrow> nat list \<Rightarrow> bool" where
  "in_bounds sh idx = (length idx = length sh \<and> list_all (\<lambda>(i, n). i < n) (zip idx sh))"

definition materialize :: "real ndarray \<Rightarrow> real ndarray" where
  "materialize a = a\<lparr>elem := (\<lambda>idx. if in_bounds (shape a) idx then elem a idx else 0)\<rparr>"

definition ravel_index :: "nat list \<Rightarrow> nat list \<Rightarrow> nat" where
  "ravel_index sh idx = foldl (\<lambda>acc (d, i). acc * d + i) 0 (zip sh idx)"

definition reshape :: "'a list \<Rightarrow> nat list \<Rightarrow> py_error + 'a ndarray" where
  "reshape xs sh =
     (if length xs \<noteq> prod_list sh then Inl ValueError
      else Inr \<lparr>shape = sh, elem = (\<lambda>idx. xs ! ravel_index sh idx)\<rparr>)"

text \<open>
  Python's \<^verbatim>\<open>slice(s, -s)\<close> on an axis of length \<open>n\<close>, for a non-negative \<open>s\<close>: the
  first position kept and the number of positions kept. The stop \<open>-s\<close> counts from the
  end when \<open>s > 0\<close>, and is the position 0 when \<open>s = 0\<close>.
\<close>

definition slice_start :: "nat \<Rightarrow> nat \<Rightarrow> nat" where
  "slice_start n s = min s n"

definition slice_stop :: "nat \<Rightarrow> nat \<Rightarrow> nat" where
  "slice_stop n s = (if s = 0 then 0 else n - s)"

definition slice_length :: "nat \<Rightarrow> nat \<Rightarrow> nat" where
  "slice_length n s = slice_stop n s - slice_start n s"

section \<open>Processing a batch\<close>

text \<open>
  A volume is its data, the data's dtype and its spec; a batch maps volume types to
  volumes, and \<open>total_roi\<close> is what \<^verbatim>\<open>batch.get_total_roi()\<close> returns. The artifact
  source is the provider of \<^verbatim>\<open>self.artifact_source\<close>: the voxel size of its
  \<^verbatim>\<open>ALPHA_MASK\<close> spec and its \<^verbatim>\<open>request_batch\<close>, which may answer each call
  differently (its first argument counts the earlier calls) and receives the shapes
  requested for each volume type. Element values are real numbers: the conversion of a
  result to the dtype of the array it is stored in is outside the model.
\<close>

record volume =
  vol_data :: "real ndarray"
  vol_dtype :: np_dtype
  vol_spec :: volume_spec

record batch =
  volumes :: "volume_type \<rightharpoonup> volume"
  total_roi :: roi

record artifact_source =
  alpha_mask_voxel_size :: "int list"
  request_batch :: "nat \<Rightarrow> (volume_type \<times> int list) list \<Rightarrow> py_error + batch"

text \<open>Line 155: \<^verbatim>\<open>raw.data[section_selector] = 0\<close>.\<close>

definition zero_out_slice :: "real ndarray \<Rightarrow> nat \<Rightarrow> nat \<Rightarrow> nat \<Rightarrow> py_error + real ndarray" where
  "zero_out_slice data ndims ax c = assign_section data ndims ax c (np_full [] 0)"

text \<open>
  Lines 158-165: the section is a view, so the three in-place operations change the
  raw data itself. An in-place operation with a float operand on an integer array
  raises \<^verbatim>\<open>TypeError\<close>.
\<close>

definition mean_of :: "real ndarray \<Rightarrow> real" where
  "mean_of a = sum_list (flatten a) / real (length (flatten a))"

definition low_contrast_slice ::
  "defect_augment \<Rightarrow> np_dtype \<Rightarrow> real ndarray \<Rightarrow> nat \<Rightarrow> nat \<Rightarrow> nat \<Rightarrow> py_error + real ndarray" where
  "low_contrast_slice cfg dt data ndims ax c =
     then_do (select_section data ndims ax c) (\<lambda>section.
       if dt = UInt8 \<or> dt = Bool8 then Inl TypeError
       else
         (let mean = mean_of section
          in Inr (data\<lparr>elem := (\<lambda>idx. if in_section ndims ax c idx
                                        then (elem data idx - mean) * contrast_scale cfg + mean
                                        else elem data idx)\<rparr>)))"

text \<open>
  Lines 169-191: the alpha blend with a batch of the artifact source.
  \<^verbatim>\<open>artifact_alpha.min() >= 0.0\<close> holds when every element is at least 0, and
  \<^verbatim>\<open>min()\<close> of an empty array raises \<^verbatim>\<open>ValueError\<close>.
\<close>

definition artifact_slice ::
  "artifact_source option \<Rightarrow> defect_augment \<Rightarrow> np_dtype \<Rightarrow> nat \<Rightarrow> real ndarray \<Rightarrow> nat \<Rightarrow> nat \<Rightarrow> nat
     \<Rightarrow> py_error + (real ndarray \<times> nat)" where
  "artifact_slice src cfg dt calls data ndims ax c =
     then_do (select_section data ndims ax c) (\<lambda>section.
       case src of
         None \<Rightarrow> Inl AttributeError
       | Some a \<Rightarrow>
           if voxel_size (raw_spec cfg) \<noteq> alpha_mask_voxel_size a
           then Inl (AssertionError
                  ''Can only alpha blend RAW with ALPHA_MASK if both have the same voxel size'')
           else
             then_do (request_batch a calls
                        [(RAW, map2 (\<lambda>n v. int n * v) (shape section) (voxel_size (raw_spec cfg))),
                         (ALPHA_MASK, map2 (\<lambda>n v. int n * v) (shape section) (alpha_mask_voxel_size a))])
               (\<lambda>artifact_batch.
                 case volumes artifact_batch ALPHA_MASK of
                   None \<Rightarrow> Inl KeyError
                 | Some artifact_alpha \<Rightarrow>
                     (case volumes artifact_batch RAW of
                        None \<Rightarrow> Inl KeyError
                      | Some artifact_raw \<Rightarrow>
                          if vol_dtype artifact_raw \<noteq> dt then Inl (AssertionError [])
                          else if vol_dtype artifact_alpha \<noteq> Float32 then Inl (AssertionError [])
                          else if flatten (vol_data artifact_alpha) = [] then Inl ValueError
                          else if \<not> list_all (\<lambda>v. 0 \<le> v) (flatten (vol_data artifact_alpha))
                          then Inl (AssertionError [])
                          else if \<not> list_all (\<lambda>v. v \<le> 1) (flatten (vol_data artifact_alpha))
                          then Inl (AssertionError [])
                          else
                            then_do (nd_map2 (\<lambda>x al. x * (1 - al)) section (vol_data artifact_alpha))
                              (\<lambda>kept.
                            then_do (nd_map2 (\<lambda>x al. x * al) (vol_data artifact_raw)
                                       (vol_data artifact_alpha)) (\<lambda>added.
                            then_do (nd_map2 (\<lambda>x y. x + y) kept added) (\<lambda>blend.
                            then_do (assign_section data ndims ax c blend) (\<lambda>data'.
                              Inr (data', Suc calls))))))))"

text \<open>
  Lines 195-212: the deformed slice. \<^verbatim>\<open>map_coordinates\<close> receives two coordinate
  arrays and so needs a section of rank 2 (scipy raises \<^verbatim>\<open>RuntimeError\<close> otherwise);
  the boolean mask must have the shape of the resampled section.
\<close>

definition deformed_slice ::
  "ndimage_lib \<Rightarrow> defect_augment \<Rightarrow> augment_state \<Rightarrow> real ndarray \<Rightarrow> nat \<Rightarrow> nat \<Rightarrow> nat
     \<Rightarrow> py_error + real ndarray" where
  "deformed_slice lib cfg st data ndims ax c =
     then_do (select_section data ndims ax c) (\<lambda>selected.
       let section = materialize (squeeze selected);
           interpolation = (if interpolatable (raw_spec cfg) = Some True then 3 else 0)
       in case map_of (deform_slice_transformations st) c of
            None \<Rightarrow> Inl KeyError
          | Some tr \<Rightarrow>
              if length (shape section) \<noteq> 2 then Inl RuntimeError
              else
                then_do (lib_map_coordinates lib section [flow_y tr, flow_x tr]
                           ''constant'' interpolation 0) (\<lambda>samples.
                then_do (reshape samples (shape section)) (\<lambda>resampled.
                  if shape (line_mask tr) \<noteq> shape resampled then Inl IndexError
                  else assign_section data ndims ax c
                         (resampled\<lparr>elem := (\<lambda>idx. if elem (line_mask tr) idx then 0
                                                      else elem resampled idx)\<rparr>))))"

text \<open>
  Lines 147-212: the dispatch on the augmentation type of one plan entry, and the loop
  over the plan. The loop state is the raw data and the number of calls made to the
  artifact source. An exception leaves the loop with the data as the entries before it
  have changed them.
\<close>

definition process_slice ::
  "ndimage_lib \<Rightarrow> artifact_source option \<Rightarrow> defect_augment \<Rightarrow> augment_state \<Rightarrow> np_dtype \<Rightarrow> nat
     \<Rightarrow> nat \<times> string \<Rightarrow> real ndarray \<times> nat \<Rightarrow> py_error + (real ndarray \<times> nat)" where
  "process_slice lib src cfg st dt ndims item dc =
     (let (c, augmentation_type) = item; (data, calls) = dc
      in if augmentation_type = ''zero_out''
         then then_do (zero_out_slice data ndims (axis cfg) c) (\<lambda>d. Inr (d, calls))
         else if augmentation_type = ''low_contrast''
         then then_do (low_contrast_slice cfg dt data ndims (axis cfg) c) (\<lambda>d. Inr (d, calls))
         else if augmentation_type = ''artifact''
         then artifact_slice src cfg dt calls data ndims (axis cfg) c
         else if augmentation_type = ''deformed_slice''
         then then_do (deformed_slice lib cfg st data ndims (axis cfg) c) (\<lambda>d. Inr (d, calls))
         else Inr (data, calls))"

fun process_loop ::
  "ndimage_lib \<Rightarrow> artifact_source option \<Rightarrow> defect_augment \<Rightarrow> augment_state \<Rightarrow> np_dtype \<Rightarrow> nat
     \<Rightarrow> (nat \<times> string) list \<Rightarrow> real ndarray \<times> nat
     \<Rightarrow> py_error option \<times> (real ndarray \<times> nat)" where
  "process_loop lib src cfg st dt ndims [] dc = (None, dc)"
| "process_loop lib src cfg st dt ndims (item # rest) dc =
     (case process_slice lib src cfg st dt ndims item dc of
        Inl e \<Rightarrow> (Some e, dc)
      | Inr dc' \<Rightarrow> process_loop lib src cfg st dt ndims rest dc')"

text \<open>
  Lines 219-223: the crop. Every axis but the cut axis keeps
  \<^verbatim>\<open>slice(deformation_strength, -deformation_strength)\<close>.
\<close>

definition crop_index :: "nat list \<Rightarrow> nat \<Rightarrow> nat \<Rightarrow> nat \<Rightarrow> nat list \<Rightarrow> nat list" where
  "crop_index sh ndims ax s idx =
     map2 (\<lambda>d i. if d < ndims \<and> d \<noteq> ax then i + slice_start (sh ! d) s else i)
       [0..<length idx] idx"

definition crop :: "'a ndarray \<Rightarrow> nat \<Rightarrow> nat \<Rightarrow> nat \<Rightarrow> 'a ndarray" where
  "crop a ndims ax s =
     \<lparr>shape = map2 (\<lambda>d n. if d < ndims \<and> d \<noteq> ax then slice_length n s else n)
                [0..<length (shape a)] (shape a),
      elem = (\<lambda>idx. elem a (crop_index (shape a) ndims ax s idx))\<rparr>"

text \<open>
  \<^verbatim>\<open>process\<close>, lines 140-224. The function returns nothing; the model returns the
  exception raised, if any, and the batch as the call leaves it.
\<close>

definition process ::
  "ndimage_lib \<Rightarrow> artifact_source option \<Rightarrow> defect_augment \<Rightarrow> augment_state \<Rightarrow> batch
     \<Rightarrow> batch_request \<Rightarrow> py_error option \<times> batch" where
  "process lib src cfg st b request =
     (if roi_dims (total_roi b) \<noteq> 3
      then (Some (AssertionError ''defectaugment works on 3d batches only''), b)
      else
        (case volumes b RAW of
           None \<Rightarrow> (Some KeyError, b)
         | Some raw \<Rightarrow>
             (let ndims = roi_dims (spec_roi (vol_spec raw));
                  (err, data) = map_prod id fst
                                  (process_loop lib src cfg st (vol_dtype raw) ndims
                                     (slice_to_augmentation st) (vol_data raw, 0));
                  b1 = b\<lparr>volumes := (volumes b)(RAW \<mapsto> raw\<lparr>vol_data := data\<rparr>)\<rparr>
              in case err of
                   Some e \<Rightarrow> (Some e, b1)
                 | None \<Rightarrow>
                     if ''deformed_slice'' \<in> snd ` set (slice_to_augmentation st) then
                       (case request RAW of
                          None \<Rightarrow> (Some KeyError, b1)
                        | Some rspec \<Rightarrow>
                            if length (shape data) < ndims then (Some IndexError, b1)
                            else
                              (None,
                               b\<lparr>volumes := (volumes b)(RAW \<mapsto>
                                    raw\<lparr>vol_data := crop data ndims (axis cfg)
                                                        (deformation_strength cfg),
                                        vol_spec := (vol_spec raw)\<lparr>spec_roi := spec_roi rspec\<rparr>\<rparr>)\<rparr>))
                     else (None, b1))))"

text \<open>
  Modelled from the spec: \<^verbatim>\<open>BatchFilter.provide\<close> (the node framework) is not among
  the sources. The plan and the expanded request are made in the preparation phase, the
  expanded request goes upstream, and the processing phase receives the fetched batch
  together with the request as the caller made it, so that the original ROI can be
  restored.
\<close>

definition provide ::
  "ndimage_lib \<Rightarrow> artifact_source option \<Rightarrow> defect_augment \<Rightarrow> (batch_request \<Rightarrow> py_error + batch)
     \<Rightarrow> batch_request \<Rightarrow> rng \<Rightarrow> py_error + (batch \<times> rng)" where
  "provide lib src cfg upstream request g =
     then_do (prepare lib cfg request g) (\<lambda>(st, upstream_request, g').
     then_do (upstream upstream_request) (\<lambda>b.
       case process lib src cfg st b request of
         (Some e, _) \<Rightarrow> Inl e
       | (None, b') \<Rightarrow> Inr (b', g')))"

section \<open>A reference library\<close>

text \<open>
  Concrete functions for the library's fields, after the documentation of skimage and
  scipy, on which the model can run at concrete inputs.

  \<open>ref_line\<close> is the Bresenham rasterisation of \<^verbatim>\<open>skimage.draw.line\<close>: it walks along
  the longer extent of the segment and steps along the shorter one whenever the error
  term reaches zero; the last pixel is the end of the segment.
\<close>

function line_adjust :: "int \<Rightarrow> int \<Rightarrow> int \<Rightarrow> int \<Rightarrow> int \<times> int" where
  "line_adjust r d sr dc =
     (if 0 \<le> d \<and> 0 < dc then line_adjust (r + sr) (d - 2 * dc) sr dc else (r, d))"
  by pat_completeness auto
termination
  by (relation "measure (\<lambda>(r, d, sr, dc). nat (d + 1))") auto

declare line_adjust.simps [simp del]

fun line_loop ::
  "nat \<Rightarrow> bool \<Rightarrow> int \<Rightarrow> int \<Rightarrow> int \<Rightarrow> int \<Rightarrow> int \<Rightarrow> int \<Rightarrow> int \<Rightarrow> (int \<times> int) list" where
  "line_loop 0 steep r c d sr sc dr dc = []"
| "line_loop (Suc k) steep r c d sr sc dr dc =
     (let px = (if steep then (c, r) else (r, c));
          (r', d') = line_adjust r d sr dc
      in px # line_loop k steep r' (c + sc) (d' + 2 * dr) sr sc dr dc)"

definition ref_line :: "int \<Rightarrow> int \<Rightarrow> int \<Rightarrow> int \<Rightarrow> (int \<times> int) list" where
  "ref_line r0 c0 r1 c1 =
     (let dr = \<bar>r1 - r0\<bar>; dc = \<bar>c1 - c0\<bar>;
          sc = (if 0 < c1 - c0 then 1 else - 1);
          sr = (if 0 < r1 - r0 then 1 else - 1)
      in if dc < dr
         then line_loop (nat dr) True c0 r0 (2 * dc - dr) sc sr dc dr @ [(r1, c1)]
         else line_loop (nat dc) False r0 c0 (2 * dr - dc) sr sc dr dc @ [(r1, c1)])"

text \<open>
  \<open>ref_label\<close> is \<^verbatim>\<open>scipy.ndimage.label\<close> with its default structuring element on a
  two-dimensional array: two set pixels belong to one component when a path of
  horizontal and vertical steps over set pixels joins them. The pixels are visited in
  row-major order and each joins the components of its neighbours seen so far; the
  components are numbered from 1 in the order of their first pixels, and unset pixels
  are labelled 0.
\<close>

definition adjacent4 :: "nat \<times> nat \<Rightarrow> nat \<times> nat \<Rightarrow> bool" where
  "adjacent4 p q =
     ((fst p = fst q \<and> (snd p = Suc (snd q) \<or> snd q = Suc (snd p))) \<or>
      (snd p = snd q \<and> (fst p = Suc (fst q) \<or> fst q = Suc (fst p))))"

fun join_pixel :: "(nat \<times> nat) list list \<Rightarrow> nat \<times> nat \<Rightarrow> (nat \<times> nat) list list" where
  "join_pixel [] p = [[p]]"
| "join_pixel (region # regions) p =
     (if list_ex (adjacent4 p) region
      then (region @ concat (filter (list_ex (adjacent4 p)) regions) @ [p])
             # filter (\<lambda>k. \<not> list_ex (adjacent4 p) k) regions
      else region # join_pixel regions p)"

definition set_pixels_of :: "bool ndarray \<Rightarrow> (nat \<times> nat) list" where
  "set_pixels_of a =
     (case shape a of
        [h, w] \<Rightarrow> filter (\<lambda>p. elem a [fst p, snd p]) (List.product [0..<h] [0..<w])
      | _ \<Rightarrow> [])"

fun label_of :: "(nat \<times> nat) list list \<Rightarrow> nat \<times> nat \<Rightarrow> nat" where
  "label_of [] p = 0"
| "label_of (region # regions) p =
     (if List.member region p then 1
      else (case label_of regions p of 0 \<Rightarrow> 0 | Suc k \<Rightarrow> Suc (Suc k)))"

definition ref_label :: "bool ndarray \<Rightarrow> nat ndarray \<times> nat" where
  "ref_label a =
     (let comps = foldl join_pixel [] (set_pixels_of a)
      in (\<lparr>shape = shape a,
           elem = (\<lambda>idx. case idx of [i, j] \<Rightarrow> label_of comps (i, j) | _ \<Rightarrow> 0)\<rparr>,
          length comps))"

text \<open>
  \<open>ref_binary_dilation\<close> is \<^verbatim>\<open>scipy.ndimage.binary_dilation\<close> with its default
  structuring element and border value on a two-dimensional array: one iteration sets
  every pixel that is set or has a set horizontal or vertical neighbour.
\<close>

definition dilate_once :: "bool ndarray \<Rightarrow> bool ndarray" where
  "dilate_once a =
     a\<lparr>elem := (\<lambda>idx. case idx of
                  [i, j] \<Rightarrow>
                    (case shape a of
                       [h, w] \<Rightarrow>
                         i < h \<and> j < w \<and>
                         (elem a [i, j] \<or> (0 < i \<and> elem a [i - 1, j]) \<or> (Suc i < h \<and> elem a [Suc i, j])
                          \<or> (0 < j \<and> elem a [i, j - 1]) \<or> (Suc j < w \<and> elem a [i, Suc j]))
                     | _ \<Rightarrow> False)
                | _ \<Rightarrow> False)\<rparr>"

definition ref_binary_dilation :: "bool ndarray \<Rightarrow> nat \<Rightarrow> bool ndarray" where
  "ref_binary_dilation a n = (dilate_once ^^ n) a"

text \<open>
  \<open>ref_map_coordinates\<close> is \<^verbatim>\<open>scipy.ndimage.map_coordinates\<close> in mode
  \<^verbatim>\<open>'constant'\<close> at order 0 on a two-dimensional array: each sample is the element at
  the grid point nearest to its coordinates, or the fill value outside the array. At
  whole-number coordinates every interpolation order returns that element.
\<close>

definition nearest :: "flt \<Rightarrow> int option" where
  "nearest x = (case x of Fin v \<Rightarrow> Some \<lfloor>v + 1 / 2\<rfloor> | NaN \<Rightarrow> None)"

definition sample_at :: "real ndarray \<Rightarrow> real \<Rightarrow> flt \<Rightarrow> flt \<Rightarrow> real" where
  "sample_at a cval y x =
     (case (shape a, nearest y, nearest x) of
        ([h, w], Some i, Some j) \<Rightarrow>
          if 0 \<le> i \<and> i < int h \<and> 0 \<le> j \<and> j < int w then elem a [nat i, nat j] else cval
      | _ \<Rightarrow> cval)"

definition ref_map_coordinates ::
  "real ndarray \<Rightarrow> flt list list \<Rightarrow> string \<Rightarrow> nat \<Rightarrow> real \<Rightarrow> py_error + real list" where
  "ref_map_coordinates a coords mode ord cval =
     (case coords of
        [ys, xs] \<Rightarrow>
          if length (shape a) \<noteq> 2 \<or> length ys \<noteq> length xs \<or> mode \<noteq> ''constant''
          then Inl RuntimeError
          else Inr (map2 (sample_at a cval) ys xs)
      | _ \<Rightarrow> Inl RuntimeError)"

definition ref_lib :: ndimage_lib where
  "ref_lib = \<lparr>lib_line = ref_line, lib_label = ref_label,
              lib_binary_dilation = ref_binary_dilation,
              lib_map_coordinates = ref_map_coordinates\<rparr>"

section \<open>Notions used to state the properties\<close>

text \<open>
  The kind that the thresholds \<open>t1 = p_missing\<close>, \<open>t2 = t1 + p_low_contrast\<close>,
  \<open>t3 = t2 + p_artifact\<close>, \<open>t4 = t3 + p_deform\<close> give a draw \<open>r\<close>: the first interval
  that holds \<open>r\<close>, and none from \<open>t4\<close> on.
\<close>

definition planned_kind :: "defect_augment \<Rightarrow> real \<Rightarrow> string option" where
  "planned_kind cfg r =
     (let t1 = prob_missing cfg;
          t2 = t1 + prob_low_contrast cfg;
          t3 = t2 + prob_artifact cfg;
          t4 = t3 + prob_deform cfg
      in if r < t1 then Some ''zero_out''
         else if r < t2 then Some ''lower_contrast''
         else if r < t3 then Some ''artifact''
         else if r < t4 then Some ''deformed_slice''
         else None)"

text \<open>
  The position, in the stream of \<^verbatim>\<open>random.random()\<close>, of the draw that classifies
  slice \<open>c\<close>: one draw per slice, and one more after each deformed slice, whose
  flow-field generation draws the orientation of its tear line (line 232).
\<close>

fun slice_draw_pos :: "defect_augment \<Rightarrow> rng \<Rightarrow> nat \<Rightarrow> nat" where
  "slice_draw_pos cfg g 0 = rand_pos g"
| "slice_draw_pos cfg g (Suc c) =
     (let p = slice_draw_pos cfg g c
      in if planned_kind cfg (rand_stream g p) = Some ''deformed_slice'' then p + 2 else p + 1)"

text \<open>
  The number \<open>N\<close> of slices of a requested raw spec, the extent of its ROI along the cut
  axis divided by the voxel size along that axis, and the shape in voxels of one slice
  (line 118). A request is well formed when its ROI and the voxel size of the raw volume
  have the same dimension, no voxel size is zero and the cut axis is one of the axes.
\<close>

definition slice_count :: "defect_augment \<Rightarrow> volume_spec \<Rightarrow> nat" where
  "slice_count cfg spec =
     nat (roi_shape (spec_roi spec) ! axis cfg div voxel_size (raw_spec cfg) ! axis cfg)"

definition slice_shape_of :: "defect_augment \<Rightarrow> volume_spec \<Rightarrow> int list" where
  "slice_shape_of cfg spec =
     (let vshape = map2 (\<lambda>x v. x div v) (roi_shape (spec_roi spec)) (voxel_size (raw_spec cfg))
      in take (axis cfg) vshape @ drop (Suc (axis cfg)) vshape)"

definition well_formed :: "defect_augment \<Rightarrow> volume_spec \<Rightarrow> bool" where
  "well_formed cfg spec \<longleftrightarrow>
     length (roi_offset (spec_roi spec)) = length (voxel_size (raw_spec cfg))
   \<and> length (roi_shape (spec_roi spec)) = length (voxel_size (raw_spec cfg))
   \<and> list_all (\<lambda>v. v \<noteq> 0) (voxel_size (raw_spec cfg))
   \<and> axis cfg < length (voxel_size (raw_spec cfg))"

text \<open>
  The random sources as the loop of \<^verbatim>\<open>prepare\<close> finds them at slice \<open>c\<close>: every slice
  consumes one draw of \<^verbatim>\<open>random.random()\<close>, and every deformed slice one more (the
  orientation, line 232) and two draws of \<^verbatim>\<open>np.random.randint\<close> (the endpoints,
  lines 234-238). \<open>generation_returns\<close> says that \<^verbatim>\<open>__prepare_deform_slice\<close>, called
  for slice \<open>c\<close> after the draw that classifies it, returns.
\<close>

definition after_slice :: "defect_augment \<Rightarrow> rng \<Rightarrow> rng" where
  "after_slice cfg h =
     (if planned_kind cfg (rand_stream h (rand_pos h)) = Some ''deformed_slice''
      then h\<lparr>rand_pos := rand_pos h + 2, randint_pos := randint_pos h + 2\<rparr>
      else h\<lparr>rand_pos := Suc (rand_pos h)\<rparr>)"

fun slice_rng :: "defect_augment \<Rightarrow> rng \<Rightarrow> nat \<Rightarrow> rng" where
  "slice_rng cfg g 0 = g"
| "slice_rng cfg g (Suc c) = after_slice cfg (slice_rng cfg g c)"

definition generation_returns ::
  "ndimage_lib \<Rightarrow> defect_augment \<Rightarrow> volume_spec \<Rightarrow> rng \<Rightarrow> nat \<Rightarrow> bool" where
  "generation_returns lib cfg spec g c =
     (case prepare_deform_slice lib cfg (slice_shape_of cfg spec)
             ((slice_rng cfg g c)\<lparr>rand_pos := Suc (rand_pos (slice_rng cfg g c))\<rparr>) of
        Inr _ \<Rightarrow> True
      | Inl _ \<Rightarrow> False)"

text \<open>
  Random sources whose \<^verbatim>\<open>random.random()\<close> always returns \<open>r\<close> and whose first
  two raw integer outputs reduce to \<open>v\<close> and \<open>w\<close> in a range that starts at 1.
\<close>

definition draws_for :: "real \<Rightarrow> int \<Rightarrow> int \<Rightarrow> rng" where
  "draws_for r v w =
     \<lparr>rand_stream = (\<lambda>_. r), rand_pos = 0,
      randint_stream = (\<lambda>n. if n = 0 then nat (v - 1) else nat (w - 1)), randint_pos = 0\<rparr>"

section \<open>A worked request\<close>

text \<open>
  A raw volume with voxel size \<open>(40, 4, 4)\<close>, a request for two slices of \<open>2 \<times> 2\<close>
  voxels cut along axis 0, a deformation strength of one voxel, and random sources whose
  draws classify slice 0 as deformed (with a fixed-x tear line) and slice 1 as missing.
  The padded slice has \<open>4 \<times> 4\<close> voxels and the tear line runs down its column 1.
  \<open>three_label_lib\<close> is the reference library with a labelling that reports three
  components.
\<close>

definition ex_raw_spec :: volume_spec where
  "ex_raw_spec = \<lparr>spec_roi = \<lparr>roi_offset = [0, 0, 0], roi_shape = [400, 40, 40]\<rparr>,
                   voxel_size = [40, 4, 4], interpolatable = Some True, dtype = Some Float32\<rparr>"

definition ex_cfg :: defect_augment where
  "ex_cfg = \<lparr>prob_missing = 1 / 4, prob_low_contrast = 1 / 4, prob_artifact = 1 / 4,
             prob_deform = 1 / 4, contrast_scale = 1 / 10, deformation_strength = 1,
             axis = 0, raw_spec = ex_raw_spec\<rparr>"

definition ex_roi :: roi where
  "ex_roi = \<lparr>roi_offset = [0, 8, 8], roi_shape = [80, 8, 8]\<rparr>"

definition ex_request :: batch_request where
  "ex_request = [RAW \<mapsto> ex_raw_spec\<lparr>spec_roi := ex_roi\<rparr>,
                 OTHER 0 \<mapsto> ex_raw_spec\<lparr>spec_roi := ex_roi\<rparr>]"

definition ex_rng :: rng where
  "ex_rng = \<lparr>rand_stream = (\<lambda>n. if n = 0 then 4 / 5 else if n = 1 then 3 / 10 else 1 / 10),
             rand_pos = 0, randint_stream = (\<lambda>_. 0), randint_pos = 0\<rparr>"

definition ex_line_mask :: "bool ndarray" where
  "ex_line_mask = \<lparr>shape = [4, 4],
      elem = (\<lambda>idx. idx = [0, 1] \<or> idx = [1, 1] \<or> idx = [2, 1] \<or> idx = [3, 1])\<rparr>"

definition three_label_lib :: ndimage_lib where
  "three_label_lib = ref_lib\<lparr>lib_label := (\<lambda>a. (fst (ref_label a), 3))\<rparr>"

definition flat_cfg :: defect_augment where
  "flat_cfg = ex_cfg\<lparr>deformation_strength := 0\<rparr>"

definition line_mask_4x5 :: "bool ndarray" where
  "line_mask_4x5 = \<lparr>shape = [4, 5],
      elem = (\<lambda>idx. idx = [0, 1] \<or> idx = [1, 1] \<or> idx = [2, 1] \<or> idx = [3, 1])\<rparr>"

definition line_mask_1x5 :: "bool ndarray" where
  "line_mask_1x5 = \<lparr>shape = [1, 5], elem = (\<lambda>idx. idx = [0, 1] \<or> idx = [0, 2])\<rparr>"

definition lc_cfg :: defect_augment where
  "lc_cfg = ex_cfg\<lparr>prob_missing := 0, prob_low_contrast := 1, prob_artifact := 0,
                    prob_deform := 0\<rparr>"

definition lc_roi :: roi where
  "lc_roi = \<lparr>roi_offset = [0, 0, 0], roi_shape = [40, 4, 8]\<rparr>"

definition lc_request :: batch_request where
  "lc_request = [RAW \<mapsto> ex_raw_spec\<lparr>spec_roi := lc_roi\<rparr>]"

definition lc_batch :: batch where
  "lc_batch =
     \<lparr>volumes = [RAW \<mapsto> \<lparr>vol_data = \<lparr>shape = [1, 1, 2],
                                        elem = (\<lambda>idx. if idx = [0, 0, 1] then 10 else 0)\<rparr>,
                           vol_dtype = Float32,
                           vol_spec = ex_raw_spec\<lparr>spec_roi := lc_roi\<rparr>\<rparr>],
      total_roi = lc_roi\<rparr>"













text \<open>
  Three more requests: one for three slices, one whose slices have \<open>2 \<times> 3\<close> voxels, and
  the worked request at a deformation strength of two voxels, where the padded slice has
  \<open>6 \<times> 6\<close> voxels.
\<close>

definition long_roi :: roi where
  "long_roi = \<lparr>roi_offset = [0, 8, 8], roi_shape = [120, 8, 8]\<rparr>"

definition long_request :: batch_request where
  "long_request = [RAW \<mapsto> ex_raw_spec\<lparr>spec_roi := long_roi\<rparr>]"

definition nonsq_roi :: roi where
  "nonsq_roi = \<lparr>roi_offset = [0, 8, 8], roi_shape = [80, 8, 12]\<rparr>"

definition nonsq_request :: batch_request where
  "nonsq_request = [RAW \<mapsto> ex_raw_spec\<lparr>spec_roi := nonsq_roi\<rparr>]"

definition strong_cfg :: defect_augment where
  "strong_cfg = ex_cfg\<lparr>deformation_strength := 2\<rparr>"

definition line_mask_6x6 :: "bool ndarray" where
  "line_mask_6x6 = \<lparr>shape = [6, 6],
      elem = (\<lambda>idx. idx = [0, 1] \<or> idx = [1, 1] \<or> idx = [2, 1] \<or> idx = [3, 1]
                   \<or> idx = [4, 1] \<or> idx = [5, 1])\<rparr>"

definition zr_roi :: roi where
  "zr_roi = \<lparr>roi_offset = [0, 0, 0], roi_shape = [40, 16, 16]\<rparr>"

definition zr_request :: batch_request where
  "zr_request = [RAW \<mapsto> ex_raw_spec\<lparr>spec_roi := zr_roi\<rparr>]"

definition zr_batch :: batch where
  "zr_batch = \<lparr>volumes = [RAW \<mapsto> \<lparr>vol_data = np_full [1, 4, 4] 5, vol_dtype = Float32,
                                     vol_spec = ex_raw_spec\<lparr>spec_roi := zr_roi\<rparr>\<rparr>],
                total_roi = zr_roi\<rparr>"

definition ax_cfg :: defect_augment where
  "ax_cfg = ex_cfg\<lparr>axis := 1\<rparr>"

definition ax_roi :: roi where
  "ax_roi = \<lparr>roi_offset = [40, 0, 8], roi_shape = [80, 4, 8]\<rparr>"

definition ax_request :: batch_request where
  "ax_request = [RAW \<mapsto> ex_raw_spec\<lparr>spec_roi := ax_roi\<rparr>]"

definition ax_grown_roi :: roi where
  "ax_grown_roi = \<lparr>roi_offset = [0, 0, 4], roi_shape = [160, 4, 16]\<rparr>"

definition ax_batch :: batch where
  "ax_batch = \<lparr>volumes = [RAW \<mapsto> \<lparr>vol_data = np_full [4, 1, 4] 5, vol_dtype = Float32,
                                     vol_spec = ex_raw_spec\<lparr>spec_roi := ax_grown_roi\<rparr>\<rparr>],
                total_roi = ax_grown_roi\<rparr>"

section \<open>Properties of the random draws\<close>

lemma then_do_Inr:
  "then_do m f = Inr y \<longleftrightarrow> (\<exists>x. m = Inr x \<and> f x = Inr y)"
  by (cases m) (simp_all add: then_do_def)

lemma np_random_randint_range:
  assumes "np_random_randint lo hi g = Inr (v, g')"
  shows "lo \<le> v \<and> v < hi"
proof -
  from assms have lt: "lo < hi"
    and v: "v = lo + int (randint_stream g (randint_pos g) mod nat (hi - lo))"
    by (auto simp: np_random_randint_def split: if_splits)
  from lt have "randint_stream g (randint_pos g) mod nat (hi - lo) < nat (hi - lo)"
    by simp
  with v lt show ?thesis by linarith
qed

lemma np_random_randint_rng:
  "np_random_randint lo hi g = Inr (v, g') \<Longrightarrow>
     rand_stream g' = rand_stream g \<and> rand_pos g' = rand_pos g"
  by (auto simp: np_random_randint_def split: if_splits)

lemma tear_line_endpoints_fixed_x:
  assumes "rand_stream g (rand_pos g) < 1 / 2"
  shows "tear_line_endpoints (sh0, sh1) g =
     then_do (np_random_randint 1 (sh1 - 2) (g\<lparr>rand_pos := Suc (rand_pos g)\<rparr>)) (\<lambda>(y0, g2).
     then_do (np_random_randint 1 (sh1 - 2) g2) (\<lambda>(y1, g3).
       Inr ((True, 0, y0, sh0 - 1, y1), g3)))"
  using assms by (simp add: tear_line_endpoints_def random_random_def Let_def)

lemma tear_line_endpoints_fixed_y:
  assumes "\<not> rand_stream g (rand_pos g) < 1 / 2"
  shows "tear_line_endpoints (sh0, sh1) g =
     then_do (np_random_randint 1 (sh0 - 2) (g\<lparr>rand_pos := Suc (rand_pos g)\<rparr>)) (\<lambda>(x0, g2).
     then_do (np_random_randint 1 (sh0 - 2) g2) (\<lambda>(x1, g3).
       Inr ((False, x0, 0, x1, sh1 - 1), g3)))"
  using assms by (simp add: tear_line_endpoints_def random_random_def Let_def)

lemma tear_line_endpoints_range:
  assumes "tear_line_endpoints (sh0, sh1) g = Inr ((fixed_x, x0, y0, x1, y1), g')"
  shows "fixed_x = (rand_stream g (rand_pos g) < 1 / 2) \<and>
         (if fixed_x
          then x0 = 0 \<and> x1 = sh0 - 1 \<and> 1 \<le> y0 \<and> y0 \<le> sh1 - 3 \<and> 1 \<le> y1 \<and> y1 \<le> sh1 - 3
          else y0 = 0 \<and> y1 = sh1 - 1 \<and> 1 \<le> x0 \<and> x0 \<le> sh0 - 3 \<and> 1 \<le> x1 \<and> x1 \<le> sh0 - 3)"
proof (cases "rand_stream g (rand_pos g) < 1 / 2")
  case True
  from assms [unfolded tear_line_endpoints_fixed_x [OF True]]
  obtain a g2 b g3 where
    a: "np_random_randint 1 (sh1 - 2) (g\<lparr>rand_pos := Suc (rand_pos g)\<rparr>) = Inr (a, g2)"
    and b: "np_random_randint 1 (sh1 - 2) g2 = Inr (b, g3)"
    and r: "fixed_x = True" "x0 = 0" "y0 = a" "x1 = sh0 - 1" "y1 = b"
    by (auto simp: then_do_Inr)
  from np_random_randint_range [OF a] np_random_randint_range [OF b] r True
  show ?thesis by simp
next
  case False
  from assms [unfolded tear_line_endpoints_fixed_y [OF False]]
  obtain a g2 b g3 where
    a: "np_random_randint 1 (sh0 - 2) (g\<lparr>rand_pos := Suc (rand_pos g)\<rparr>) = Inr (a, g2)"
    and b: "np_random_randint 1 (sh0 - 2) g2 = Inr (b, g3)"
    and r: "fixed_x = False" "x0 = a" "y0 = 0" "x1 = b" "y1 = sh1 - 1"
    by (auto simp: then_do_Inr)
  from np_random_randint_range [OF a] np_random_randint_range [OF b] r False
  show ?thesis by simp
qed

lemma tear_line_endpoints_rng:
  assumes "tear_line_endpoints sh g = Inr (res, g')"
  shows "rand_stream g' = rand_stream g \<and> rand_pos g' = Suc (rand_pos g)"
proof -
  obtain sh0 sh1 where sh: "sh = (sh0, sh1)" by (cases sh)
  show ?thesis
    using assms np_random_randint_rng
    unfolding sh tear_line_endpoints_def random_random_def
    by (fastforce simp: then_do_Inr Let_def split: if_splits)
qed

lemma tear_line_endpoints_reach_x:
  assumes "1 \<le> v" "v \<le> sh1 - 3" "1 \<le> w" "w \<le> sh1 - 3"
  shows "\<exists>g'. tear_line_endpoints (sh0, sh1) (draws_for 0 v w) = Inr ((True, 0, v, sh0 - 1, w), g')"
proof -
  have r: "rand_stream (draws_for 0 v w) (rand_pos (draws_for 0 v w)) < 1 / 2"
    by (simp add: draws_for_def)
  show ?thesis using assms
    unfolding tear_line_endpoints_fixed_x [OF r]
    by (simp add: draws_for_def np_random_randint_def then_do_def)
qed

lemma tear_line_endpoints_reach_y:
  assumes "1 \<le> v" "v \<le> sh0 - 3" "1 \<le> w" "w \<le> sh0 - 3"
  shows "\<exists>g'. tear_line_endpoints (sh0, sh1) (draws_for 1 v w) = Inr ((False, v, 0, w, sh1 - 1), g')"
proof -
  have r: "\<not> rand_stream (draws_for 1 v w) (rand_pos (draws_for 1 v w)) < 1 / 2"
    by (simp add: draws_for_def)
  show ?thesis using assms
    unfolding tear_line_endpoints_fixed_y [OF r]
    by (simp add: draws_for_def np_random_randint_def then_do_def)
qed

lemma tear_line_endpoints_too_small:
  "tear_line_endpoints (sh0, sh1) g =
     (if rand_stream g (rand_pos g) < 1 / 2
      then (if sh1 < 4 then Inl ValueError else tear_line_endpoints (sh0, sh1) g)
      else (if sh0 < 4 then Inl ValueError else tear_line_endpoints (sh0, sh1) g))"
  by (simp add: tear_line_endpoints_def random_random_def Let_def np_random_randint_def
        then_do_def)

text \<open>
  C8 (as amended). The orientation of the tear line is fixed-x exactly when the draw of
  \<^verbatim>\<open>random.random()\<close> is below 1/2. The non-fixed coordinate of each endpoint comes from
  \<^verbatim>\<open>np.random.randint(1, dim - 2)\<close>, whose upper bound is exclusive: it lies in the
  inclusive range \<open>[1, dim - 3]\<close>, every value of that range is drawn by some state of the
  generator, and the values \<open>0\<close>, \<open>dim - 2\<close> and \<open>dim - 1\<close> are never drawn. The fixed
  coordinate runs from \<open>0\<close> to \<open>dim - 1\<close> of the other axis.
\<close>

theorem tear_line_endpoint_draws:
  "(tear_line_endpoints (sh0, sh1) g = Inr ((fixed_x, x0, y0, x1, y1), g') \<longrightarrow>
      fixed_x = (rand_stream g (rand_pos g) < 1 / 2) \<and>
      (if fixed_x
       then x0 = 0 \<and> x1 = sh0 - 1 \<and> 1 \<le> y0 \<and> y0 \<le> sh1 - 3 \<and> 1 \<le> y1 \<and> y1 \<le> sh1 - 3
       else y0 = 0 \<and> y1 = sh1 - 1 \<and> 1 \<le> x0 \<and> x0 \<le> sh0 - 3 \<and> 1 \<le> x1 \<and> x1 \<le> sh0 - 3))
   \<and> (1 \<le> v \<and> v \<le> sh1 - 3 \<and> 1 \<le> w \<and> w \<le> sh1 - 3 \<longrightarrow>
        (\<exists>g0 g1. tear_line_endpoints (sh0, sh1) g0 = Inr ((True, 0, v, sh0 - 1, w), g1)))
   \<and> (1 \<le> v \<and> v \<le> sh0 - 3 \<and> 1 \<le> w \<and> w \<le> sh0 - 3 \<longrightarrow>
        (\<exists>g0 g1. tear_line_endpoints (sh0, sh1) g0 = Inr ((False, v, 0, w, sh1 - 1), g1)))"
  using tear_line_endpoints_range [of sh0 sh1 g fixed_x x0 y0 x1 y1 g']
    tear_line_endpoints_reach_x [of v sh1 w sh0]
    tear_line_endpoints_reach_y [of v sh0 w sh1]
  by blast

theorem tear_line_endpoint_draws_witness:
  "tear_line_endpoints (6, 6) (draws_for 0 1 3)
     = Inr ((True, 0, 1, 5, 3), (draws_for 0 1 3)\<lparr>rand_pos := 1, randint_pos := 2\<rparr>)
   \<and> rand_stream (draws_for 0 1 3) (rand_pos (draws_for 0 1 3)) < 1 / 2
   \<and> (1::int) \<le> 3 \<and> (3::int) \<le> 6 - 3
   \<and> (\<exists>g0 g1. tear_line_endpoints (6, 6) g0 = Inr ((True, 0, 3, 5, 1), g1))
   \<and> (\<exists>g0 g1. tear_line_endpoints (6, 6) g0 = Inr ((False, 3, 0, 1, 5), g1))"
proof -
  have h: "tear_line_endpoints (6, 6) (draws_for 0 1 3)
     = Inr ((True, 0, 1, 5, 3), (draws_for 0 1 3)\<lparr>rand_pos := 1, randint_pos := 2\<rparr>)"
    by (simp add: tear_line_endpoints_def random_random_def np_random_randint_def
          then_do_def draws_for_def Let_def)
  from h tear_line_endpoint_draws [of 6 6 "draws_for 0 1 3" True 0 1 5 3
      "(draws_for 0 1 3)\<lparr>rand_pos := 1, randint_pos := 2\<rparr>" 3 1]
  show ?thesis by simp
qed

text \<open>
  The claim as stated fails: in a padded slice of dimension 6 the value \<open>dim - 2 = 4\<close> is
  never the non-fixed coordinate of the first endpoint.
\<close>

theorem endpoint_dim_minus_2_never_drawn:
  "\<not> (\<exists>g g' x0 x1 y1. tear_line_endpoints (6, 6) g = Inr ((True, x0, 4, x1, y1), g'))"
proof
  assume "\<exists>g g' x0 x1 y1. tear_line_endpoints (6, 6) g = Inr ((True, x0, 4, x1, y1), g')"
  then obtain g g' x0 x1 y1 where
    "tear_line_endpoints (6, 6) g = Inr ((True, x0, 4, x1, y1), g')" by blast
  from tear_line_endpoints_range [OF this] show False by simp
qed

section \<open>Properties of the slice plan\<close>

lemma prepare_deform_slice_stages:
  "prepare_deform_slice lib cfg (a # b # rest) g =
     then_do (tear_line_endpoints (a + 2 * int (deformation_strength cfg),
                                   b + 2 * int (deformation_strength cfg)) g)
       (\<lambda>((fixed_x, ep), g').
          then_do (rasterize_line lib (a + 2 * int (deformation_strength cfg),
                                       b + 2 * int (deformation_strength cfg)) ep) (\<lambda>raster.
          then_do (flow_fields lib (int (deformation_strength cfg))
                     (a + 2 * int (deformation_strength cfg),
                      b + 2 * int (deformation_strength cfg)) fixed_x ep raster) (\<lambda>(fx, fy).
            Inr (\<lparr>flow_x = fx, flow_y = fy,
                  line_mask = lib_binary_dilation lib raster 10\<rparr>, g'))))"
  by (simp add: prepare_deform_slice_def Let_def)

lemma prepare_deform_slice_Inr:
  assumes "prepare_deform_slice lib cfg ss g = Inr (tr, g')"
  shows "\<exists>a b rest fixed_x ep raster.
           ss = a # b # rest \<and>
           tear_line_endpoints (a + 2 * int (deformation_strength cfg),
                                b + 2 * int (deformation_strength cfg)) g = Inr ((fixed_x, ep), g') \<and>
           rasterize_line lib (a + 2 * int (deformation_strength cfg),
                               b + 2 * int (deformation_strength cfg)) ep = Inr raster \<and>
           flow_fields lib (int (deformation_strength cfg))
             (a + 2 * int (deformation_strength cfg),
              b + 2 * int (deformation_strength cfg)) fixed_x ep raster
             = Inr (flow_x tr, flow_y tr) \<and>
           line_mask tr = lib_binary_dilation lib raster 10"
proof -
  obtain a b rest where ss: "ss = a # b # rest"
    using assms unfolding prepare_deform_slice_def by (auto split: list.splits)
  from assms [unfolded ss prepare_deform_slice_stages]
  show ?thesis unfolding ss
    by (auto simp: then_do_Inr)
qed

lemma prepare_deform_slice_endpoints:
  assumes "prepare_deform_slice lib cfg ss g = Inr (tr, g')"
  shows "\<exists>a b rest fx ep. ss = a # b # rest \<and>
           tear_line_endpoints (a + 2 * int (deformation_strength cfg),
                                b + 2 * int (deformation_strength cfg)) g = Inr ((fx, ep), g')"
  using prepare_deform_slice_Inr [OF assms] by blast

lemma prepare_deform_slice_rng:
  assumes "prepare_deform_slice lib cfg ss g = Inr (tr, g')"
  shows "rand_stream g' = rand_stream g \<and> rand_pos g' = Suc (rand_pos g)"
  using prepare_deform_slice_endpoints [OF assms] tear_line_endpoints_rng by blast

lemma prepare_slice_Inr:
  assumes "prepare_slice lib cfg vshape c (st, g) = Inr (st', g')"
  shows "rand_stream g' = rand_stream g
       \<and> rand_pos g' = (if planned_kind cfg (rand_stream g (rand_pos g)) = Some ''deformed_slice''
                        then rand_pos g + 2 else rand_pos g + 1)
       \<and> slice_to_augmentation st' =
           (case planned_kind cfg (rand_stream g (rand_pos g)) of
              None \<Rightarrow> slice_to_augmentation st
            | Some k \<Rightarrow> AList.update c k (slice_to_augmentation st))"
proof -
  let ?r = "rand_stream g (rand_pos g)"
  let ?g1 = "g\<lparr>rand_pos := Suc (rand_pos g)\<rparr>"
  let ?t1 = "prob_missing cfg"
  let ?t2 = "?t1 + prob_low_contrast cfg"
  let ?t3 = "?t2 + prob_artifact cfg"
  let ?t4 = "?t3 + prob_deform cfg"
  consider (z) "?r < ?t1" | (l) "\<not> ?r < ?t1" "?r < ?t2" | (a) "\<not> ?r < ?t1" "\<not> ?r < ?t2" "?r < ?t3"
    | (d) "\<not> ?r < ?t1" "\<not> ?r < ?t2" "\<not> ?r < ?t3" "?r < ?t4"
    | (n) "\<not> ?r < ?t1" "\<not> ?r < ?t2" "\<not> ?r < ?t3" "\<not> ?r < ?t4"
    by blast
  then show ?thesis
  proof cases
    case z
    then show ?thesis using assms
      by (auto simp: prepare_slice_def planned_kind_def random_random_def set_augmentation_def Let_def)
  next
    case l
    then show ?thesis using assms
      by (auto simp: prepare_slice_def planned_kind_def random_random_def set_augmentation_def Let_def)
  next
    case a
    then show ?thesis using assms
      by (auto simp: prepare_slice_def planned_kind_def random_random_def set_augmentation_def Let_def)
  next
    case d
    let ?ss = "take (axis cfg) vshape @ drop (Suc (axis cfg)) vshape"
    from d assms have run: "then_do (prepare_deform_slice lib cfg ?ss ?g1) (\<lambda>(tr, g2).
             Inr ((set_augmentation c ''deformed_slice'' st)
                    \<lparr>deform_slice_transformations :=
                       AList.update c tr (deform_slice_transformations st)\<rparr>, g2)) = Inr (st', g')"
      by (simp add: prepare_slice_def random_random_def Let_def)
    then obtain tr g2 where pd: "prepare_deform_slice lib cfg ?ss ?g1 = Inr (tr, g2)"
      and st': "st' = (set_augmentation c ''deformed_slice'' st)
                    \<lparr>deform_slice_transformations :=
                       AList.update c tr (deform_slice_transformations st)\<rparr>" and g2: "g2 = g'"
      by (auto simp: then_do_Inr)
    from prepare_deform_slice_rng [OF pd] g2
    have "rand_stream g' = rand_stream g" "rand_pos g' = rand_pos g + 2" by simp_all
    moreover from d have "planned_kind cfg ?r = Some ''deformed_slice''"
      by (simp add: planned_kind_def Let_def)
    ultimately show ?thesis by (simp add: st' set_augmentation_def)
  next
    case n
    then show ?thesis using assms
      by (auto simp: prepare_slice_def planned_kind_def random_random_def set_augmentation_def Let_def)
  qed
qed

lemma prepare_loop_invariant:
  assumes "prepare_loop lib cfg vshape [k..<n] (st, gk) = Inr (st', g')"
    and "rand_stream gk = rand_stream g" and "rand_pos gk = slice_draw_pos cfg g k"
    and "\<forall>c. map_of (slice_to_augmentation st) c =
            (if c < k then planned_kind cfg (rand_stream g (slice_draw_pos cfg g c)) else None)"
    and "distinct (map fst (slice_to_augmentation st))"
    and "k \<le> n"
  shows "(\<forall>c. map_of (slice_to_augmentation st') c =
            (if c < n then planned_kind cfg (rand_stream g (slice_draw_pos cfg g c)) else None))
       \<and> distinct (map fst (slice_to_augmentation st'))
       \<and> rand_stream g' = rand_stream g \<and> rand_pos g' = slice_draw_pos cfg g n"
  using assms
proof (induction "n - k" arbitrary: k st gk)
  case 0
  then show ?case by simp
next
  case (Suc m)
  then have kn: "k < n" by simp
  then have upt: "[k..<n] = k # [Suc k..<n]" by (simp add: upt_conv_Cons)
  from Suc.prems(1) obtain st1 g1 where
    step: "prepare_slice lib cfg vshape k (st, gk) = Inr (st1, g1)"
    and rest: "prepare_loop lib cfg vshape [Suc k..<n] (st1, g1) = Inr (st', g')"
    unfolding upt by (auto simp: then_do_Inr)
  let ?r = "rand_stream g (slice_draw_pos cfg g k)"
  from prepare_slice_Inr [OF step] Suc.prems(2,3)
  have s1: "rand_stream g1 = rand_stream g"
    and p1: "rand_pos g1 = slice_draw_pos cfg g (Suc k)"
    and plan1: "slice_to_augmentation st1 =
           (case planned_kind cfg ?r of
              None \<Rightarrow> slice_to_augmentation st
            | Some kd \<Rightarrow> AList.update k kd (slice_to_augmentation st))"
    by (simp_all add: Let_def)
  have m1: "\<forall>c. map_of (slice_to_augmentation st1) c =
            (if c < Suc k then planned_kind cfg (rand_stream g (slice_draw_pos cfg g c)) else None)"
  proof
    fix c
    show "map_of (slice_to_augmentation st1) c =
            (if c < Suc k then planned_kind cfg (rand_stream g (slice_draw_pos cfg g c)) else None)"
      using Suc.prems(4) [rule_format, of c] Suc.prems(4) [rule_format, of k]
      by (cases "planned_kind cfg ?r")
         (auto simp: plan1 update_conv' less_Suc_eq)
  qed
  have d1: "distinct (map fst (slice_to_augmentation st1))"
    using Suc.prems(5) by (cases "planned_kind cfg ?r") (simp_all add: plan1 distinct_update)
  from Suc.hyps(2) kn have "m = n - Suc k" by simp
  from Suc.hyps(1) [OF this rest s1 p1 m1 d1] kn show ?case by simp
qed

lemma coordinate_div_nth:
  assumes "coordinate_div a b = Inr q" "i < length q"
  shows "q ! i = a ! i div b ! i"
  using assms by (auto simp: coordinate_div_def split: if_splits)

lemma roi_div_shape_nth:
  assumes "roi_div r vs = Inr q" "i < length (roi_shape q)"
  shows "roi_shape q ! i = roi_shape r ! i div vs ! i"
  using assms coordinate_div_nth [of "roi_shape r" vs "roi_shape q" i]
  by (auto simp: roi_div_def then_do_Inr)

lemma prepare_Inr_loop:
  assumes "prepare lib cfg request g = Inr (st, upstream, g')"
  shows "\<exists>spec vroi. request RAW = Some spec
      \<and> roi_div (spec_roi spec) (voxel_size (raw_spec cfg)) = Inr vroi
      \<and> axis cfg < length (roi_shape vroi)
      \<and> prepare_loop lib cfg (roi_shape vroi) [0..<nat (roi_shape vroi ! axis cfg)] (empty_state, g)
          = Inr (st, g')"
proof -
  from assms obtain spec where spec: "request RAW = Some spec"
    by (auto simp: prepare_def split: option.splits)
  from assms spec obtain vroi where
    vroi: "roi_div (spec_roi spec) (voxel_size (raw_spec cfg)) = Inr vroi"
    by (cases "roi_div (spec_roi spec) (voxel_size (raw_spec cfg))")
       (auto simp: prepare_def then_do_def)
  from assms spec vroi have ax: "axis cfg < length (roi_shape vroi)"
    by (auto simp: prepare_def then_do_def Let_def split: if_splits)
  let ?loop = "prepare_loop lib cfg (roi_shape vroi) [0..<nat (roi_shape vroi ! axis cfg)] (empty_state, g)"
  from assms spec vroi ax obtain st1 g1 where loop: "?loop = Inr (st1, g1)"
    by (cases ?loop) (auto simp: prepare_def then_do_def Let_def)
  from assms spec vroi ax loop have "st1 = st \<and> g1 = g'"
    by (auto simp: prepare_def then_do_def Let_def split: if_splits sum.splits)
  with spec vroi ax loop show ?thesis by blast
qed

lemma np_random_randint_exact:
  "np_random_randint lo hi g = Inr (v, g') \<Longrightarrow> g' = g\<lparr>randint_pos := Suc (randint_pos g)\<rparr>"
  by (auto simp: np_random_randint_def split: if_splits)

lemma tear_line_endpoints_rng_exact:
  assumes "tear_line_endpoints sh g = Inr (res, g')"
  shows "g' = g\<lparr>rand_pos := Suc (rand_pos g), randint_pos := randint_pos g + 2\<rparr>"
proof -
  obtain sh0 sh1 where sh: "sh = (sh0, sh1)" by (cases sh)
  show ?thesis
  proof (cases "rand_stream g (rand_pos g) < 1 / 2")
    case True
    from assms [unfolded sh tear_line_endpoints_fixed_x [OF True]]
    obtain a g2 b where
      a: "np_random_randint 1 (sh1 - 2) (g\<lparr>rand_pos := Suc (rand_pos g)\<rparr>) = Inr (a, g2)"
      and b: "np_random_randint 1 (sh1 - 2) g2 = Inr (b, g')"
      by (auto simp: then_do_Inr)
    from np_random_randint_exact [OF a] np_random_randint_exact [OF b]
    show ?thesis by simp
  next
    case False
    from assms [unfolded sh tear_line_endpoints_fixed_y [OF False]]
    obtain a g2 b where
      a: "np_random_randint 1 (sh0 - 2) (g\<lparr>rand_pos := Suc (rand_pos g)\<rparr>) = Inr (a, g2)"
      and b: "np_random_randint 1 (sh0 - 2) g2 = Inr (b, g')"
      by (auto simp: then_do_Inr)
    from np_random_randint_exact [OF a] np_random_randint_exact [OF b]
    show ?thesis by simp
  qed
qed

lemma prepare_deform_slice_rng_exact:
  assumes "prepare_deform_slice lib cfg ss g = Inr (tr, g')"
  shows "g' = g\<lparr>rand_pos := Suc (rand_pos g), randint_pos := randint_pos g + 2\<rparr>"
  using prepare_deform_slice_endpoints [OF assms] tear_line_endpoints_rng_exact by blast

lemma slice_rng_draw_pos:
  "rand_stream (slice_rng cfg g c) = rand_stream g
   \<and> rand_pos (slice_rng cfg g c) = slice_draw_pos cfg g c"
  by (induction c) (simp_all add: after_slice_def Let_def)

lemma prepare_slice_returns:
  assumes "planned_kind cfg (rand_stream h (rand_pos h)) = Some ''deformed_slice'' \<Longrightarrow>
             \<exists>r. prepare_deform_slice lib cfg
                   (take (axis cfg) vshape @ drop (Suc (axis cfg)) vshape)
                   (h\<lparr>rand_pos := Suc (rand_pos h)\<rparr>) = Inr r"
  shows "\<exists>st'. prepare_slice lib cfg vshape c (st, h) = Inr (st', after_slice cfg h)"
proof (cases "planned_kind cfg (rand_stream h (rand_pos h)) = Some ''deformed_slice''")
  case True
  let ?ss = "take (axis cfg) vshape @ drop (Suc (axis cfg)) vshape"
  let ?h1 = "h\<lparr>rand_pos := Suc (rand_pos h)\<rparr>"
  from assms [OF True] obtain tr g2 where
    pd: "prepare_deform_slice lib cfg ?ss ?h1 = Inr (tr, g2)" by force
  from prepare_deform_slice_rng_exact [OF pd]
  have g2: "g2 = after_slice cfg h" using True by (simp add: after_slice_def)
  from True have iv: "\<not> rand_stream h (rand_pos h) < prob_missing cfg"
    "\<not> rand_stream h (rand_pos h) < prob_missing cfg + prob_low_contrast cfg"
    "\<not> rand_stream h (rand_pos h) < prob_missing cfg + prob_low_contrast cfg + prob_artifact cfg"
    "rand_stream h (rand_pos h)
       < prob_missing cfg + prob_low_contrast cfg + prob_artifact cfg + prob_deform cfg"
    by (simp_all add: planned_kind_def Let_def split: if_splits)
  show ?thesis
    using iv by (simp add: prepare_slice_def random_random_def Let_def pd then_do_def g2)
next
  case False
  then show ?thesis
    by (auto simp: prepare_slice_def random_random_def Let_def planned_kind_def after_slice_def
          split: if_splits)
qed

lemma prepare_loop_returns:
  assumes "\<forall>c. k \<le> c \<and> c < n \<longrightarrow>
             planned_kind cfg (rand_stream g (slice_draw_pos cfg g c)) = Some ''deformed_slice'' \<longrightarrow>
             (\<exists>r. prepare_deform_slice lib cfg
                    (take (axis cfg) vshape @ drop (Suc (axis cfg)) vshape)
                    ((slice_rng cfg g c)\<lparr>rand_pos := Suc (rand_pos (slice_rng cfg g c))\<rparr>) = Inr r)"
    and "k \<le> n"
  shows "\<exists>st'. prepare_loop lib cfg vshape [k..<n] (st, slice_rng cfg g k)
                 = Inr (st', slice_rng cfg g n)"
  using assms
proof (induction "n - k" arbitrary: k st)
  case 0
  then show ?case by simp
next
  case (Suc m)
  then have kn: "k < n" by simp
  then have upt: "[k..<n] = k # [Suc k..<n]" by (simp add: upt_conv_Cons)
  let ?h = "slice_rng cfg g k"
  have "planned_kind cfg (rand_stream ?h (rand_pos ?h)) = Some ''deformed_slice'' \<Longrightarrow>
             \<exists>r. prepare_deform_slice lib cfg
                   (take (axis cfg) vshape @ drop (Suc (axis cfg)) vshape)
                   (?h\<lparr>rand_pos := Suc (rand_pos ?h)\<rparr>) = Inr r"
    using Suc.prems(1) kn by (simp add: slice_rng_draw_pos)
  from prepare_slice_returns [OF this] obtain st1 where
    step: "prepare_slice lib cfg vshape k (st, ?h) = Inr (st1, slice_rng cfg g (Suc k))"
    by auto
  from Suc.hyps(2) kn have m: "m = n - Suc k" by simp
  have "\<exists>st'. prepare_loop lib cfg vshape [Suc k..<n] (st1, slice_rng cfg g (Suc k))
                 = Inr (st', slice_rng cfg g n)"
    using Suc.hyps(1) [OF m, of st1] Suc.prems(1) kn by simp
  then show ?case unfolding upt by (simp add: step then_do_def)
qed

lemma coordinate_div_returns:
  "list_all (\<lambda>v. v \<noteq> 0) b \<Longrightarrow> coordinate_div a b = Inr (map2 (\<lambda>x v. x div v) a b)"
  by (auto simp: coordinate_div_def list_all_iff list_ex_iff dest: in_set_takeD)

lemma roi_div_returns:
  "list_all (\<lambda>v. v \<noteq> 0) vs \<Longrightarrow>
     roi_div r vs = Inr \<lparr>roi_offset = map2 (\<lambda>x v. x div v) (roi_offset r) vs,
                          roi_shape = map2 (\<lambda>x v. x div v) (roi_shape r) vs\<rparr>"
  by (simp add: roi_div_def coordinate_div_returns then_do_def)

lemma growth_returns:
  "dims \<le> length (voxel_size (raw_spec cfg)) \<Longrightarrow>
     growth cfg dims = Inr (map (\<lambda>d. if d = axis cfg then 0
                    else voxel_size (raw_spec cfg) ! d * int (deformation_strength cfg)) [0..<dims])"
  by (auto simp: growth_def Let_def list_ex_iff)

lemma generation_returns_iff:
  "generation_returns lib cfg spec g c \<longleftrightarrow>
     (\<exists>r. prepare_deform_slice lib cfg (slice_shape_of cfg spec)
            ((slice_rng cfg g c)\<lparr>rand_pos := Suc (rand_pos (slice_rng cfg g c))\<rparr>) = Inr r)"
  unfolding generation_returns_def
  by (cases "prepare_deform_slice lib cfg (slice_shape_of cfg spec)
            ((slice_rng cfg g c)\<lparr>rand_pos := Suc (rand_pos (slice_rng cfg g c))\<rparr>)") simp_all

lemma prepare_returns:
  assumes "request RAW = Some spec" and "well_formed cfg spec"
    and "\<forall>c<slice_count cfg spec.
           planned_kind cfg (rand_stream g (slice_draw_pos cfg g c)) = Some ''deformed_slice'' \<longrightarrow>
           generation_returns lib cfg spec g c"
  shows "\<exists>st. prepare lib cfg request g =
           Inr (st,
                (if ''deformed_slice'' \<in> snd ` set (slice_to_augmentation st)
                 then request(RAW \<mapsto> spec\<lparr>spec_roi :=
                        roi_grow (spec_roi spec)
                          (map (\<lambda>d. if d = axis cfg then 0
                                    else voxel_size (raw_spec cfg) ! d * int (deformation_strength cfg))
                             [0..<roi_dims (spec_roi spec)])
                          (map (\<lambda>d. if d = axis cfg then 0
                                    else voxel_size (raw_spec cfg) ! d * int (deformation_strength cfg))
                             [0..<roi_dims (spec_roi spec)])\<rparr>)
                 else request),
                slice_rng cfg g (slice_count cfg spec))"
proof -
  let ?vs = "voxel_size (raw_spec cfg)"
  let ?vshape = "map2 (\<lambda>x v. x div v) (roi_shape (spec_roi spec)) ?vs"
  let ?vroi = "\<lparr>roi_offset = map2 (\<lambda>x v. x div v) (roi_offset (spec_roi spec)) ?vs,
               roi_shape = ?vshape\<rparr>"
  from assms(2) have wf: "length (roi_offset (spec_roi spec)) = length ?vs"
    "length (roi_shape (spec_roi spec)) = length ?vs" "list_all (\<lambda>v. v \<noteq> 0) ?vs"
    "axis cfg < length ?vs"
    by (simp_all add: well_formed_def)
  have vroi: "roi_div (spec_roi spec) ?vs = Inr ?vroi"
    by (rule roi_div_returns [OF wf(3)])
  have len: "\<not> length ?vshape \<le> axis cfg" using wf by simp
  have n: "nat (?vshape ! axis cfg) = slice_count cfg spec"
    using wf by (simp add: slice_count_def)
  have gen: "\<forall>c. 0 \<le> c \<and> c < slice_count cfg spec \<longrightarrow>
             planned_kind cfg (rand_stream g (slice_draw_pos cfg g c)) = Some ''deformed_slice'' \<longrightarrow>
             (\<exists>r. prepare_deform_slice lib cfg
                    (take (axis cfg) ?vshape @ drop (Suc (axis cfg)) ?vshape)
                    ((slice_rng cfg g c)\<lparr>rand_pos := Suc (rand_pos (slice_rng cfg g c))\<rparr>) = Inr r)"
    using assms(3)
    by (simp add: generation_returns_iff slice_shape_of_def Let_def)
  from prepare_loop_returns [OF gen, of empty_state] obtain st where
    loop: "prepare_loop lib cfg ?vshape [0..<slice_count cfg spec] (empty_state, g)
            = Inr (st, slice_rng cfg g (slice_count cfg spec))"
    by auto
  have gr: "growth cfg (roi_dims (spec_roi spec)) =
     Inr (map (\<lambda>d. if d = axis cfg then 0
                    else ?vs ! d * int (deformation_strength cfg)) [0..<roi_dims (spec_roi spec)])"
    by (rule growth_returns) (simp add: roi_dims_def wf)
  show ?thesis
    using len
    by (intro exI [of _ st])
       (simp add: prepare_def assms(1) vroi then_do_def Let_def n loop gr)
qed

lemma prepare_slice_generation:
  assumes "prepare_slice lib cfg vshape c (st, h) = Inr (st', h')"
  shows "h' = after_slice cfg h
       \<and> (planned_kind cfg (rand_stream h (rand_pos h)) = Some ''deformed_slice'' \<longrightarrow>
            (\<exists>r. prepare_deform_slice lib cfg
                   (take (axis cfg) vshape @ drop (Suc (axis cfg)) vshape)
                   (h\<lparr>rand_pos := Suc (rand_pos h)\<rparr>) = Inr r))"
proof (cases "planned_kind cfg (rand_stream h (rand_pos h)) = Some ''deformed_slice''")
  case True
  let ?ss = "take (axis cfg) vshape @ drop (Suc (axis cfg)) vshape"
  let ?h1 = "h\<lparr>rand_pos := Suc (rand_pos h)\<rparr>"
  from True have iv: "\<not> rand_stream h (rand_pos h) < prob_missing cfg"
    "\<not> rand_stream h (rand_pos h) < prob_missing cfg + prob_low_contrast cfg"
    "\<not> rand_stream h (rand_pos h) < prob_missing cfg + prob_low_contrast cfg + prob_artifact cfg"
    "rand_stream h (rand_pos h)
       < prob_missing cfg + prob_low_contrast cfg + prob_artifact cfg + prob_deform cfg"
    by (simp_all add: planned_kind_def Let_def split: if_splits)
  from assms iv have "then_do (prepare_deform_slice lib cfg ?ss ?h1) (\<lambda>(tr, g2).
             Inr ((set_augmentation c ''deformed_slice'' st)
                    \<lparr>deform_slice_transformations :=
                       AList.update c tr (deform_slice_transformations st)\<rparr>, g2)) = Inr (st', h')"
    by (simp add: prepare_slice_def random_random_def Let_def)
  then obtain tr where pd: "prepare_deform_slice lib cfg ?ss ?h1 = Inr (tr, h')"
    by (auto simp: then_do_Inr)
  from prepare_deform_slice_rng_exact [OF pd] True pd show ?thesis
    by (auto simp: after_slice_def)
next
  case False
  with assms show ?thesis
    by (auto simp: prepare_slice_def random_random_def Let_def planned_kind_def after_slice_def
          split: if_splits)
qed

lemma prepare_loop_generation:
  assumes "prepare_loop lib cfg vshape [k..<n] (st, slice_rng cfg g k) = Inr (st', g')"
    and "k \<le> c" "c < n"
    and "planned_kind cfg (rand_stream g (slice_draw_pos cfg g c)) = Some ''deformed_slice''"
  shows "\<exists>r. prepare_deform_slice lib cfg
                (take (axis cfg) vshape @ drop (Suc (axis cfg)) vshape)
                ((slice_rng cfg g c)\<lparr>rand_pos := Suc (rand_pos (slice_rng cfg g c))\<rparr>) = Inr r"
  using assms(1,2)
proof (induction "c - k" arbitrary: k st)
  case 0
  then have kc: "k = c" by simp
  from assms(3) have upt: "[c..<n] = c # [Suc c..<n]" by (simp add: upt_conv_Cons)
  from "0.prems"(1) obtain st1 g1 where
    step: "prepare_slice lib cfg vshape c (st, slice_rng cfg g c) = Inr (st1, g1)"
    unfolding kc upt by (auto simp: then_do_Inr)
  from prepare_slice_generation [OF step] assms(4) show ?case
    by (simp add: slice_rng_draw_pos)
next
  case (Suc m)
  then have kc: "k < c" by simp
  with assms(3) have upt: "[k..<n] = k # [Suc k..<n]" by (simp add: upt_conv_Cons)
  from Suc.prems(1) obtain st1 g1 where
    step: "prepare_slice lib cfg vshape k (st, slice_rng cfg g k) = Inr (st1, g1)"
    and rest: "prepare_loop lib cfg vshape [Suc k..<n] (st1, g1) = Inr (st', g')"
    unfolding upt by (auto simp: then_do_Inr)
  from prepare_slice_generation [OF step] have g1: "g1 = slice_rng cfg g (Suc k)" by simp
  from Suc.hyps(2) kc have m: "m = c - Suc k" by simp
  from Suc.hyps(1) [OF m rest [unfolded g1]] kc show ?case by simp
qed

lemma prepare_raises:
  assumes "request RAW = Some spec" and "well_formed cfg spec"
    and "\<not> (\<forall>c<slice_count cfg spec.
           planned_kind cfg (rand_stream g (slice_draw_pos cfg g c)) = Some ''deformed_slice'' \<longrightarrow>
           generation_returns lib cfg spec g c)"
  shows "\<exists>e. prepare lib cfg request g = Inl e"
proof (cases "prepare lib cfg request g")
  case (Inl e)
  then show ?thesis by blast
next
  case (Inr res)
  obtain st upstream g' where res: "res = (st, upstream, g')" by (cases res)
  from Inr res have p: "prepare lib cfg request g = Inr (st, upstream, g')" by simp
  let ?vs = "voxel_size (raw_spec cfg)"
  let ?vshape = "map2 (\<lambda>x v. x div v) (roi_shape (spec_roi spec)) ?vs"
  from assms(2) have wf: "length (roi_shape (spec_roi spec)) = length ?vs"
    "list_all (\<lambda>v. v \<noteq> 0) ?vs" "axis cfg < length ?vs"
    by (simp_all add: well_formed_def)
  from prepare_Inr_loop [OF p] assms(1) obtain vroi where
    vroi: "roi_div (spec_roi spec) ?vs = Inr vroi"
    and loop: "prepare_loop lib cfg (roi_shape vroi) [0..<nat (roi_shape vroi ! axis cfg)]
                 (empty_state, g) = Inr (st, g')"
    by auto
  from vroi roi_div_returns [OF wf(2), of "spec_roi spec"]
  have vs: "roi_shape vroi = ?vshape" by auto
  have n: "nat (?vshape ! axis cfg) = slice_count cfg spec"
    using wf by (simp add: slice_count_def)
  from loop have loop': "prepare_loop lib cfg ?vshape [0..<slice_count cfg spec]
                 (empty_state, slice_rng cfg g 0) = Inr (st, g')"
    by (simp add: vs n)
  from assms(3) obtain c where c: "c < slice_count cfg spec"
    "planned_kind cfg (rand_stream g (slice_draw_pos cfg g c)) = Some ''deformed_slice''"
    "\<not> generation_returns lib cfg spec g c"
    by blast
  from prepare_loop_generation [OF loop' _ c(1,2)]
  have "generation_returns lib cfg spec g c"
    by (simp add: generation_returns_iff slice_shape_of_def Let_def)
  with c(3) show ?thesis by simp
qed

text \<open>
  C3 (as amended). For a well-formed request, \<^verbatim>\<open>prepare\<close> returns exactly when
  flow-field generation returns for every slice that is drawn as deformed, and raises
  otherwise. When it returns, the plan has at most one entry per slice index; the entry
  of a slice index \<open>c\<close> below \<open>N\<close>, the extent of the requested ROI along the cut axis
  divided by the voxel size along that axis, is the kind that the cumulative thresholds
  \<open>t1, t2, t3, t4\<close> give the one draw \<open>r\<close> made for \<open>c\<close>, none when \<open>r \<ge> t4\<close>; and no
  index from \<open>N\<close> on has an entry.
\<close>

theorem slice_plan_classification:
  assumes "request RAW = Some spec" and "well_formed cfg spec"
  shows "if \<forall>c<slice_count cfg spec.
              planned_kind cfg (rand_stream g (slice_draw_pos cfg g c)) = Some ''deformed_slice'' \<longrightarrow>
              generation_returns lib cfg spec g c
         then \<exists>st upstream g'. prepare lib cfg request g = Inr (st, upstream, g')
                \<and> distinct (map fst (slice_to_augmentation st))
                \<and> (\<forall>c. map_of (slice_to_augmentation st) c =
                     (if c < slice_count cfg spec
                      then planned_kind cfg (rand_stream g (slice_draw_pos cfg g c))
                      else None))
         else \<exists>e. prepare lib cfg request g = Inl e"
proof (cases "\<forall>c<slice_count cfg spec.
              planned_kind cfg (rand_stream g (slice_draw_pos cfg g c)) = Some ''deformed_slice'' \<longrightarrow>
              generation_returns lib cfg spec g c")
  case True
  from prepare_returns [where request = request and spec = spec, OF assms True]
  obtain st upstream g' where
    p: "prepare lib cfg request g = Inr (st, upstream, g')" by blast
  from prepare_Inr_loop [OF p] assms(1) obtain vroi where
    vroi: "roi_div (spec_roi spec) (voxel_size (raw_spec cfg)) = Inr vroi"
    and ax: "axis cfg < length (roi_shape vroi)"
    and loop: "prepare_loop lib cfg (roi_shape vroi) [0..<nat (roi_shape vroi ! axis cfg)]
                 (empty_state, g) = Inr (st, g')"
    by auto
  have n: "nat (roi_shape vroi ! axis cfg) = slice_count cfg spec"
    unfolding slice_count_def by (simp add: roi_div_shape_nth [OF vroi ax])
  from prepare_loop_invariant [OF loop, of g] n
  have "distinct (map fst (slice_to_augmentation st))
       \<and> (\<forall>c. map_of (slice_to_augmentation st) c =
            (if c < slice_count cfg spec
             then planned_kind cfg (rand_stream g (slice_draw_pos cfg g c))
             else None))"
    by (simp add: empty_state_def)
  with p True show ?thesis by auto
next
  case False
  from prepare_raises [where request = request and spec = spec, OF assms False] False
  show ?thesis by auto
qed

section \<open>The worked request, evaluated\<close>

lemma ref_line_ex: "ref_line 0 1 3 1 = [(0, 1), (1, 1), (2, 1), (3, 1)]"
  by code_simp

lemma ex_rasterize: "rasterize_line ref_lib (4, 4) (0, 1, 3, 1) = Inr ex_line_mask"
  by (simp add: rasterize_line_def ref_lib_def ref_line_ex set_pixels_def np_full_def
        norm_index_def ex_line_mask_def)

lemma ex_label_count: "snd (ref_label (nd_map Not ex_line_mask)) = 2"
  by code_simp

lemma label_shape: "shape (fst (ref_label a)) = shape a"
  by (simp add: ref_label_def Let_def)

lemma ex_label_shape: "shape (fst (ref_label (nd_map Not ex_line_mask))) = [4, 4]"
  by (simp add: ref_label_def nd_map_def ex_line_mask_def Let_def)

lemma ex_endpoints:
  "tear_line_endpoints (4, 4) (ex_rng\<lparr>rand_pos := Suc 0\<rparr>)
     = Inr ((True, 0, 1, 3, 1), ex_rng\<lparr>rand_pos := 2, randint_pos := 2\<rparr>)"
  by (simp add: tear_line_endpoints_def random_random_def np_random_randint_def
        then_do_def ex_rng_def Let_def)

lemma nd_map2_same_shape:
  "shape a = shape b \<Longrightarrow> length (shape a) = 2 \<Longrightarrow>
   nd_map2 f a b = Inr \<lparr>shape = shape a,
        elem = (\<lambda>idx. f (elem a (bc_index (shape a) idx)) (elem b (bc_index (shape a) idx)))\<rparr>"
proof -
  assume eq: "shape a = shape b" and len: "length (shape a) = 2"
  then obtain n m where sh: "shape a = [n, m]"
    by (auto simp: length_Suc_conv numeral_2_eq_2)
  have "broadcast_shapes [n, m] [n, m] = Some [n, m]"
    by (simp add: broadcast_shapes_def pad_shape_def bc_dim_def)
  with eq sh show ?thesis by (simp add: nd_map2_def)
qed

lemma flow_fields_square:
  assumes "lib_label lib (nd_map Not raster) = (components, 2)"
    and "shape components = [n, n]" and "0 < n"
  shows "\<exists>fx fy. flow_fields lib s (int n, int n) fixed_x ep raster = Inr (fx, fy)"
  using assms
  by (simp add: flow_fields_def Let_def then_do_def nd_map2_same_shape meshgrid_x_def
        meshgrid_y_def displacement_def)

lemma ex_flow_fields:
  "\<exists>fx fy. flow_fields ref_lib 1 (4, 4) True (0, 1, 3, 1) ex_line_mask = Inr (fx, fy)"
proof -
  obtain comps n where lab: "ref_label (nd_map Not ex_line_mask) = (comps, n)"
    by (cases "ref_label (nd_map Not ex_line_mask)")
  with ex_label_count ex_label_shape have n: "n = 2" and sh: "shape comps = [4, 4]" by simp_all
  have ll: "lib_label ref_lib (nd_map Not ex_line_mask) = (comps, 2)"
    using lab n by (simp add: ref_lib_def)
  from flow_fields_square [OF ll sh, of 1 True "(0, 1, 3, 1)"] show ?thesis by simp
qed

lemma ex_prepare_deform_slice:
  "\<exists>tr. prepare_deform_slice ref_lib ex_cfg [2, 2] (ex_rng\<lparr>rand_pos := Suc 0\<rparr>)
           = Inr (tr, ex_rng\<lparr>rand_pos := 2, randint_pos := 2\<rparr>)"
proof -
  from ex_flow_fields obtain fx fy where
    ff: "flow_fields ref_lib 1 (4, 4) True (0, 1, 3, 1) ex_line_mask = Inr (fx, fy)" by blast
  have s: "deformation_strength ex_cfg = 1" by (simp add: ex_cfg_def)
  show ?thesis
    unfolding prepare_deform_slice_stages s
    by (simp add: ex_endpoints then_do_def ex_rasterize ff)
qed

lemma ex_roi_div:
  "roi_div ex_roi [40, 4, 4] = Inr \<lparr>roi_offset = [0, 2, 2], roi_shape = [2, 2, 2]\<rparr>"
  by (simp add: roi_div_def coordinate_div_def then_do_def ex_roi_def)

lemma ex_prepare:
  "\<exists>st. prepare ref_lib ex_cfg ex_request ex_rng
          = Inr (st, ex_request(RAW \<mapsto> ex_raw_spec\<lparr>spec_roi := roi_grow ex_roi [0, 4, 4] [0, 4, 4]\<rparr>),
                 ex_rng\<lparr>rand_pos := 3, randint_pos := 2\<rparr>)
        \<and> slice_to_augmentation st = [(0, ''deformed_slice''), (Suc 0, ''zero_out'')]"
proof -
  from ex_prepare_deform_slice obtain tr where
    tr: "prepare_deform_slice ref_lib ex_cfg [2, 2] (ex_rng\<lparr>rand_pos := Suc 0\<rparr>)
           = Inr (tr, ex_rng\<lparr>rand_pos := 2, randint_pos := 2\<rparr>)" by blast
  have c: "prob_missing ex_cfg = 1 / 4" "prob_low_contrast ex_cfg = 1 / 4"
    "prob_artifact ex_cfg = 1 / 4" "prob_deform ex_cfg = 1 / 4" "axis ex_cfg = 0"
    "voxel_size (raw_spec ex_cfg) = [40, 4, 4]" "deformation_strength ex_cfg = 1"
    by (simp_all add: ex_cfg_def ex_raw_spec_def)
  have g: "rand_stream ex_rng = (\<lambda>n. if n = 0 then 4 / 5 else if n = 1 then 3 / 10 else 1 / 10)"
    "rand_pos ex_rng = 0"
    by (simp_all add: ex_rng_def)
  define st1 where "st1 = (set_augmentation 0 ''deformed_slice'' empty_state)
                \<lparr>deform_slice_transformations := [(0, tr)]\<rparr>"
  define st2 where "st2 = set_augmentation (Suc 0) ''zero_out'' st1"
  have s0: "prepare_slice ref_lib ex_cfg [2, 2, 2] 0 (empty_state, ex_rng)
      = Inr (st1, ex_rng\<lparr>rand_pos := 2, randint_pos := 2\<rparr>)"
    unfolding prepare_slice_def st1_def
    by (simp add: c g random_random_def Let_def tr then_do_def empty_state_def)
  have s1: "prepare_slice ref_lib ex_cfg [2, 2, 2] (Suc 0)
        (st1, ex_rng\<lparr>rand_pos := 2, randint_pos := 2\<rparr>)
      = Inr (st2, ex_rng\<lparr>rand_pos := 3, randint_pos := 2\<rparr>)"
    unfolding prepare_slice_def st2_def
    by (simp add: c g random_random_def Let_def)
  have loop: "prepare_loop ref_lib ex_cfg [2, 2, 2] [0, Suc 0] (empty_state, ex_rng)
      = Inr (st2, ex_rng\<lparr>rand_pos := 3, randint_pos := 2\<rparr>)"
    by (simp add: s0 s1 then_do_def)
  have plan: "slice_to_augmentation st2 = [(0, ''deformed_slice''), (Suc 0, ''zero_out'')]"
    by (simp add: st2_def st1_def set_augmentation_def empty_state_def)
  have d: "roi_dims ex_roi = 3" by (simp add: roi_dims_def ex_roi_def)
  have upt: "[0..<2] = [0, Suc 0]" by (simp add: upt_rec)
  have r: "ex_request RAW = Some (ex_raw_spec\<lparr>spec_roi := ex_roi\<rparr>)"
    by (simp add: ex_request_def)
  have gr: "growth ex_cfg 3 = Inr [0, 4, 4]"
    by (simp add: growth_def c upt_rec)
  have "prepare ref_lib ex_cfg ex_request ex_rng
     = Inr (st2, ex_request(RAW \<mapsto> ex_raw_spec\<lparr>spec_roi := roi_grow ex_roi [0, 4, 4] [0, 4, 4]\<rparr>),
            ex_rng\<lparr>rand_pos := 3, randint_pos := 2\<rparr>)"
    unfolding prepare_def
    by (simp add: r c ex_roi_div then_do_def Let_def upt s0 s1 plan d gr)
  with plan show ?thesis by blast
qed

lemma ex_kinds:
  "planned_kind ex_cfg (4 / 5) = Some ''deformed_slice''"
  "planned_kind ex_cfg (1 / 10) = Some ''zero_out''"
  by (simp_all add: planned_kind_def ex_cfg_def Let_def)

lemma ex_draw_positions:
  "slice_draw_pos ex_cfg ex_rng 0 = 0" "slice_draw_pos ex_cfg ex_rng (Suc 0) = 2"
  "slice_draw_pos ex_cfg ex_rng 2 = 3"
proof -
  have v: "rand_stream ex_rng 0 = 4 / 5" "rand_stream ex_rng 2 = 1 / 10" "rand_pos ex_rng = 0"
    by (simp_all add: ex_rng_def)
  show "slice_draw_pos ex_cfg ex_rng 0 = 0" by (simp add: v)
  show p1: "slice_draw_pos ex_cfg ex_rng (Suc 0) = 2" by (simp add: v ex_kinds Let_def)
  have "slice_draw_pos ex_cfg ex_rng (Suc (Suc 0)) = 3"
    unfolding slice_draw_pos.simps(2) [of ex_cfg ex_rng "Suc 0"] p1 by (simp add: v ex_kinds Let_def)
  then show "slice_draw_pos ex_cfg ex_rng 2 = 3" by (simp add: numeral_2_eq_2)
qed

lemma ex_draws:
  "rand_stream ex_rng 0 = 4 / 5" "rand_stream ex_rng 2 = 1 / 10" "rand_stream ex_rng 3 = 1 / 10"
  by (simp_all add: ex_rng_def)

lemma long_generation:
  assumes "c < 3"
    and "planned_kind ex_cfg (rand_stream ex_rng (slice_draw_pos ex_cfg ex_rng c))
           = Some ''deformed_slice''"
  shows "generation_returns ref_lib ex_cfg (ex_raw_spec\<lparr>spec_roi := long_roi\<rparr>) ex_rng c"
proof -
  from assms(1) consider "c = 0" | "c = Suc 0" | "c = 2" by linarith
  then show ?thesis
  proof cases
    case 1
    have ss: "slice_shape_of ex_cfg (ex_raw_spec\<lparr>spec_roi := long_roi\<rparr>) = [2, 2]"
      by (simp add: slice_shape_of_def ex_cfg_def ex_raw_spec_def long_roi_def)
    have p: "rand_pos ex_rng = 0" by (simp add: ex_rng_def)
    from ex_prepare_deform_slice show ?thesis
      unfolding generation_returns_iff 1 ss by (auto simp: p)
  next
    case 2
    with assms(2) show ?thesis
      by (simp del: slice_draw_pos.simps add: ex_draw_positions ex_draws ex_kinds)
  next
    case 3
    with assms(2) show ?thesis
      by (simp del: slice_draw_pos.simps add: ex_draw_positions ex_draws ex_kinds)
  qed
qed

lemma long_facts:
  "long_request RAW = Some (ex_raw_spec\<lparr>spec_roi := long_roi\<rparr>)"
  "well_formed ex_cfg (ex_raw_spec\<lparr>spec_roi := long_roi\<rparr>)"
  "slice_count ex_cfg (ex_raw_spec\<lparr>spec_roi := long_roi\<rparr>) = 3"
  by (simp_all add: long_request_def well_formed_def slice_count_def ex_cfg_def ex_raw_spec_def
        long_roi_def)

theorem slice_plan_classification_witness:
  "\<exists>st up g'. prepare ref_lib ex_cfg long_request ex_rng = Inr (st, up, g')
     \<and> distinct (map fst (slice_to_augmentation st))
     \<and> map_of (slice_to_augmentation st) 0 = Some ''deformed_slice''
     \<and> map_of (slice_to_augmentation st) 1 = Some ''zero_out''
     \<and> map_of (slice_to_augmentation st) 2 = Some ''zero_out''
     \<and> map_of (slice_to_augmentation st) 3 = None"
proof -
  have gen: "\<forall>c<slice_count ex_cfg (ex_raw_spec\<lparr>spec_roi := long_roi\<rparr>).
           planned_kind ex_cfg (rand_stream ex_rng (slice_draw_pos ex_cfg ex_rng c))
             = Some ''deformed_slice'' \<longrightarrow>
           generation_returns ref_lib ex_cfg (ex_raw_spec\<lparr>spec_roi := long_roi\<rparr>) ex_rng c"
    using long_generation by (simp add: long_facts)
  from slice_plan_classification [where request = long_request and g = ex_rng and lib = ref_lib,
      OF long_facts(1,2)] gen
  obtain st up g' where
    h: "prepare ref_lib ex_cfg long_request ex_rng = Inr (st, up, g')"
    and d: "distinct (map fst (slice_to_augmentation st))"
    and m: "\<And>c. map_of (slice_to_augmentation st) c =
            (if c < 3 then planned_kind ex_cfg (rand_stream ex_rng (slice_draw_pos ex_cfg ex_rng c))
             else None)"
    unfolding long_facts(3) by auto
  from m [of 0] m [of "Suc 0"] m [of 2] m [of 3] h d show ?thesis
    by (auto simp del: slice_draw_pos.simps simp add: ex_draw_positions ex_draws ex_kinds)
qed

lemma map2_twice:
  "map2 f (map2 h xs ys) ys = map2 (\<lambda>x y. f (h x y) y) xs ys"
  by (induction xs ys rule: list_induct2') auto

lemma growth_Inr:
  "growth cfg dims = Inr gr \<Longrightarrow>
     gr = map (\<lambda>d. if d = axis cfg then 0
                    else voxel_size (raw_spec cfg) ! d * int (deformation_strength cfg)) [0..<dims]"
  by (auto simp: growth_def Let_def split: if_splits)

text \<open>
  C4. For a well-formed request on which flow-field generation returns for every slice
  drawn as deformed, \<^verbatim>\<open>prepare\<close> returns, and the request sent upstream differs from
  the incoming one only in the ROI of the raw volume, and only if the plan holds a
  deformed slice: then the offset moves back by \<open>voxel_size[d] * deformation_strength\<close>
  and the shape grows by twice that amount on every axis \<open>d\<close> but the cut axis, where the
  growth is 0. Without a deformed slice the request is the incoming one.
\<close>

theorem request_expansion:
  assumes "request RAW = Some spec" and "well_formed cfg spec"
    and "\<forall>c<slice_count cfg spec.
           planned_kind cfg (rand_stream g (slice_draw_pos cfg g c)) = Some ''deformed_slice'' \<longrightarrow>
           generation_returns lib cfg spec g c"
  shows "\<exists>st upstream g'. prepare lib cfg request g = Inr (st, upstream, g')
       \<and> (\<forall>v. v \<noteq> RAW \<longrightarrow> upstream v = request v)
       \<and> (if ''deformed_slice'' \<in> snd ` set (slice_to_augmentation st)
          then upstream RAW =
                 (let gr = map (\<lambda>d. if d = axis cfg then 0
                                      else voxel_size (raw_spec cfg) ! d * int (deformation_strength cfg))
                             [0..<roi_dims (spec_roi spec)]
                  in Some (spec\<lparr>spec_roi :=
                       \<lparr>roi_offset = map2 (\<lambda>x a. x - a) (roi_offset (spec_roi spec)) gr,
                        roi_shape = map2 (\<lambda>n a. n + a + a) (roi_shape (spec_roi spec)) gr\<rparr>\<rparr>))
          else upstream = request)"
proof -
  from prepare_returns [where request = request and spec = spec, OF assms] obtain st where
    p: "prepare lib cfg request g =
           Inr (st,
                (if ''deformed_slice'' \<in> snd ` set (slice_to_augmentation st)
                 then request(RAW \<mapsto> spec\<lparr>spec_roi :=
                        roi_grow (spec_roi spec)
                          (map (\<lambda>d. if d = axis cfg then 0
                                    else voxel_size (raw_spec cfg) ! d * int (deformation_strength cfg))
                             [0..<roi_dims (spec_roi spec)])
                          (map (\<lambda>d. if d = axis cfg then 0
                                    else voxel_size (raw_spec cfg) ! d * int (deformation_strength cfg))
                             [0..<roi_dims (spec_roi spec)])\<rparr>)
                 else request),
                slice_rng cfg g (slice_count cfg spec))"
    by blast
  show ?thesis
    by (rule exI [of _ st], intro exI conjI, rule p)
       (simp_all add: roi_grow_def map2_twice Let_def)
qed

lemma strong_strength: "deformation_strength strong_cfg = 2"
  by (simp add: strong_cfg_def)

lemma ref_line_6: "ref_line 0 1 5 1 = [(0, 1), (1, 1), (2, 1), (3, 1), (4, 1), (5, 1)]"
  by code_simp

lemma endpoints_6x6:
  "tear_line_endpoints (6, 6) (ex_rng\<lparr>rand_pos := Suc 0\<rparr>)
     = Inr ((True, 0, 1, 5, 1), ex_rng\<lparr>rand_pos := 2, randint_pos := 2\<rparr>)"
  by (simp add: tear_line_endpoints_def random_random_def np_random_randint_def
        then_do_def ex_rng_def Let_def)

lemma rasterize_6x6: "rasterize_line ref_lib (6, 6) (0, 1, 5, 1) = Inr line_mask_6x6"
  by (simp add: rasterize_line_def ref_lib_def ref_line_6 set_pixels_def np_full_def
        norm_index_def line_mask_6x6_def)

lemma label_6x6: "snd (ref_label (nd_map Not line_mask_6x6)) = 2"
  by code_simp

lemma strong_generation:
  "\<exists>tr. prepare_deform_slice ref_lib strong_cfg [2, 2] (ex_rng\<lparr>rand_pos := Suc 0\<rparr>)
           = Inr (tr, ex_rng\<lparr>rand_pos := 2, randint_pos := 2\<rparr>)"
proof -
  have ll: "lib_label ref_lib (nd_map Not line_mask_6x6)
              = (fst (ref_label (nd_map Not line_mask_6x6)), 2)"
    using label_6x6 by (simp add: ref_lib_def prod_eq_iff)
  have sh: "shape (fst (ref_label (nd_map Not line_mask_6x6))) = [6, 6]"
    by (simp add: label_shape nd_map_def line_mask_6x6_def)
  from flow_fields_square [OF ll sh, of 2 True "(0, 1, 5, 1)"] obtain fx fy where
    ff: "flow_fields ref_lib 2 (6, 6) True (0, 1, 5, 1) line_mask_6x6 = Inr (fx, fy)"
    by auto
  show ?thesis
    unfolding prepare_deform_slice_stages strong_strength
    by (simp add: endpoints_6x6 then_do_def rasterize_6x6 ff)
qed

lemma strong_kinds:
  "planned_kind strong_cfg = planned_kind ex_cfg"
  "slice_draw_pos strong_cfg = slice_draw_pos ex_cfg"
proof -
  show k: "planned_kind strong_cfg = planned_kind ex_cfg"
    by (simp add: fun_eq_iff planned_kind_def strong_cfg_def)
  have "slice_draw_pos strong_cfg g c = slice_draw_pos ex_cfg g c" for g c
    by (induction c) (simp_all add: k)
  then show "slice_draw_pos strong_cfg = slice_draw_pos ex_cfg" by (simp add: fun_eq_iff)
qed

lemma strong_facts:
  "ex_request RAW = Some (ex_raw_spec\<lparr>spec_roi := ex_roi\<rparr>)"
  "well_formed strong_cfg (ex_raw_spec\<lparr>spec_roi := ex_roi\<rparr>)"
  "slice_count strong_cfg (ex_raw_spec\<lparr>spec_roi := ex_roi\<rparr>) = 2"
  by (simp_all add: ex_request_def well_formed_def slice_count_def strong_cfg_def ex_cfg_def
        ex_raw_spec_def ex_roi_def)

lemma strong_generation_returns:
  assumes "c < 2"
    and "planned_kind strong_cfg (rand_stream ex_rng (slice_draw_pos strong_cfg ex_rng c))
           = Some ''deformed_slice''"
  shows "generation_returns ref_lib strong_cfg (ex_raw_spec\<lparr>spec_roi := ex_roi\<rparr>) ex_rng c"
proof -
  from assms(1) consider "c = 0" | "c = Suc 0" by linarith
  then show ?thesis
  proof cases
    case 1
    have ss: "slice_shape_of strong_cfg (ex_raw_spec\<lparr>spec_roi := ex_roi\<rparr>) = [2, 2]"
      by (simp add: slice_shape_of_def strong_cfg_def ex_cfg_def ex_raw_spec_def ex_roi_def)
    have p: "rand_pos ex_rng = 0" by (simp add: ex_rng_def)
    from strong_generation show ?thesis
      unfolding generation_returns_iff 1 ss by (auto simp: p)
  next
    case 2
    with assms(2) show ?thesis
      by (simp del: slice_draw_pos.simps add: strong_kinds ex_draw_positions ex_draws ex_kinds)
  qed
qed

theorem request_expansion_witness:
  "\<exists>st up g'. prepare ref_lib strong_cfg ex_request ex_rng = Inr (st, up, g')
     \<and> ''deformed_slice'' \<in> snd ` set (slice_to_augmentation st)
     \<and> up (OTHER 0) = ex_request (OTHER 0)
     \<and> up RAW = Some (ex_raw_spec\<lparr>spec_roi :=
                        \<lparr>roi_offset = [0, 0, 0], roi_shape = [80, 24, 24]\<rparr>\<rparr>)"
proof -
  have gen: "\<forall>c<slice_count strong_cfg (ex_raw_spec\<lparr>spec_roi := ex_roi\<rparr>).
           planned_kind strong_cfg (rand_stream ex_rng (slice_draw_pos strong_cfg ex_rng c))
             = Some ''deformed_slice'' \<longrightarrow>
           generation_returns ref_lib strong_cfg (ex_raw_spec\<lparr>spec_roi := ex_roi\<rparr>) ex_rng c"
    using strong_generation_returns by (simp add: strong_facts)
  let ?gr = "map (\<lambda>d. if d = axis strong_cfg then 0
                        else voxel_size (raw_spec strong_cfg) ! d
                               * int (deformation_strength strong_cfg))
               [0..<roi_dims (spec_roi (ex_raw_spec\<lparr>spec_roi := ex_roi\<rparr>))]"
  from request_expansion [where request = ex_request, OF strong_facts(1,2) gen]
  obtain st up g' where
    h: "prepare ref_lib strong_cfg ex_request ex_rng = Inr (st, up, g')"
    and o: "\<forall>v. v \<noteq> RAW \<longrightarrow> up v = ex_request v"
    and u: "if ''deformed_slice'' \<in> snd ` set (slice_to_augmentation st)
          then up RAW =
                 (let gr = ?gr
                  in Some ((ex_raw_spec\<lparr>spec_roi := ex_roi\<rparr>)\<lparr>spec_roi :=
                       \<lparr>roi_offset = map2 (\<lambda>x a. x - a)
                          (roi_offset (spec_roi (ex_raw_spec\<lparr>spec_roi := ex_roi\<rparr>))) gr,
                        roi_shape = map2 (\<lambda>n a. n + a + a)
                          (roi_shape (spec_roi (ex_raw_spec\<lparr>spec_roi := ex_roi\<rparr>))) gr\<rparr>\<rparr>))
          else up = ex_request"
    by blast
  from prepare_Inr_loop [OF h] strong_facts(1) obtain vroi where
    vroi: "roi_div (spec_roi (ex_raw_spec\<lparr>spec_roi := ex_roi\<rparr>)) (voxel_size (raw_spec strong_cfg))
             = Inr vroi"
    and ax: "axis strong_cfg < length (roi_shape vroi)"
    and loop: "prepare_loop ref_lib strong_cfg (roi_shape vroi)
                 [0..<nat (roi_shape vroi ! axis strong_cfg)] (empty_state, ex_rng) = Inr (st, g')"
    by auto
  have n: "nat (roi_shape vroi ! axis strong_cfg) = 2"
    using roi_div_shape_nth [OF vroi ax] strong_facts(3) by (simp add: slice_count_def)
  have p0: "rand_pos ex_rng = slice_draw_pos strong_cfg ex_rng 0" by simp
  from prepare_loop_invariant [OF loop refl p0] n
  have "\<forall>c. map_of (slice_to_augmentation st) c =
            (if c < 2 then planned_kind strong_cfg
                             (rand_stream ex_rng (slice_draw_pos strong_cfg ex_rng c))
             else None)"
    by (simp add: empty_state_def)
  from this [rule_format, of 0]
  have "map_of (slice_to_augmentation st) 0 = Some ''deformed_slice''"
    by (simp del: slice_draw_pos.simps
          add: strong_kinds ex_draw_positions ex_draws ex_kinds)
  then have d: "''deformed_slice'' \<in> snd ` set (slice_to_augmentation st)"
    by (force dest: map_of_SomeD)
  have upt: "[0..<3] = [0, Suc 0, 2]" by (simp add: upt_rec)
  from u d have "up RAW = Some (ex_raw_spec\<lparr>spec_roi :=
                        \<lparr>roi_offset = [0, 0, 0], roi_shape = [80, 24, 24]\<rparr>\<rparr>)"
    by (simp add: Let_def roi_dims_def ex_roi_def strong_cfg_def ex_cfg_def ex_raw_spec_def upt)
  with h o d show ?thesis by auto
qed

section \<open>The component-count assertion\<close>

lemma flow_fields_assert:
  assumes "lib_label lib (nd_map Not raster) = (components, n)" "n \<noteq> 2"
  shows "flow_fields lib s sh fixed_x ep raster = Inl (AssertionError (str_nat n))"
  using assms by (simp add: flow_fields_def Let_def)

lemma nd_map2_not_assert: "nd_map2 f a b \<noteq> Inl (AssertionError msg)"
  by (simp add: nd_map2_def split: option.splits)

lemma then_do_Inl:
  "then_do m k = Inl e \<longleftrightarrow> m = Inl e \<or> (\<exists>x. m = Inr x \<and> k x = Inl e)"
  by (cases m) (simp_all add: then_do_def)

lemma flow_fields_no_assert:
  assumes "lib_label lib (nd_map Not raster) = (components, 2)"
  shows "flow_fields lib s sh fixed_x ep raster \<noteq> Inl (AssertionError msg)"
  using assms
  by (auto simp: flow_fields_def Let_def then_do_Inl nd_map2_not_assert)

text \<open>
  C6. Once the endpoints are drawn and the line is rasterised, flow-field generation
  raises \<^verbatim>\<open>AssertionError\<close> with the component count as its message whenever the
  labelling of the mask's complement reports a count other than two, and raises no
  \<^verbatim>\<open>AssertionError\<close> when the count is two.
\<close>

theorem component_count_assertion:
  assumes "tear_line_endpoints (a + 2 * int (deformation_strength cfg),
                                b + 2 * int (deformation_strength cfg)) g = Inr ((fixed_x, ep), g')"
    and "rasterize_line lib (a + 2 * int (deformation_strength cfg),
                             b + 2 * int (deformation_strength cfg)) ep = Inr raster"
    and "lib_label lib (nd_map Not raster) = (components, n)"
  shows "if n = 2
         then \<forall>msg. prepare_deform_slice lib cfg (a # b # rest) g \<noteq> Inl (AssertionError msg)
         else prepare_deform_slice lib cfg (a # b # rest) g = Inl (AssertionError (str_nat n))"
proof (cases "n = 2")
  case True
  have "prepare_deform_slice lib cfg (a # b # rest) g \<noteq> Inl (AssertionError msg)" for msg
    using flow_fields_no_assert [OF assms(3) [unfolded True], of "int (deformation_strength cfg)"
        "(a + 2 * int (deformation_strength cfg), b + 2 * int (deformation_strength cfg))"
        fixed_x ep msg]
    unfolding prepare_deform_slice_stages
    by (auto simp: assms(1,2) then_do_def split: sum.splits)
  with True show ?thesis by simp
next
  case False
  from flow_fields_assert [OF assms(3) False] False show ?thesis
    unfolding prepare_deform_slice_stages
    by (simp add: assms(1,2) then_do_def)
qed

lemma str_nat_3: "str_nat 3 = ''3''"
  by code_simp

theorem component_count_assertion_witness:
  "tear_line_endpoints (2 + 2 * int (deformation_strength ex_cfg),
                        2 + 2 * int (deformation_strength ex_cfg)) (ex_rng\<lparr>rand_pos := Suc 0\<rparr>)
     = Inr ((True, 0, 1, 3, 1), ex_rng\<lparr>rand_pos := 2, randint_pos := 2\<rparr>)
   \<and> rasterize_line ref_lib (2 + 2 * int (deformation_strength ex_cfg),
                              2 + 2 * int (deformation_strength ex_cfg)) (0, 1, 3, 1) = Inr ex_line_mask
   \<and> snd (lib_label ref_lib (nd_map Not ex_line_mask)) = 2
   \<and> (\<forall>msg. prepare_deform_slice ref_lib ex_cfg [2, 2] (ex_rng\<lparr>rand_pos := Suc 0\<rparr>)
               \<noteq> Inl (AssertionError msg))
   \<and> snd (lib_label three_label_lib (nd_map Not ex_line_mask)) = 3
   \<and> prepare_deform_slice three_label_lib ex_cfg [2, 2] (ex_rng\<lparr>rand_pos := Suc 0\<rparr>)
       = Inl (AssertionError ''3'')"
proof -
  have s: "2 + 2 * int (deformation_strength ex_cfg) = 4" by (simp add: ex_cfg_def)
  have e: "tear_line_endpoints (2 + 2 * int (deformation_strength ex_cfg),
                        2 + 2 * int (deformation_strength ex_cfg)) (ex_rng\<lparr>rand_pos := Suc 0\<rparr>)
     = Inr ((True, 0, 1, 3, 1), ex_rng\<lparr>rand_pos := 2, randint_pos := 2\<rparr>)"
    unfolding s by (rule ex_endpoints)
  have r: "rasterize_line ref_lib (2 + 2 * int (deformation_strength ex_cfg),
                              2 + 2 * int (deformation_strength ex_cfg)) (0, 1, 3, 1) = Inr ex_line_mask"
    unfolding s by (rule ex_rasterize)
  have r3: "rasterize_line three_label_lib (2 + 2 * int (deformation_strength ex_cfg),
                              2 + 2 * int (deformation_strength ex_cfg)) (0, 1, 3, 1) = Inr ex_line_mask"
    using r by (simp add: rasterize_line_def three_label_lib_def ref_lib_def)
  have l: "lib_label ref_lib (nd_map Not ex_line_mask)
             = (fst (ref_label (nd_map Not ex_line_mask)), 2)"
    using ex_label_count by (simp add: ref_lib_def prod_eq_iff)
  have l3: "lib_label three_label_lib (nd_map Not ex_line_mask)
             = (fst (ref_label (nd_map Not ex_line_mask)), 3)"
    by (simp add: three_label_lib_def)
  from component_count_assertion [OF e r l, of Nil]
    component_count_assertion [OF e r3 l3, of Nil] e r l l3
  show ?thesis by (simp add: str_nat_3)
qed

section \<open>Shapes accepted by flow-field generation\<close>

lemma length_indices: "length (indices sh) = prod_list sh"
  by (induction sh) (simp_all add: length_concat comp_def sum_list_triv)

lemma length_flatten: "length (flatten a) = prod_list (shape a)"
  by (simp add: flatten_def length_indices)

lemma broadcast_transposed:
  "0 < n0 \<Longrightarrow> 0 < n1 \<Longrightarrow>
   broadcast_shapes [n1, n0] [n0, n1] =
     (if n0 = n1 \<or> n0 = 1 \<or> n1 = 1 then Some [max n0 n1, max n0 n1] else None)"
  by (auto simp: broadcast_shapes_def pad_shape_def bc_dim_def Let_def max_def)

lemma nd_map2_transposed:
  assumes "shape a = [n1, n0]" "shape b = [n0, n1]" "0 < n0" "0 < n1"
  shows "nd_map2 f a b =
     (if n0 = n1 \<or> n0 = 1 \<or> n1 = 1
      then Inr \<lparr>shape = [max n0 n1, max n0 n1],
                elem = (\<lambda>idx. f (elem a (bc_index [n1, n0] idx)) (elem b (bc_index [n0, n1] idx)))\<rparr>
      else Inl ValueError)"
  using assms by (simp add: nd_map2_def broadcast_transposed)

lemma line_unit_vector_cases:
  "line_unit_vector ep = (NaN, NaN) \<or> (\<exists>u v. line_unit_vector ep = (Fin u, Fin v))"
  by (cases ep) (auto simp: line_unit_vector_def Let_def)

lemma flow_fields_unfold:
  assumes "lib_label lib (nd_map Not raster) = (components, 2)"
    and "shape components = [nat sh0, nat sh1]" and "0 < sh0" and "0 < sh1"
  shows "\<exists>dx dy. shape dx = [nat sh0, nat sh1] \<and> shape dy = [nat sh0, nat sh1]
      \<and> (s = 0 \<and> line_unit_vector ep \<noteq> (NaN, NaN)
           \<longrightarrow> elem dx = (\<lambda>_. Fin 0) \<and> elem dy = (\<lambda>_. Fin 0))
      \<and> flow_fields lib s (sh0, sh1) fixed_x ep raster =
          then_do (nd_map2 flt_add (meshgrid_x (nat sh0) (nat sh1)) dx) (\<lambda>fx.
          then_do (nd_map2 flt_add (meshgrid_y (nat sh0) (nat sh1)) dy) (\<lambda>fy.
            Inr (flatten fx, flatten fy)))"
proof -
  let ?nv = "normal_vector (line_unit_vector ep)"
  let ?first = "elem components [0, 0]"
  let ?last = "elem components [nat sh0 - 1, nat sh1 - 1]"
  let ?neg = "if fixed_x then ?first else ?last"
  let ?pos = "if fixed_x then ?last else ?first"
  let ?st = "Fin (real_of_int s)"
  let ?dx = "displacement [nat sh0, nat sh1] components ?pos ?neg
               (flt_mul ?st (snd ?nv)) (flt_mul (flt_neg ?st) (snd ?nv))"
  let ?dy = "displacement [nat sh0, nat sh1] components ?pos ?neg
               (flt_mul ?st (fst ?nv)) (flt_mul (flt_neg ?st) (fst ?nv))"
  have ff: "flow_fields lib s (sh0, sh1) fixed_x ep raster =
          then_do (nd_map2 flt_add (meshgrid_x (nat sh0) (nat sh1)) ?dx) (\<lambda>fx.
          then_do (nd_map2 flt_add (meshgrid_y (nat sh0) (nat sh1)) ?dy) (\<lambda>fy.
            Inr (flatten fx, flatten fy)))"
    using assms by (simp add: flow_fields_def Let_def)
  have sh: "shape ?dx = [nat sh0, nat sh1]" "shape ?dy = [nat sh0, nat sh1]"
    by (simp_all add: displacement_def)
  have zero: "elem ?dx = (\<lambda>_. Fin 0) \<and> elem ?dy = (\<lambda>_. Fin 0)"
    if "s = 0" "line_unit_vector ep \<noteq> (NaN, NaN)"
  proof -
    from that(2) line_unit_vector_cases [of ep] obtain u v where
      "line_unit_vector ep = (Fin u, Fin v)" by auto
    with that(1) show ?thesis
      by (auto simp: displacement_def normal_vector_def fun_eq_iff)
  qed
  from ff sh zero show ?thesis by blast
qed

lemma meshgrid_shape:
  "shape (meshgrid_x n0 n1) = [n1, n0]" "shape (meshgrid_y n0 n1) = [n1, n0]"
  by (simp_all add: meshgrid_x_def meshgrid_y_def)

lemma flow_fields_result:
  assumes "lib_label lib (nd_map Not raster) = (components, 2)"
    and "shape components = [nat sh0, nat sh1]" and "0 < sh0" and "0 < sh1"
  shows "if sh0 = sh1 \<or> sh0 = 1 \<or> sh1 = 1
         then \<exists>fx fy. flow_fields lib s (sh0, sh1) fixed_x ep raster = Inr (fx, fy)
                \<and> length fx = nat (max sh0 sh1) * nat (max sh0 sh1)
                \<and> length fy = nat (max sh0 sh1) * nat (max sh0 sh1)
         else flow_fields lib s (sh0, sh1) fixed_x ep raster = Inl ValueError"
proof -
  from flow_fields_unfold [OF assms, of s ep fixed_x] obtain dx dy where
    dx: "shape dx = [nat sh0, nat sh1]" and dy: "shape dy = [nat sh0, nat sh1]"
    and ff: "flow_fields lib s (sh0, sh1) fixed_x ep raster =
          then_do (nd_map2 flt_add (meshgrid_x (nat sh0) (nat sh1)) dx) (\<lambda>fx.
          then_do (nd_map2 flt_add (meshgrid_y (nat sh0) (nat sh1)) dy) (\<lambda>fy.
            Inr (flatten fx, flatten fy)))"
    by blast
  have c: "(nat sh0 = nat sh1 \<or> nat sh0 = 1 \<or> nat sh1 = 1) = (sh0 = sh1 \<or> sh0 = 1 \<or> sh1 = 1)"
    using assms(3,4) by auto
  have m: "max (nat sh0) (nat sh1) = nat (max sh0 sh1)"
    using assms(3,4) by auto
  have p: "0 < nat sh0" "0 < nat sh1" using assms(3,4) by simp_all
  show ?thesis
    unfolding ff nd_map2_transposed [OF meshgrid_shape(1) dx p]
      nd_map2_transposed [OF meshgrid_shape(2) dy p] c
    by (simp add: then_do_def length_flatten m)
qed

lemma flow_fields_Inr:
  assumes "flow_fields lib s (sh0, sh1) fixed_x ep raster = Inr r"
  shows "\<exists>components. lib_label lib (nd_map Not raster) = (components, 2)
           \<and> shape components = [nat sh0, nat sh1] \<and> 0 < sh0 \<and> 0 < sh1"
proof -
  obtain components n where l: "lib_label lib (nd_map Not raster) = (components, n)"
    by (cases "lib_label lib (nd_map Not raster)")
  from assms l have "n = 2"
    by (auto simp: flow_fields_def Let_def split: if_splits)
  moreover from assms l this have "shape components = [nat sh0, nat sh1] \<and> 0 < sh0 \<and> 0 < sh1"
    by (auto simp: flow_fields_def Let_def split: if_splits)
  ultimately show ?thesis using l by blast
qed

lemma prepare_deform_slice_shape:
  assumes "prepare_deform_slice lib cfg (a # b # rest) g = Inr (tr, g')"
  shows "a + 2 * int (deformation_strength cfg) = b + 2 * int (deformation_strength cfg)
       \<or> a + 2 * int (deformation_strength cfg) = 1 \<or> b + 2 * int (deformation_strength cfg) = 1"
proof -
  let ?sh0 = "a + 2 * int (deformation_strength cfg)"
  let ?sh1 = "b + 2 * int (deformation_strength cfg)"
  from prepare_deform_slice_Inr [OF assms] obtain fixed_x ep raster where
    ff: "flow_fields lib (int (deformation_strength cfg)) (?sh0, ?sh1) fixed_x ep raster
           = Inr (flow_x tr, flow_y tr)"
    by auto
  from flow_fields_Inr [OF ff] obtain components where
    c: "lib_label lib (nd_map Not raster) = (components, 2)"
      "shape components = [nat ?sh0, nat ?sh1]" "0 < ?sh0" "0 < ?sh1"
    by blast
  from flow_fields_result [OF c, of "int (deformation_strength cfg)" fixed_x ep] ff
  show ?thesis by (auto split: if_splits)
qed

lemma prepare_deform_slice_staged:
  assumes "tear_line_endpoints (a + 2 * int (deformation_strength cfg),
                                b + 2 * int (deformation_strength cfg)) g = Inr ((fixed_x, ep), g')"
    and "rasterize_line lib (a + 2 * int (deformation_strength cfg),
                             b + 2 * int (deformation_strength cfg)) ep = Inr raster"
  shows "prepare_deform_slice lib cfg (a # b # rest) g =
     then_do (flow_fields lib (int (deformation_strength cfg))
                (a + 2 * int (deformation_strength cfg),
                 b + 2 * int (deformation_strength cfg)) fixed_x ep raster) (\<lambda>(fx, fy).
       Inr (\<lparr>flow_x = fx, flow_y = fy, line_mask = lib_binary_dilation lib raster 10\<rparr>, g'))"
  unfolding prepare_deform_slice_stages by (simp add: assms then_do_def)

text \<open>
  C10 (as amended). Flow-field generation returns only when the padded slice is square
  or one of its padded dimensions is 1. The meshgrid has the transposed shape of the
  displacement arrays, so once the endpoints are drawn, the line is rasterised and two
  components are found, a padded shape with unequal dimensions, both different from 1,
  makes the sum of line 272 raise \<^verbatim>\<open>ValueError\<close>; when one padded dimension is 1 the
  sum broadcasts instead, and the flow fields returned have the square of the other
  dimension as their length.
\<close>

theorem flow_fields_need_matching_shape:
  "(prepare_deform_slice lib cfg (a # b # rest) g = Inr (tr, g') \<longrightarrow>
      a + 2 * int (deformation_strength cfg) = b + 2 * int (deformation_strength cfg)
      \<or> a + 2 * int (deformation_strength cfg) = 1 \<or> b + 2 * int (deformation_strength cfg) = 1)
   \<and> (tear_line_endpoints (a + 2 * int (deformation_strength cfg),
                            b + 2 * int (deformation_strength cfg)) g = Inr ((fixed_x, ep), g1)
      \<and> rasterize_line lib (a + 2 * int (deformation_strength cfg),
                            b + 2 * int (deformation_strength cfg)) ep = Inr raster
      \<and> lib_label lib (nd_map Not raster) = (components, 2)
      \<and> shape components = [nat (a + 2 * int (deformation_strength cfg)),
                             nat (b + 2 * int (deformation_strength cfg))]
      \<and> 0 < a + 2 * int (deformation_strength cfg) \<and> 0 < b + 2 * int (deformation_strength cfg)
      \<longrightarrow>
      (if a + 2 * int (deformation_strength cfg) = b + 2 * int (deformation_strength cfg)
          \<or> a + 2 * int (deformation_strength cfg) = 1 \<or> b + 2 * int (deformation_strength cfg) = 1
       then \<exists>tr'. prepare_deform_slice lib cfg (a # b # rest) g = Inr (tr', g1)
              \<and> length (flow_x tr') = nat (max (a + 2 * int (deformation_strength cfg))
                                              (b + 2 * int (deformation_strength cfg)))
                                       * nat (max (a + 2 * int (deformation_strength cfg))
                                                (b + 2 * int (deformation_strength cfg)))
              \<and> length (flow_y tr') = length (flow_x tr')
       else prepare_deform_slice lib cfg (a # b # rest) g = Inl ValueError))"
proof (intro conjI impI)
  assume "prepare_deform_slice lib cfg (a # b # rest) g = Inr (tr, g')"
  then show "a + 2 * int (deformation_strength cfg) = b + 2 * int (deformation_strength cfg)
      \<or> a + 2 * int (deformation_strength cfg) = 1 \<or> b + 2 * int (deformation_strength cfg) = 1"
    by (rule prepare_deform_slice_shape)
next
  let ?sh0 = "a + 2 * int (deformation_strength cfg)"
  let ?sh1 = "b + 2 * int (deformation_strength cfg)"
  assume h: "tear_line_endpoints (?sh0, ?sh1) g = Inr ((fixed_x, ep), g1)
      \<and> rasterize_line lib (?sh0, ?sh1) ep = Inr raster
      \<and> lib_label lib (nd_map Not raster) = (components, 2)
      \<and> shape components = [nat ?sh0, nat ?sh1]
      \<and> 0 < ?sh0 \<and> 0 < ?sh1"
  then have st: "prepare_deform_slice lib cfg (a # b # rest) g =
     then_do (flow_fields lib (int (deformation_strength cfg)) (?sh0, ?sh1) fixed_x ep raster)
       (\<lambda>(fx, fy).
         Inr (\<lparr>flow_x = fx, flow_y = fy, line_mask = lib_binary_dilation lib raster 10\<rparr>, g1))"
    using prepare_deform_slice_staged by blast
  from h have c: "lib_label lib (nd_map Not raster) = (components, 2)"
    "shape components = [nat ?sh0, nat ?sh1]" "0 < ?sh0" "0 < ?sh1" by simp_all
  from flow_fields_result [OF c, of "int (deformation_strength cfg)" fixed_x ep]
  show "if ?sh0 = ?sh1 \<or> ?sh0 = 1 \<or> ?sh1 = 1
       then \<exists>tr'. prepare_deform_slice lib cfg (a # b # rest) g = Inr (tr', g1)
              \<and> length (flow_x tr') = nat (max ?sh0 ?sh1) * nat (max ?sh0 ?sh1)
              \<and> length (flow_y tr') = length (flow_x tr')
       else prepare_deform_slice lib cfg (a # b # rest) g = Inl ValueError"
    unfolding st by (auto simp: then_do_def split: if_splits)
qed

lemma flat_strength: "int (deformation_strength flat_cfg) = 0"
  by (simp add: flat_cfg_def)

lemma ref_line_flat: "ref_line 0 1 0 2 = [(0, 1), (0, 2)]"
  by code_simp

lemma endpoints_1x5:
  "tear_line_endpoints (1, 5) (draws_for 0 1 2)
     = Inr ((True, 0, 1, 0, 2), (draws_for 0 1 2)\<lparr>rand_pos := 1, randint_pos := 2\<rparr>)"
  by (simp add: tear_line_endpoints_def random_random_def np_random_randint_def
        then_do_def draws_for_def Let_def)

lemma rasterize_1x5: "rasterize_line ref_lib (1, 5) (0, 1, 0, 2) = Inr line_mask_1x5"
  by (simp add: rasterize_line_def ref_lib_def ref_line_flat set_pixels_def np_full_def
        norm_index_def line_mask_1x5_def)

lemma label_1x5:
  "lib_label ref_lib (nd_map Not line_mask_1x5)
     = (fst (ref_label (nd_map Not line_mask_1x5)), 2)"
proof -
  have "snd (ref_label (nd_map Not line_mask_1x5)) = 2" by code_simp
  then show ?thesis by (simp add: ref_lib_def prod_eq_iff)
qed

lemma endpoints_4x5:
  "tear_line_endpoints (4, 5) (draws_for 0 1 1)
     = Inr ((True, 0, 1, 3, 1), (draws_for 0 1 1)\<lparr>rand_pos := 1, randint_pos := 2\<rparr>)"
  by (simp add: tear_line_endpoints_def random_random_def np_random_randint_def
        then_do_def draws_for_def Let_def)

lemma rasterize_4x5: "rasterize_line ref_lib (4, 5) (0, 1, 3, 1) = Inr line_mask_4x5"
  by (simp add: rasterize_line_def ref_lib_def ref_line_ex set_pixels_def np_full_def
        norm_index_def line_mask_4x5_def)

lemma label_4x5:
  "lib_label ref_lib (nd_map Not line_mask_4x5)
     = (fst (ref_label (nd_map Not line_mask_4x5)), 2)"
proof -
  have "snd (ref_label (nd_map Not line_mask_4x5)) = 2" by code_simp
  then show ?thesis by (simp add: ref_lib_def prod_eq_iff)
qed

lemma flat_generation_returns:
  "\<exists>tr g'. prepare_deform_slice ref_lib flat_cfg [1, 5] (draws_for 0 1 2) = Inr (tr, g')
      \<and> length (flow_x tr) = 25 \<and> length (flow_y tr) = 25"
proof -
  have c1: "lib_label ref_lib (nd_map Not line_mask_1x5)
             = (fst (ref_label (nd_map Not line_mask_1x5)), 2)"
    by (rule label_1x5)
  have c2: "shape (fst (ref_label (nd_map Not line_mask_1x5))) = [nat 1, nat 5]"
    "(0::int) < 1" "(0::int) < 5"
    by (simp_all add: label_shape nd_map_def line_mask_1x5_def)
  note c = c1 c2
  from flow_fields_result [OF c, of 0 True "(0, 1, 0, 2)"] obtain fx fy where
    ff: "flow_fields ref_lib 0 (1, 5) True (0, 1, 0, 2) line_mask_1x5 = Inr (fx, fy)"
    and l: "length fx = 25" "length fy = 25"
    by auto
  have "prepare_deform_slice ref_lib flat_cfg [1, 5] (draws_for 0 1 2)
      = Inr (\<lparr>flow_x = fx, flow_y = fy, line_mask = lib_binary_dilation ref_lib line_mask_1x5 10\<rparr>,
             (draws_for 0 1 2)\<lparr>rand_pos := 1, randint_pos := 2\<rparr>)"
    unfolding prepare_deform_slice_stages flat_strength
    by (simp add: endpoints_1x5 rasterize_1x5 ff then_do_def)
  with l show ?thesis by simp
qed

theorem flow_fields_need_matching_shape_witness:
  "tear_line_endpoints (4 + 2 * int (deformation_strength flat_cfg),
                        5 + 2 * int (deformation_strength flat_cfg)) (draws_for 0 1 1)
     = Inr ((True, 0, 1, 3, 1), (draws_for 0 1 1)\<lparr>rand_pos := 1, randint_pos := 2\<rparr>)
   \<and> rasterize_line ref_lib (4 + 2 * int (deformation_strength flat_cfg),
                              5 + 2 * int (deformation_strength flat_cfg)) (0, 1, 3, 1)
       = Inr line_mask_4x5
   \<and> snd (lib_label ref_lib (nd_map Not line_mask_4x5)) = 2
   \<and> prepare_deform_slice ref_lib flat_cfg [4, 5] (draws_for 0 1 1) = Inl ValueError
   \<and> tear_line_endpoints (1 + 2 * int (deformation_strength flat_cfg),
                          5 + 2 * int (deformation_strength flat_cfg)) (draws_for 0 1 2)
       = Inr ((True, 0, 1, 0, 2), (draws_for 0 1 2)\<lparr>rand_pos := 1, randint_pos := 2\<rparr>)
   \<and> (\<exists>tr. prepare_deform_slice ref_lib flat_cfg [1, 5] (draws_for 0 1 2)
              = Inr (tr, (draws_for 0 1 2)\<lparr>rand_pos := 1, randint_pos := 2\<rparr>)
            \<and> length (flow_x tr) = 25 \<and> length (flow_y tr) = 25)"
proof -
  have z: "4 + 2 * int (deformation_strength flat_cfg) = 4"
    "5 + 2 * int (deformation_strength flat_cfg) = 5"
    "1 + 2 * int (deformation_strength flat_cfg) = 1"
    by (simp_all add: flat_strength)
  have s45: "shape (fst (ref_label (nd_map Not line_mask_4x5))) = [nat 4, nat 5]"
    by (simp add: label_shape nd_map_def line_mask_4x5_def)
  have s15: "shape (fst (ref_label (nd_map Not line_mask_1x5))) = [nat 1, nat 5]"
    by (simp add: label_shape nd_map_def line_mask_1x5_def)
  from flow_fields_need_matching_shape [of ref_lib flat_cfg 4 5 Nil "draws_for 0 1 1" undefined
      undefined True "(0, 1, 3, 1)" "(draws_for 0 1 1)\<lparr>rand_pos := 1, randint_pos := 2\<rparr>"
      line_mask_4x5 "fst (ref_label (nd_map Not line_mask_4x5))", unfolded z]
    endpoints_4x5 rasterize_4x5 label_4x5 s45
  have a: "prepare_deform_slice ref_lib flat_cfg [4, 5] (draws_for 0 1 1) = Inl ValueError"
    by simp
  from flow_fields_need_matching_shape [of ref_lib flat_cfg 1 5 Nil "draws_for 0 1 2" undefined
      undefined True "(0, 1, 0, 2)" "(draws_for 0 1 2)\<lparr>rand_pos := 1, randint_pos := 2\<rparr>"
      line_mask_1x5 "fst (ref_label (nd_map Not line_mask_1x5))", unfolded z]
    endpoints_1x5 rasterize_1x5 label_1x5 s15
  have b: "\<exists>tr. prepare_deform_slice ref_lib flat_cfg [1, 5] (draws_for 0 1 2)
              = Inr (tr, (draws_for 0 1 2)\<lparr>rand_pos := 1, randint_pos := 2\<rparr>)
            \<and> length (flow_x tr) = 25 \<and> length (flow_y tr) = 25"
    by auto
  from a b endpoints_4x5 rasterize_4x5 label_4x5 endpoints_1x5 show ?thesis
    by (simp add: z)
qed

text \<open>
  The claim as stated fails: with deformation strength 0 a slice of shape \<open>(1, 5)\<close> is
  not square, and flow-field generation returns flow fields of 25 entries for its 5
  pixels.
\<close>

theorem non_square_generation_returns:
  "\<exists>tr g'. prepare_deform_slice ref_lib flat_cfg [1, 5] (draws_for 0 1 2) = Inr (tr, g')
      \<and> length (flow_x tr) = 25 \<and> length (flow_y tr) = 25"
  by (rule flat_generation_returns)

section \<open>A request on which preparation raises\<close>

lemma endpoints_4x5_ex:
  "tear_line_endpoints (4, 5) (ex_rng\<lparr>rand_pos := Suc 0\<rparr>)
     = Inr ((True, 0, 1, 3, 1), ex_rng\<lparr>rand_pos := 2, randint_pos := 2\<rparr>)"
  by (simp add: tear_line_endpoints_def random_random_def np_random_randint_def
        then_do_def ex_rng_def Let_def)

lemma nonsq_generation:
  "prepare_deform_slice ref_lib ex_cfg [2, 3] (ex_rng\<lparr>rand_pos := Suc 0\<rparr>) = Inl ValueError"
proof -
  have s: "deformation_strength ex_cfg = 1" by (simp add: ex_cfg_def)
  have c1: "lib_label ref_lib (nd_map Not line_mask_4x5)
             = (fst (ref_label (nd_map Not line_mask_4x5)), 2)"
    by (rule label_4x5)
  have c2: "shape (fst (ref_label (nd_map Not line_mask_4x5))) = [nat 4, nat 5]"
    "(0::int) < 4" "(0::int) < 5"
    by (simp_all add: label_shape nd_map_def line_mask_4x5_def)
  note c = c1 c2
  from flow_fields_result [OF c, of 1 True "(0, 1, 3, 1)"]
  have ff: "flow_fields ref_lib 1 (4, 5) True (0, 1, 3, 1) line_mask_4x5 = Inl ValueError"
    by simp
  show ?thesis
    unfolding prepare_deform_slice_stages s
    by (simp add: endpoints_4x5_ex rasterize_4x5 ff then_do_def)
qed

text \<open>
  The claim as stated fails for some requested ROIs: with slices of \<open>2 \<times> 3\<close> voxels and
  a deformation strength of one voxel, slice 0 is drawn as deformed, flow-field
  generation raises \<^verbatim>\<open>ValueError\<close> on the padded shape \<open>(4, 5)\<close>, and \<^verbatim>\<open>prepare\<close>
  raises without a plan for the two slices of the request.
\<close>

theorem prepare_raises_on_non_square_slices:
  "nonsq_request RAW = Some (ex_raw_spec\<lparr>spec_roi := nonsq_roi\<rparr>)
   \<and> well_formed ex_cfg (ex_raw_spec\<lparr>spec_roi := nonsq_roi\<rparr>)
   \<and> slice_count ex_cfg (ex_raw_spec\<lparr>spec_roi := nonsq_roi\<rparr>) = 2
   \<and> prepare ref_lib ex_cfg nonsq_request ex_rng = Inl ValueError"
proof -
  have c: "prob_missing ex_cfg = 1 / 4" "prob_low_contrast ex_cfg = 1 / 4"
    "prob_artifact ex_cfg = 1 / 4" "prob_deform ex_cfg = 1 / 4" "axis ex_cfg = 0"
    "voxel_size (raw_spec ex_cfg) = [40, 4, 4]"
    by (simp_all add: ex_cfg_def ex_raw_spec_def)
  have g: "rand_stream ex_rng = (\<lambda>n. if n = 0 then 4 / 5 else if n = 1 then 3 / 10 else 1 / 10)"
    "rand_pos ex_rng = 0"
    by (simp_all add: ex_rng_def)
  have r: "nonsq_request RAW = Some (ex_raw_spec\<lparr>spec_roi := nonsq_roi\<rparr>)"
    by (simp add: nonsq_request_def)
  have d: "roi_div nonsq_roi [40, 4, 4] = Inr \<lparr>roi_offset = [0, 2, 2], roi_shape = [2, 2, 3]\<rparr>"
    by (simp add: roi_div_def coordinate_div_def then_do_def nonsq_roi_def)
  have s0: "prepare_slice ref_lib ex_cfg [2, 2, 3] 0 (empty_state, ex_rng) = Inl ValueError"
    unfolding prepare_slice_def
    by (simp add: c g random_random_def Let_def nonsq_generation then_do_def)
  have upt: "[0..<2] = [0, Suc 0]" by (simp add: upt_rec)
  have p: "prepare ref_lib ex_cfg nonsq_request ex_rng = Inl ValueError"
    unfolding prepare_def
    by (simp add: r c d then_do_def Let_def upt s0)
  have w: "well_formed ex_cfg (ex_raw_spec\<lparr>spec_roi := nonsq_roi\<rparr>)"
    "slice_count ex_cfg (ex_raw_spec\<lparr>spec_roi := nonsq_roi\<rparr>) = 2"
    by (simp_all add: well_formed_def slice_count_def ex_cfg_def ex_raw_spec_def nonsq_roi_def)
  from r w p show ?thesis by simp
qed

section \<open>Flow fields at deformation strength 0\<close>

lemma set_indices_2: "set (indices [n, m]) = {[i, j] | i j. i < n \<and> j < m}"
  by (auto simp: image_iff)

lemma flatten_add_zero:
  assumes "shape d = [n, n]" "elem d = (\<lambda>_. Fin 0)" "n \<noteq> 1"
    and "shape m = [n, n]" "\<And>idx. \<exists>v. elem m idx = Fin v"
  shows "\<exists>r. nd_map2 flt_add m d = Inr r \<and> flatten r = flatten m"
proof -
  have b: "broadcast_shapes [n, n] [n, n] = Some [n, n]"
    by (simp add: broadcast_shapes_def pad_shape_def bc_dim_def)
  let ?r = "\<lparr>shape = [n, n],
             elem = (\<lambda>idx. flt_add (elem m (bc_index [n, n] idx)) (elem d (bc_index [n, n] idx)))\<rparr>"
  have r: "nd_map2 flt_add m d = Inr ?r"
    using assms(1,4) b by (simp add: nd_map2_def)
  have "elem ?r idx = elem m idx" if "idx \<in> set (indices [n, n])" for idx
  proof -
    from that obtain i j where idx: "idx = [i, j]" by (auto simp: set_indices_2)
    from assms(5) [of idx] obtain v where "elem m idx = Fin v" by blast
    then show ?thesis using assms(2,3) by (simp add: idx bc_index_def)
  qed
  then have "flatten ?r = flatten m"
    using assms(4) by (simp add: flatten_def)
  with r show ?thesis by blast
qed

lemma line_unit_vector_finite:
  assumes "x1 - x0 \<noteq> 0 \<or> y1 - y0 \<noteq> 0"
  shows "line_unit_vector (x0, y0, x1, y1) \<noteq> (NaN, NaN)"
proof -
  from assms have "real_of_int (x1 - x0) * real_of_int (x1 - x0)
                 + real_of_int (y1 - y0) * real_of_int (y1 - y0) \<noteq> 0"
    by (auto simp: sum_squares_eq_zero_iff simp del: of_int_diff)
  then show ?thesis by (simp add: line_unit_vector_def Let_def del: of_int_diff)
qed

lemma square_endpoints_apart:
  assumes "tear_line_endpoints (n, n) g = Inr ((fixed_x, ep), g')"
  shows "line_unit_vector ep \<noteq> (NaN, NaN) \<and> 4 \<le> n"
proof -
  obtain x0 y0 x1 y1 where ep: "ep = (x0, y0, x1, y1)" by (cases ep)
  from tear_line_endpoints_range [OF assms [unfolded ep]]
  have "(x1 - x0 \<noteq> 0 \<or> y1 - y0 \<noteq> 0) \<and> 4 \<le> n"
    by (auto split: if_splits)
  then show ?thesis unfolding ep using line_unit_vector_finite by blast
qed

lemma zero_strength_flows:
  assumes "deformation_strength cfg = 0"
    and "prepare_deform_slice lib cfg (a # a # rest) g = Inr (tr, g')"
  shows "flow_x tr = flatten (meshgrid_x (nat a) (nat a))
       \<and> flow_y tr = flatten (meshgrid_y (nat a) (nat a)) \<and> 4 \<le> a"
proof -
  from prepare_deform_slice_Inr [OF assms(2)] assms(1) obtain fixed_x ep raster where
    e: "tear_line_endpoints (a, a) g = Inr ((fixed_x, ep), g')"
    and ff: "flow_fields lib 0 (a, a) fixed_x ep raster = Inr (flow_x tr, flow_y tr)"
    by auto
  from square_endpoints_apart [OF e] have fin: "line_unit_vector ep \<noteq> (NaN, NaN)"
    and a4: "4 \<le> a" by simp_all
  from flow_fields_Inr [OF ff] obtain components where
    c: "lib_label lib (nd_map Not raster) = (components, 2)"
      "shape components = [nat a, nat a]" "0 < a" "0 < a" by blast
  from flow_fields_unfold [OF c, of 0 ep fixed_x] fin obtain dx dy where
    dx: "shape dx = [nat a, nat a]" "elem dx = (\<lambda>_. Fin 0)"
    and dy: "shape dy = [nat a, nat a]" "elem dy = (\<lambda>_. Fin 0)"
    and ff2: "flow_fields lib 0 (a, a) fixed_x ep raster =
          then_do (nd_map2 flt_add (meshgrid_x (nat a) (nat a)) dx) (\<lambda>fx.
          then_do (nd_map2 flt_add (meshgrid_y (nat a) (nat a)) dy) (\<lambda>fy.
            Inr (flatten fx, flatten fy)))"
    by auto
  from a4 have n1: "nat a \<noteq> 1" by simp
  from flatten_add_zero [OF dx n1, of "meshgrid_x (nat a) (nat a)"] obtain rx where
    rx: "nd_map2 flt_add (meshgrid_x (nat a) (nat a)) dx = Inr rx"
      "flatten rx = flatten (meshgrid_x (nat a) (nat a))"
    by (auto simp: meshgrid_x_def)
  from flatten_add_zero [OF dy n1, of "meshgrid_y (nat a) (nat a)"] obtain ry where
    ry: "nd_map2 flt_add (meshgrid_y (nat a) (nat a)) dy = Inr ry"
      "flatten ry = flatten (meshgrid_y (nat a) (nat a))"
    by (auto simp: meshgrid_y_def)
  from ff ff2 rx ry a4 show ?thesis by (simp add: then_do_def)
qed

lemma nearest_of_nat: "nearest (Fin (real k)) = Some (int k)"
proof -
  have "\<lfloor>real k + 1 / 2\<rfloor> = int k" by (simp add: floor_eq_iff)
  then show ?thesis by (simp add: nearest_def)
qed

lemma map2_same_list:
  "map2 f (map g xs) (map h xs) = map (\<lambda>x. f (g x) (h x)) xs"
  by (induction xs) simp_all

lemma identity_resampling:
  assumes "shape section = [n, n]"
  shows "ref_map_coordinates section [flatten (meshgrid_y n n), flatten (meshgrid_x n n)]
           ''constant'' ord cval = Inr (flatten section)"
proof -
  have "sample_at section cval (Fin (real (idx ! 0))) (Fin (real (idx ! 1))) = elem section idx"
    if "idx \<in> set (indices [n, n])" for idx
  proof -
    from that obtain i j where idx: "idx = [i, j]" "i < n" "j < n"
      by (auto simp: set_indices_2)
    then show ?thesis using assms by (simp add: sample_at_def nearest_of_nat)
  qed
  then have "map2 (sample_at section cval) (flatten (meshgrid_y n n)) (flatten (meshgrid_x n n))
               = flatten section"
    using assms
    by (simp add: flatten_def meshgrid_x_def meshgrid_y_def map2_same_list
          del: indices.simps)
  then show ?thesis using assms
    by (simp add: ref_map_coordinates_def length_flatten meshgrid_shape del: indices.simps)
qed

lemma shape_dilate_once: "shape (dilate_once a) = shape a"
  by (simp add: dilate_once_def)

lemma shape_dilate_funpow: "shape ((dilate_once ^^ k) a) = shape a"
  by (induction k) (simp_all add: shape_dilate_once)

lemma dilate_once_keeps:
  assumes "shape a = [h, w]" "i < h" "j < w" "elem a [i, j]"
  shows "elem (dilate_once a) [i, j]"
  using assms by (simp add: dilate_once_def)

lemma dilate_once_from_right:
  assumes "shape a = [h, w]" "i < h" "Suc j < w" "elem a [i, Suc j]"
  shows "elem (dilate_once a) [i, j]"
  using assms by (simp add: dilate_once_def)

lemma dilate_funpow_keeps:
  assumes "shape a = [h, w]" "i < h" "j < w" "elem a [i, j]"
  shows "elem ((dilate_once ^^ k) a) [i, j]"
proof (induction k)
  case 0
  show ?case using assms by simp
next
  case (Suc k)
  have "shape ((dilate_once ^^ k) a) = [h, w]"
    using assms(1) by (simp add: shape_dilate_funpow)
  from dilate_once_keeps [OF this assms(2,3) Suc.IH] show ?case by simp
qed

lemma dilation_reaches_left_neighbour:
  assumes "shape a = [h, w]" "i < h" "Suc j < w" "elem a [i, Suc j]"
  shows "elem (ref_binary_dilation a (Suc k)) [i, j]"
proof -
  have s: "shape (dilate_once a) = [h, w]" using assms(1) by (simp add: shape_dilate_once)
  have j: "j < w" using assms(3) by simp
  from dilate_funpow_keeps [OF s assms(2) j dilate_once_from_right [OF assms], of k]
  show ?thesis by (simp add: ref_binary_dilation_def funpow_swap1)
qed

text \<open>
  C7 (as amended). For a square slice shape on which flow-field generation with
  deformation strength 0 returns, the flow fields are the flattened identity meshgrid, so
  that sampling a slice of that shape at them (at the nearest grid point) returns the
  slice; the line mask is the rasterised line after the 10 iterations of binary dilation
  of line 275, which do not depend on the deformation strength.
\<close>

theorem zero_strength_flow_fields:
  assumes "deformation_strength cfg = 0"
    and "prepare_deform_slice lib cfg (a # a # rest) g = Inr (tr, g')"
  shows "flow_x tr = flatten (meshgrid_x (nat a) (nat a))
       \<and> flow_y tr = flatten (meshgrid_y (nat a) (nat a))
       \<and> (\<forall>section ord. shape section = [nat a, nat a] \<longrightarrow>
             ref_map_coordinates section [flow_y tr, flow_x tr] ''constant'' ord 0
               = Inr (flatten section))
       \<and> (\<exists>fixed_x ep raster.
             tear_line_endpoints (a, a) g = Inr ((fixed_x, ep), g') \<and>
             rasterize_line lib (a, a) ep = Inr raster \<and>
             line_mask tr = lib_binary_dilation lib raster 10)"
proof -
  from zero_strength_flows [OF assms]
  have f: "flow_x tr = flatten (meshgrid_x (nat a) (nat a))"
    "flow_y tr = flatten (meshgrid_y (nat a) (nat a))" by simp_all
  from prepare_deform_slice_Inr [OF assms(2)] assms(1)
  have m: "\<exists>fixed_x ep raster.
             tear_line_endpoints (a, a) g = Inr ((fixed_x, ep), g') \<and>
             rasterize_line lib (a, a) ep = Inr raster \<and>
             line_mask tr = lib_binary_dilation lib raster 10"
    by auto
  from f m identity_resampling show ?thesis by simp
qed

lemma endpoints_4x4:
  "tear_line_endpoints (4, 4) (draws_for 0 1 1)
     = Inr ((True, 0, 1, 3, 1), (draws_for 0 1 1)\<lparr>rand_pos := 1, randint_pos := 2\<rparr>)"
  by (simp add: tear_line_endpoints_def random_random_def np_random_randint_def
        then_do_def draws_for_def Let_def)

lemma flat_square_generation:
  "\<exists>fx fy. prepare_deform_slice ref_lib flat_cfg [4, 4] (draws_for 0 1 1)
      = Inr (\<lparr>flow_x = fx, flow_y = fy, line_mask = ref_binary_dilation ex_line_mask 10\<rparr>,
             (draws_for 0 1 1)\<lparr>rand_pos := 1, randint_pos := 2\<rparr>)"
proof -
  have c: "lib_label ref_lib (nd_map Not ex_line_mask)
             = (fst (ref_label (nd_map Not ex_line_mask)), 2)"
    using ex_label_count by (simp add: ref_lib_def prod_eq_iff)
  from flow_fields_square [OF c ex_label_shape, of 0 True "(0, 1, 3, 1)"] obtain fx fy where
    ff: "flow_fields ref_lib 0 (4, 4) True (0, 1, 3, 1) ex_line_mask = Inr (fx, fy)"
    by auto
  have d: "lib_binary_dilation ref_lib = ref_binary_dilation" by (simp add: ref_lib_def)
  have "prepare_deform_slice ref_lib flat_cfg [4, 4] (draws_for 0 1 1)
      = Inr (\<lparr>flow_x = fx, flow_y = fy, line_mask = ref_binary_dilation ex_line_mask 10\<rparr>,
             (draws_for 0 1 1)\<lparr>rand_pos := 1, randint_pos := 2\<rparr>)"
    unfolding prepare_deform_slice_stages flat_strength
    by (simp add: endpoints_4x4 ex_rasterize ff then_do_def d)
  then show ?thesis by blast
qed

lemma ex_line_mask_widened:
  "\<not> elem ex_line_mask [0, 0] \<and> elem (ref_binary_dilation ex_line_mask 10) [0, 0]"
proof -
  have s: "shape ex_line_mask = [4, 4]" and e: "elem ex_line_mask [0, Suc 0]"
    and n: "\<not> elem ex_line_mask [0, 0]"
    by (simp_all add: ex_line_mask_def)
  have "elem (ref_binary_dilation ex_line_mask (Suc 9)) [0, 0]"
    by (rule dilation_reaches_left_neighbour [OF s _ _ e]) simp_all
  with n show ?thesis by simp
qed

text \<open>
  The claim as stated fails: with deformation strength 0 on a slice of \<open>4 \<times> 4\<close> voxels
  whose tear line runs down column 1, the pixel \<open>(0, 0)\<close> is not on the rasterised line
  and is set in the line mask that flow-field generation returns.
\<close>

theorem zero_strength_mask_is_widened:
  "\<exists>tr g'. prepare_deform_slice ref_lib flat_cfg [4, 4] (draws_for 0 1 1) = Inr (tr, g')
     \<and> tear_line_endpoints (4, 4) (draws_for 0 1 1) = Inr ((True, 0, 1, 3, 1), g')
     \<and> rasterize_line ref_lib (4, 4) (0, 1, 3, 1) = Inr ex_line_mask
     \<and> \<not> elem ex_line_mask [0, 0]
     \<and> elem (line_mask tr) [0, 0]"
proof -
  from flat_square_generation obtain fx fy where
    "prepare_deform_slice ref_lib flat_cfg [4, 4] (draws_for 0 1 1)
      = Inr (\<lparr>flow_x = fx, flow_y = fy, line_mask = ref_binary_dilation ex_line_mask 10\<rparr>,
             (draws_for 0 1 1)\<lparr>rand_pos := 1, randint_pos := 2\<rparr>)" by blast
  with endpoints_4x4 ex_rasterize ex_line_mask_widened show ?thesis by auto
qed

theorem zero_strength_flow_fields_witness:
  "deformation_strength flat_cfg = 0
   \<and> (\<exists>tr g'. prepare_deform_slice ref_lib flat_cfg [4, 4] (draws_for 0 1 1) = Inr (tr, g')
        \<and> flow_x tr = flatten (meshgrid_x 4 4) \<and> flow_y tr = flatten (meshgrid_y 4 4)
        \<and> ref_map_coordinates (np_full [4, 4] 7) [flow_y tr, flow_x tr] ''constant'' 3 0
             = Inr (flatten (np_full [4, 4] 7))
        \<and> line_mask tr = lib_binary_dilation ref_lib ex_line_mask 10)"
proof -
  have z: "deformation_strength flat_cfg = 0" by (simp add: flat_cfg_def)
  from flat_square_generation obtain fx fy where
    h: "prepare_deform_slice ref_lib flat_cfg [4, 4] (draws_for 0 1 1)
      = Inr (\<lparr>flow_x = fx, flow_y = fy, line_mask = ref_binary_dilation ex_line_mask 10\<rparr>,
             (draws_for 0 1 1)\<lparr>rand_pos := 1, randint_pos := 2\<rparr>)" by blast
  have s: "shape (np_full [4, 4] (7::real)) = [nat 4, nat 4]" by (simp add: np_full_def)
  from zero_strength_flow_fields [OF z h] s
  have "flow_x \<lparr>flow_x = fx, flow_y = fy, line_mask = ref_binary_dilation ex_line_mask 10\<rparr>
          = flatten (meshgrid_x 4 4)"
    and "flow_y \<lparr>flow_x = fx, flow_y = fy, line_mask = ref_binary_dilation ex_line_mask 10\<rparr>
          = flatten (meshgrid_y 4 4)"
    and "ref_map_coordinates (np_full [4, 4] 7) [fy, fx] ''constant'' 3 0
             = Inr (flatten (np_full [4, 4] 7))"
    by auto
  with z h show ?thesis by (auto simp: ref_lib_def)
qed

section \<open>The low-contrast augmentation\<close>

lemma lower_contrast_is_no_branch:
  "process_slice lib src cfg st dt ndims (c, ''lower_contrast'') dc = Inr dc"
  by (cases dc) (simp add: process_slice_def)

lemma lc_prepare:
  "prepare ref_lib lc_cfg lc_request (draws_for (1 / 2) 1 1)
     = Inr (set_augmentation 0 ''lower_contrast'' empty_state, lc_request,
            (draws_for (1 / 2) 1 1)\<lparr>rand_pos := 1\<rparr>)"
proof -
  have c: "prob_missing lc_cfg = 0" "prob_low_contrast lc_cfg = 1"
    "prob_artifact lc_cfg = 0" "prob_deform lc_cfg = 0" "axis lc_cfg = 0"
    "voxel_size (raw_spec lc_cfg) = [40, 4, 4]"
    by (simp_all add: lc_cfg_def ex_cfg_def ex_raw_spec_def)
  have g: "rand_stream (draws_for (1 / 2) 1 1) = (\<lambda>_. 1 / 2)" "rand_pos (draws_for (1 / 2) 1 1) = 0"
    by (simp_all add: draws_for_def)
  have s0: "prepare_slice ref_lib lc_cfg [1, 1, 2] 0 (empty_state, draws_for (1 / 2) 1 1)
      = Inr (set_augmentation 0 ''lower_contrast'' empty_state,
             (draws_for (1 / 2) 1 1)\<lparr>rand_pos := 1\<rparr>)"
    unfolding prepare_slice_def
    by (simp add: c g random_random_def Let_def)
  have d: "roi_div lc_roi [40, 4, 4] = Inr \<lparr>roi_offset = [0, 0, 0], roi_shape = [1, 1, 2]\<rparr>"
    by (simp add: roi_div_def coordinate_div_def then_do_def lc_roi_def)
  have r: "lc_request RAW = Some (ex_raw_spec\<lparr>spec_roi := lc_roi\<rparr>)"
    by (simp add: lc_request_def)
  have plan: "slice_to_augmentation (set_augmentation 0 ''lower_contrast'' empty_state)
                = [(0, ''lower_contrast'')]"
    by (simp add: set_augmentation_def empty_state_def)
  show ?thesis
    unfolding prepare_def
    by (simp add: r c d then_do_def Let_def s0 plan)
qed

lemma indices_112: "indices [Suc 0, Suc 0, 2] = [[0, 0, 0], [0, 0, Suc 0]]"
  by code_simp

lemma low_contrast_branch_compresses:
  "\<exists>d. low_contrast_slice lc_cfg Float32
          \<lparr>shape = [1, 1, 2], elem = (\<lambda>idx. if idx = [0, 0, 1] then 10 else 0)\<rparr> 3 0 0 = Inr d
       \<and> flatten d = [9 / 2, 11 / 2]"
proof -
  define a where "a = \<lparr>shape = [1, 1, 2], elem = (\<lambda>idx. if idx = [0, 0, 1] then 10 else (0::real))\<rparr>"
  define sec where "sec = \<lparr>shape = section_shape (shape a) 3 0 0,
                              elem = (\<lambda>idx. elem a (section_index 3 0 0 idx))\<rparr>"
  have sel: "select_section a 3 0 0 = Inr sec"
    by (simp add: select_section_def sec_def a_def)
  have m: "mean_of sec = 5"
    by (simp add: mean_of_def flatten_def sec_def a_def section_shape_def indices_112
          section_index_def del: indices.simps)
  have cs: "contrast_scale lc_cfg = 1 / 10" by (simp add: lc_cfg_def ex_cfg_def)
  have res: "low_contrast_slice lc_cfg Float32 a 3 0 0
      = Inr (a\<lparr>elem := (\<lambda>idx. if in_section 3 0 0 idx then (elem a idx - 5) * (1 / 10) + 5
                                 else elem a idx)\<rparr>)"
    by (simp add: low_contrast_slice_def sel then_do_def m cs Let_def cong: if_cong)
  have "flatten (a\<lparr>elem := (\<lambda>idx. if in_section 3 0 0 idx then (elem a idx - 5) * (1 / 10) + 5
                                 else elem a idx)\<rparr>) = [9 / 2, 11 / 2]"
    by (simp add: a_def flatten_def indices_112 in_section_def del: indices.simps)
  with res show ?thesis unfolding a_def by blast
qed

text \<open>
  C2 (the code diverges). With \<open>prob_low_contrast = 1\<close> the plan tags the one slice of
  the request \<^verbatim>\<open>'lower_contrast'\<close> (line 107), a tag that no branch of \<^verbatim>\<open>process\<close>
  matches (line 157 tests for \<^verbatim>\<open>'low_contrast'\<close>): the batch comes back unchanged, the
  slice \<open>[0, 10]\<close> keeps its variance. The branch of lines 158-165 applied to the same
  slice gives \<open>[4.5, 5.5]\<close>, the mean kept and the deviations scaled by the contrast
  scale \<open>0.1\<close>.
\<close>

theorem planned_low_contrast_slice_is_not_altered:
  "\<exists>st g'. prepare ref_lib lc_cfg lc_request (draws_for (1 / 2) 1 1) = Inr (st, lc_request, g')
     \<and> slice_to_augmentation st = [(0, ''lower_contrast'')]
     \<and> process ref_lib None lc_cfg st lc_batch lc_request = (None, lc_batch)
     \<and> (\<exists>d. low_contrast_slice lc_cfg Float32
               \<lparr>shape = [1, 1, 2], elem = (\<lambda>idx. if idx = [0, 0, 1] then 10 else 0)\<rparr> 3 0 0 = Inr d
             \<and> flatten d = [9 / 2, 11 / 2])"
proof -
  let ?st = "set_augmentation 0 ''lower_contrast'' empty_state"
  have plan: "slice_to_augmentation ?st = [(0, ''lower_contrast'')]"
    by (simp add: set_augmentation_def empty_state_def)
  have d: "roi_dims lc_roi = 3" by (simp add: roi_dims_def lc_roi_def)
  have "process ref_lib None lc_cfg ?st lc_batch lc_request = (None, lc_batch)"
    unfolding process_def
    by (simp add: lc_batch_def d plan lower_contrast_is_no_branch Let_def)
  with lc_prepare plan low_contrast_branch_compresses show ?thesis by blast
qed

section \<open>Data contract violations\<close>
















section \<open>Restoring the requested ROI\<close>

lemma assign_section_shape:
  "assign_section a ndims ax c v = Inr a' \<Longrightarrow> shape a' = shape a"
  by (auto simp: assign_section_def split: if_splits)

lemma zero_out_slice_shape:
  "zero_out_slice data ndims ax c = Inr d \<Longrightarrow> shape d = shape data"
  by (auto simp: zero_out_slice_def dest: assign_section_shape)

lemma low_contrast_slice_shape:
  "low_contrast_slice cfg dt data ndims ax c = Inr d \<Longrightarrow> shape d = shape data"
  by (auto simp: low_contrast_slice_def then_do_Inr Let_def split: if_splits)

lemma artifact_slice_Inr:
  assumes "artifact_slice src cfg dt calls data ndims ax c = Inr (d, calls')"
  shows "\<exists>sec a artifact_batch artifact_alpha artifact_raw blend.
           select_section data ndims ax c = Inr sec \<and> src = Some a
         \<and> voxel_size (raw_spec cfg) = alpha_mask_voxel_size a
         \<and> request_batch a calls
              [(RAW, map2 (\<lambda>n v. int n * v) (shape sec) (alpha_mask_voxel_size a)),
               (ALPHA_MASK, map2 (\<lambda>n v. int n * v) (shape sec) (alpha_mask_voxel_size a))]
            = Inr artifact_batch
         \<and> volumes artifact_batch ALPHA_MASK = Some artifact_alpha
         \<and> volumes artifact_batch RAW = Some artifact_raw
         \<and> assign_section data ndims ax c blend = Inr d \<and> calls' = Suc calls"
proof -
  obtain sec where sel: "select_section data ndims ax c = Inr sec"
    using assms
    by (cases "select_section data ndims ax c") (simp_all add: artifact_slice_def then_do_def)
  obtain a where src: "src = Some a"
    using assms sel by (cases src) (simp_all add: artifact_slice_def then_do_def)
  have vs: "voxel_size (raw_spec cfg) = alpha_mask_voxel_size a"
    using assms sel src by (simp add: artifact_slice_def then_do_def split: if_splits)
  let ?rq = "request_batch a calls
              [(RAW, map2 (\<lambda>n v. int n * v) (shape sec) (alpha_mask_voxel_size a)),
               (ALPHA_MASK, map2 (\<lambda>n v. int n * v) (shape sec) (alpha_mask_voxel_size a))]"
  obtain ab where rb: "?rq = Inr ab"
    using assms sel src vs
    by (cases ?rq) (simp_all add: artifact_slice_def then_do_def)
  obtain alpha where al: "volumes ab ALPHA_MASK = Some alpha"
    using assms sel src vs rb
    by (cases "volumes ab ALPHA_MASK") (simp_all add: artifact_slice_def then_do_def)
  obtain araw where ar: "volumes ab RAW = Some araw"
    using assms sel src vs rb al
    by (cases "volumes ab RAW") (simp_all add: artifact_slice_def then_do_def)
  let ?tail = "then_do (nd_map2 (\<lambda>x al. x * (1 - al)) sec (vol_data alpha)) (\<lambda>kept.
               then_do (nd_map2 (\<lambda>x al. x * al) (vol_data araw) (vol_data alpha)) (\<lambda>added.
               then_do (nd_map2 (\<lambda>x y. x + y) kept added) (\<lambda>blend.
               then_do (assign_section data ndims ax c blend) (\<lambda>data'.
                 Inr (data', Suc calls)))))"
  have "?tail = Inr (d, calls')"
    using assms sel src vs rb al ar
    by (simp add: artifact_slice_def then_do_Inr split: if_splits)
  then obtain blend where "assign_section data ndims ax c blend = Inr d" "calls' = Suc calls"
    by (auto simp: then_do_Inr)
  with sel src vs rb al ar show ?thesis by blast
qed

lemma artifact_slice_shape:
  assumes "artifact_slice src cfg dt calls data ndims ax c = Inr (d, calls')"
  shows "shape d = shape data"
  using artifact_slice_Inr [OF assms] assign_section_shape by blast

lemma deformed_slice_shape:
  assumes "deformed_slice lib cfg st data ndims ax c = Inr d"
  shows "shape d = shape data"
proof -
  from assms obtain v where "assign_section data ndims ax c v = Inr d"
    unfolding deformed_slice_def
    by (auto simp: then_do_Inr Let_def split: option.splits if_splits)
  then show ?thesis by (rule assign_section_shape)
qed

lemma process_slice_shape:
  assumes "process_slice lib src cfg st dt ndims item (data, calls) = Inr (d, calls')"
  shows "shape d = shape data"
proof -
  obtain c kind where item: "item = (c, kind)" by (cases item)
  from assms show ?thesis
    unfolding item process_slice_def
    by (auto simp: then_do_Inr split: if_splits
          dest: zero_out_slice_shape low_contrast_slice_shape artifact_slice_shape
            deformed_slice_shape)
qed

lemma process_loop_shape:
  assumes "process_loop lib src cfg st dt ndims items (data, calls) = (None, (d, calls'))"
  shows "shape d = shape data"
  using assms
proof (induction items arbitrary: data calls)
  case Nil
  then show ?case by simp
next
  case (Cons item items)
  from Cons.prems obtain d1 c1 where
    s: "process_slice lib src cfg st dt ndims item (data, calls) = Inr (d1, c1)"
    and r: "process_loop lib src cfg st dt ndims items (d1, c1) = (None, (d, calls'))"
    by (auto split: sum.splits)
  from Cons.IH [OF r] process_slice_shape [OF s] show ?case by simp
qed

lemma process_None_deformed:
  assumes "process lib src cfg st b request = (None, b')"
    and "''deformed_slice'' \<in> snd ` set (slice_to_augmentation st)"
    and "volumes b RAW = Some raw"
  shows "\<exists>data calls rspec.
           process_loop lib src cfg st (vol_dtype raw) (roi_dims (spec_roi (vol_spec raw)))
             (slice_to_augmentation st) (vol_data raw, 0) = (None, (data, calls))
         \<and> request RAW = Some rspec
         \<and> roi_dims (total_roi b) = 3
         \<and> roi_dims (spec_roi (vol_spec raw)) \<le> length (shape data)
         \<and> b' = b\<lparr>volumes := (volumes b)(RAW \<mapsto>
                   raw\<lparr>vol_data := crop data (roi_dims (spec_roi (vol_spec raw))) (axis cfg)
                                       (deformation_strength cfg),
                       vol_spec := (vol_spec raw)\<lparr>spec_roi := spec_roi rspec\<rparr>\<rparr>)\<rparr>"
proof -
  let ?loop = "process_loop lib src cfg st (vol_dtype raw) (roi_dims (spec_roi (vol_spec raw)))
             (slice_to_augmentation st) (vol_data raw, 0)"
  obtain err data calls where l: "?loop = (err, (data, calls))"
    by (cases ?loop) auto
  from assms have d3: "roi_dims (total_roi b) = 3"
    by (auto simp: process_def split: if_splits)
  from assms d3 l have e: "err = None"
    by (auto simp: process_def Let_def split: option.splits)
  from assms d3 l e obtain rspec where r: "request RAW = Some rspec"
    by (auto simp: process_def Let_def split: option.splits)
  from assms d3 l e r show ?thesis
    by (auto simp: process_def Let_def split: if_splits)
qed

lemma select_section_3d:
  assumes "shape data = [n, h, w]" "c < n"
  shows "select_section data 3 0 c
           = Inr \<lparr>shape = [1, h, w], elem = (\<lambda>idx. elem data (idx[0 := idx ! 0 + c]))\<rparr>"
  by (simp add: select_section_def section_shape_def section_index_def assms)

lemma padded_slice_3d:
  assumes "shape selected = [1, h, w]" "h \<noteq> 1" "w \<noteq> 1"
  shows "shape (materialize (squeeze selected)) = [h, w]"
    and "elem (materialize (squeeze selected)) [i, j]
           = (if i < h \<and> j < w then elem selected [0, i, j] else 0)"
  using assms by (simp_all add: materialize_def squeeze_def in_bounds_def)

lemma deformed_slice_result:
  assumes sh: "shape data = [n, h, w]" and c: "c < n" and h: "h \<noteq> 1" and w: "w \<noteq> 1"
    and tr: "map_of (deform_slice_transformations st) c = Some tr"
    and sel: "select_section data 3 0 c = Inr selected"
    and mc: "lib_map_coordinates lib (materialize (squeeze selected)) [flow_y tr, flow_x tr]
               ''constant'' (if interpolatable (raw_spec cfg) = Some True then 3 else 0) 0
             = Inr samples"
    and len: "length samples = h * w"
    and mask: "shape (line_mask tr) = [h, w]"
  shows "\<exists>d. deformed_slice lib cfg st data 3 0 c = Inr d \<and> shape d = [n, h, w]
     \<and> (\<forall>k i j. elem d [k, i, j] =
           (if k = c then (if elem (line_mask tr) [i, j] then 0 else samples ! (i * w + j))
            else elem data [k, i, j]))"
proof -
  from select_section_3d [OF sh c] sel have ssh: "shape selected = [1, h, w]" by auto
  note psh = padded_slice_3d(1) [OF ssh h w]
  have rs: "reshape samples [h, w]
              = Inr \<lparr>shape = [h, w], elem = (\<lambda>idx. samples ! ravel_index [h, w] idx)\<rparr>"
    by (simp add: reshape_def len)
  have asg: "assignable [h, w] (section_shape [n, h, w] 3 0 c)"
    by (simp add: assignable_def section_shape_def)
  define v where "v = \<lparr>shape = [h, w],
       elem = (\<lambda>idx. if elem (line_mask tr) idx then 0 else samples ! ravel_index [h, w] idx)\<rparr>"
  have d: "deformed_slice lib cfg st data 3 0 c =
      Inr (data\<lparr>elem := (\<lambda>idx. if in_section 3 0 c idx
                                   then elem v (assign_index (shape v) (idx[0 := idx ! 0 - c]))
                                   else elem data idx)\<rparr>)"
    unfolding deformed_slice_def v_def
    using mc
    by (simp add: sel then_do_def Let_def tr psh rs mask assign_section_def sh asg cong: if_cong)
  have ai: "assign_index [h, w] [0, i, j] = [i, j]" for i j
    using h w by (simp add: assign_index_def bc_index_def)
  have ri: "ravel_index [h, w] [i, j] = i * w + j" for i j
    by (simp add: ravel_index_def)
  show ?thesis
    unfolding d by (simp add: sh in_section_def v_def ai ri)
qed

lemma process_deformed_slice:
  "process_slice lib src cfg st dt ndims (c, ''deformed_slice'') (data, calls) =
     then_do (deformed_slice lib cfg st data ndims (axis cfg) c) (\<lambda>d. Inr (d, calls))"
  by (simp add: process_slice_def)

lemma slice_length_strength:
  "slice_length n s = (if s = 0 then 0 else n - 2 * s)"
  by (auto simp: slice_length_def slice_stop_def slice_start_def min_def)

lemma process_None_plain:
  assumes "process lib src cfg st b request = (None, b')"
    and "''deformed_slice'' \<notin> snd ` set (slice_to_augmentation st)"
    and "volumes b RAW = Some raw"
  shows "\<exists>data calls.
           process_loop lib src cfg st (vol_dtype raw) (roi_dims (spec_roi (vol_spec raw)))
             (slice_to_augmentation st) (vol_data raw, 0) = (None, (data, calls))
         \<and> b' = b\<lparr>volumes := (volumes b)(RAW \<mapsto> raw\<lparr>vol_data := data\<rparr>)\<rparr>"
proof -
  let ?loop = "process_loop lib src cfg st (vol_dtype raw) (roi_dims (spec_roi (vol_spec raw)))
             (slice_to_augmentation st) (vol_data raw, 0)"
  obtain err data calls where l: "?loop = (err, (data, calls))"
    by (cases ?loop) auto
  from assms have d3: "roi_dims (total_roi b) = 3"
    by (auto simp: process_def split: if_splits)
  from assms d3 l have e: "err = None"
    by (auto simp: process_def Let_def split: option.splits)
  from assms d3 l e show ?thesis
    by (auto simp: process_def Let_def split: if_splits)
qed

lemma crop_after_deformation:
  assumes "process lib src cfg st b request = (None, b')"
    and "volumes b RAW = Some raw"
  shows "\<exists>raw'. volumes b' RAW = Some raw'
       \<and> (if ''deformed_slice'' \<in> snd ` set (slice_to_augmentation st)
          then (\<exists>rspec. request RAW = Some rspec \<and> spec_roi (vol_spec raw') = spec_roi rspec)
             \<and> shape (vol_data raw') =
                 map2 (\<lambda>d n. if d < roi_dims (spec_roi (vol_spec raw)) \<and> d \<noteq> axis cfg
                              then (if deformation_strength cfg = 0 then 0
                                    else n - 2 * deformation_strength cfg)
                              else n)
                   [0..<length (shape (vol_data raw))] (shape (vol_data raw))
          else vol_spec raw' = vol_spec raw \<and> shape (vol_data raw') = shape (vol_data raw))"
proof (cases "''deformed_slice'' \<in> snd ` set (slice_to_augmentation st)")
  case True
  from process_None_deformed [OF assms(1) True assms(2)] obtain data calls rspec where
    l: "process_loop lib src cfg st (vol_dtype raw) (roi_dims (spec_roi (vol_spec raw)))
             (slice_to_augmentation st) (vol_data raw, 0) = (None, (data, calls))"
    and r: "request RAW = Some rspec"
    and b': "b' = b\<lparr>volumes := (volumes b)(RAW \<mapsto>
                   raw\<lparr>vol_data := crop data (roi_dims (spec_roi (vol_spec raw))) (axis cfg)
                                       (deformation_strength cfg),
                       vol_spec := (vol_spec raw)\<lparr>spec_roi := spec_roi rspec\<rparr>\<rparr>)\<rparr>"
    by auto
  from process_loop_shape [OF l] have sh: "shape data = shape (vol_data raw)" .
  show ?thesis
    using True unfolding b'
    by (simp add: crop_def sh r slice_length_strength cong: if_cong)
next
  case False
  from process_None_plain [OF assms(1) False assms(2)] obtain data calls where
    l: "process_loop lib src cfg st (vol_dtype raw) (roi_dims (spec_roi (vol_spec raw)))
             (slice_to_augmentation st) (vol_data raw, 0) = (None, (data, calls))"
    and b': "b' = b\<lparr>volumes := (volumes b)(RAW \<mapsto> raw\<lparr>vol_data := data\<rparr>)\<rparr>"
    by auto
  from process_loop_shape [OF l] have sh: "shape data = shape (vol_data raw)" .
  show ?thesis using False unfolding b' by (simp add: sh)
qed

lemma flat_generation_ex:
  "\<exists>tr. prepare_deform_slice ref_lib flat_cfg [4, 4] (ex_rng\<lparr>rand_pos := Suc 0\<rparr>)
           = Inr (tr, ex_rng\<lparr>rand_pos := 2, randint_pos := 2\<rparr>)
       \<and> length (flow_x tr) = 16 \<and> length (flow_y tr) = 16 \<and> shape (line_mask tr) = [4, 4]"
proof -
  have c1: "lib_label ref_lib (nd_map Not ex_line_mask)
             = (fst (ref_label (nd_map Not ex_line_mask)), 2)"
    using ex_label_count by (simp add: ref_lib_def prod_eq_iff)
  have c2: "shape (fst (ref_label (nd_map Not ex_line_mask))) = [nat 4, nat 4]"
    "(0::int) < 4" "(0::int) < 4"
    by (simp_all add: ex_label_shape)
  note c = c1 c2
  from flow_fields_result [OF c, of 0 True "(0, 1, 3, 1)"] obtain fx fy where
    ff: "flow_fields ref_lib 0 (4, 4) True (0, 1, 3, 1) ex_line_mask = Inr (fx, fy)"
    and l: "length fx = 16" "length fy = 16"
    by auto
  have d: "lib_binary_dilation ref_lib = ref_binary_dilation" by (simp add: ref_lib_def)
  have m: "shape (ref_binary_dilation ex_line_mask 10) = [4, 4]"
    by (simp add: ref_binary_dilation_def shape_dilate_funpow ex_line_mask_def)
  have "prepare_deform_slice ref_lib flat_cfg [4, 4] (ex_rng\<lparr>rand_pos := Suc 0\<rparr>)
      = Inr (\<lparr>flow_x = fx, flow_y = fy, line_mask = ref_binary_dilation ex_line_mask 10\<rparr>,
             ex_rng\<lparr>rand_pos := 2, randint_pos := 2\<rparr>)"
    unfolding prepare_deform_slice_stages flat_strength
    by (simp add: ex_endpoints ex_rasterize ff then_do_def d)
  with l m show ?thesis by simp
qed

lemma zr_prepare:
  "\<exists>st tr g'. prepare ref_lib flat_cfg zr_request ex_rng = Inr (st, zr_request, g')
     \<and> slice_to_augmentation st = [(0, ''deformed_slice'')]
     \<and> map_of (deform_slice_transformations st) 0 = Some tr
     \<and> length (flow_x tr) = 16 \<and> length (flow_y tr) = 16 \<and> shape (line_mask tr) = [4, 4]"
proof -
  from flat_generation_ex obtain tr where
    tr: "prepare_deform_slice ref_lib flat_cfg [4, 4] (ex_rng\<lparr>rand_pos := Suc 0\<rparr>)
           = Inr (tr, ex_rng\<lparr>rand_pos := 2, randint_pos := 2\<rparr>)"
    and l: "length (flow_x tr) = 16" "length (flow_y tr) = 16" "shape (line_mask tr) = [4, 4]"
    by blast
  have c: "prob_missing flat_cfg = 1 / 4" "prob_low_contrast flat_cfg = 1 / 4"
    "prob_artifact flat_cfg = 1 / 4" "prob_deform flat_cfg = 1 / 4" "axis flat_cfg = 0"
    "voxel_size (raw_spec flat_cfg) = [40, 4, 4]" "deformation_strength flat_cfg = 0"
    by (simp_all add: flat_cfg_def ex_cfg_def ex_raw_spec_def)
  have g: "rand_stream ex_rng = (\<lambda>n. if n = 0 then 4 / 5 else if n = 1 then 3 / 10 else 1 / 10)"
    "rand_pos ex_rng = 0"
    by (simp_all add: ex_rng_def)
  define st1 where "st1 = (set_augmentation 0 ''deformed_slice'' empty_state)
                \<lparr>deform_slice_transformations := [(0, tr)]\<rparr>"
  have s0: "prepare_slice ref_lib flat_cfg [1, 4, 4] 0 (empty_state, ex_rng)
      = Inr (st1, ex_rng\<lparr>rand_pos := 2, randint_pos := 2\<rparr>)"
    unfolding prepare_slice_def st1_def
    by (simp add: c g random_random_def Let_def tr then_do_def empty_state_def)
  have plan: "slice_to_augmentation st1 = [(0, ''deformed_slice'')]"
    "map_of (deform_slice_transformations st1) 0 = Some tr"
    by (simp_all add: st1_def set_augmentation_def empty_state_def)
  have d: "roi_dims zr_roi = 3" by (simp add: roi_dims_def zr_roi_def)
  have dv: "roi_div zr_roi [40, 4, 4] = Inr \<lparr>roi_offset = [0, 0, 0], roi_shape = [1, 4, 4]\<rparr>"
    by (simp add: roi_div_def coordinate_div_def then_do_def zr_roi_def)
  have r: "zr_request RAW = Some (ex_raw_spec\<lparr>spec_roi := zr_roi\<rparr>)"
    by (simp add: zr_request_def)
  have gr: "growth flat_cfg 3 = Inr [0, 0, 0]"
    by (simp add: growth_def c upt_rec)
  have rg: "roi_grow zr_roi [0, 0, 0] [0, 0, 0] = zr_roi"
    by (simp add: roi_grow_def zr_roi_def)
  have same: "zr_request(RAW \<mapsto> ex_raw_spec\<lparr>spec_roi := zr_roi\<rparr>) = zr_request"
    by (simp add: zr_request_def)
  have "prepare ref_lib flat_cfg zr_request ex_rng
     = Inr (st1, zr_request, ex_rng\<lparr>rand_pos := 2, randint_pos := 2\<rparr>)"
    unfolding prepare_def
    by (simp add: r c dv then_do_def Let_def s0 plan d gr rg same)
  with plan l show ?thesis by blast
qed

lemma zr_process:
  assumes "slice_to_augmentation st = [(0, ''deformed_slice'')]"
    and "map_of (deform_slice_transformations st) 0 = Some tr"
    and "length (flow_x tr) = 16" "length (flow_y tr) = 16" "shape (line_mask tr) = [4, 4]"
  shows "\<exists>b'. process ref_lib None flat_cfg st zr_batch zr_request = (None, b')"
proof -
  have sh: "shape (np_full [1, 4, 4] (5::real)) = [1, 4, 4]" by (simp add: np_full_def)
  from select_section_3d [OF sh, of 0] obtain selected where
    sel: "select_section (np_full [1, 4, 4] (5::real)) 3 0 0 = Inr selected"
    and ssh: "shape selected = [1, 4, 4]"
    by simp
  note psh = padded_slice_3d(1) [OF ssh, of ]
  have mc: "lib_map_coordinates ref_lib (materialize (squeeze selected)) [flow_y tr, flow_x tr]
               ''constant'' (if interpolatable (raw_spec flat_cfg) = Some True then 3 else 0) 0
             = Inr (map2 (sample_at (materialize (squeeze selected)) 0) (flow_y tr) (flow_x tr))"
    using psh assms(3,4) by (simp add: ref_lib_def ref_map_coordinates_def)
  have len: "length (map2 (sample_at (materialize (squeeze selected)) 0) (flow_y tr) (flow_x tr))
               = 4 * 4"
    using assms(3,4) by simp
  from deformed_slice_result [OF sh _ _ _ assms(2) sel mc len assms(5)] obtain d where
    d: "deformed_slice ref_lib flat_cfg st (np_full [1, 4, 4] 5) 3 0 0 = Inr d"
    and dsh: "shape d = [1, 4, 4]"
    by auto
  have ax: "axis flat_cfg = 0" by (simp add: flat_cfg_def ex_cfg_def)
  have r3: "roi_dims zr_roi = 3" by (simp add: roi_dims_def zr_roi_def)
  have loop: "process_loop ref_lib None flat_cfg st Float32 3 [(0, ''deformed_slice'')]
                (np_full [1, 4, 4] 5, 0) = (None, (d, 0))"
    using d by (simp add: process_deformed_slice ax then_do_def)
  show ?thesis
    unfolding process_def
    using loop dsh by (simp add: zr_batch_def zr_request_def r3 assms(1) Let_def)
qed

text \<open>
  C1 (the code diverges). With deformation strength 0 and a plan that holds a deformed
  slice, the crop of lines 219-223 keeps \<^verbatim>\<open>slice(0, -0)\<close> of every axis but the cut
  axis, and \<^verbatim>\<open>slice(0, -0)\<close> is the empty \<^verbatim>\<open>slice(0, 0)\<close>: a request for one slice of
  \<open>4 \<times> 4\<close> voxels, whose upstream request is not expanded, comes back from
  \<^verbatim>\<open>process\<close> with the requested ROI, of \<open>1 \<times> 4 \<times> 4\<close> voxels, on data of shape
  \<open>(1, 0, 0)\<close>.
\<close>

theorem zero_strength_crop_empties_the_volume:
  "\<exists>st g' b' raw'. prepare ref_lib flat_cfg zr_request ex_rng = Inr (st, zr_request, g')
     \<and> slice_to_augmentation st = [(0, ''deformed_slice'')]
     \<and> process ref_lib None flat_cfg st zr_batch zr_request = (None, b')
     \<and> volumes b' RAW = Some raw'
     \<and> spec_roi (vol_spec raw') = zr_roi
     \<and> roi_div zr_roi (voxel_size (raw_spec flat_cfg))
         = Inr \<lparr>roi_offset = [0, 0, 0], roi_shape = [1, 4, 4]\<rparr>
     \<and> shape (vol_data raw') = [1, 0, 0]"
proof -
  from zr_prepare obtain st tr g' where
    p: "prepare ref_lib flat_cfg zr_request ex_rng = Inr (st, zr_request, g')"
    and plan: "slice_to_augmentation st = [(0, ''deformed_slice'')]"
    and tr: "map_of (deform_slice_transformations st) 0 = Some tr"
      "length (flow_x tr) = 16" "length (flow_y tr) = 16" "shape (line_mask tr) = [4, 4]"
    by blast
  from zr_process [OF plan tr] obtain b' where
    b': "process ref_lib None flat_cfg st zr_batch zr_request = (None, b')" by blast
  have raw: "volumes zr_batch RAW = Some \<lparr>vol_data = np_full [1, 4, 4] 5, vol_dtype = Float32,
                                     vol_spec = ex_raw_spec\<lparr>spec_roi := zr_roi\<rparr>\<rparr>"
    by (simp add: zr_batch_def)
  have upt: "[0..<3] = [0, Suc 0, 2]" by (simp add: upt_rec)
  from crop_after_deformation [OF b' raw] plan obtain raw' where
    v: "volumes b' RAW = Some raw'"
    and roi: "spec_roi (vol_spec raw') = zr_roi"
    and sh: "shape (vol_data raw') = [1, 0, 0]"
    by (auto simp: zr_request_def np_full_def roi_dims_def zr_roi_def flat_cfg_def ex_cfg_def upt)
  have dv: "roi_div zr_roi (voxel_size (raw_spec flat_cfg))
         = Inr \<lparr>roi_offset = [0, 0, 0], roi_shape = [1, 4, 4]\<rparr>"
    by (simp add: roi_div_def coordinate_div_def then_do_def zr_roi_def flat_cfg_def ex_cfg_def
          ex_raw_spec_def)
  from p plan b' v roi dv sh show ?thesis by blast
qed

section \<open>The deformed slice\<close>

lemma deformed_slice_Inr:
  assumes "deformed_slice lib cfg st data ndims ax c = Inr d"
  shows "\<exists>selected tr samples resampled.
           select_section data ndims ax c = Inr selected
         \<and> map_of (deform_slice_transformations st) c = Some tr
         \<and> length (shape (materialize (squeeze selected))) = 2
         \<and> lib_map_coordinates lib (materialize (squeeze selected)) [flow_y tr, flow_x tr]
              ''constant'' (if interpolatable (raw_spec cfg) = Some True then 3 else 0) 0
            = Inr samples
         \<and> reshape samples (shape (materialize (squeeze selected))) = Inr resampled
         \<and> shape (line_mask tr) = shape resampled
         \<and> assign_section data ndims ax c
              (resampled\<lparr>elem := (\<lambda>idx. if elem (line_mask tr) idx then 0
                                           else elem resampled idx)\<rparr>) = Inr d"
proof -
  obtain selected where sel: "select_section data ndims ax c = Inr selected"
    using assms
    by (cases "select_section data ndims ax c") (simp_all add: deformed_slice_def then_do_def)
  let ?sec = "materialize (squeeze selected)"
  obtain tr where tr: "map_of (deform_slice_transformations st) c = Some tr"
    using assms sel
    by (cases "map_of (deform_slice_transformations st) c")
       (simp_all add: deformed_slice_def then_do_def Let_def)
  have rank: "length (shape ?sec) = 2"
    using assms sel tr
    by (simp add: deformed_slice_def then_do_def Let_def split: if_splits)
  let ?call = "lib_map_coordinates lib ?sec [flow_y tr, flow_x tr]
              ''constant'' (if interpolatable (raw_spec cfg) = Some True then 3 else 0) 0"
  obtain samples where mc: "?call = Inr samples"
    using assms sel tr rank
    by (cases ?call) (simp_all add: deformed_slice_def then_do_def Let_def)
  obtain resampled where rs: "reshape samples (shape ?sec) = Inr resampled"
    using assms sel tr rank mc
    by (cases "reshape samples (shape ?sec)")
       (simp_all add: deformed_slice_def then_do_def Let_def)
  have m: "shape (line_mask tr) = shape resampled"
    using assms sel tr rank mc rs
    by (simp add: deformed_slice_def then_do_def Let_def split: if_splits)
  have "assign_section data ndims ax c
              (resampled\<lparr>elem := (\<lambda>idx. if elem (line_mask tr) idx then 0
                                           else elem resampled idx)\<rparr>) = Inr d"
    using assms sel tr rank mc rs m
    by (simp add: deformed_slice_def then_do_def Let_def)
  with sel tr rank mc rs m show ?thesis by blast
qed

lemma reshape_shape: "reshape xs sh = Inr a \<Longrightarrow> shape a = sh"
  by (auto simp: reshape_def split: if_splits)

lemma deformed_slice_other_axis:
  assumes "shape data = [n, h, w]" and "ax = 1 \<or> ax = 2"
    and "2 \<le> n" "2 \<le> h" "2 \<le> w"
  shows "deformed_slice lib cfg st data 3 ax c \<noteq> Inr d"
proof
  assume "deformed_slice lib cfg st data 3 ax c = Inr d"
  from deformed_slice_Inr [OF this] obtain selected and tr :: transform and samples resampled where
    sel: "select_section data 3 ax c = Inr selected"
    and rank: "length (shape (materialize (squeeze selected))) = 2"
    and rs: "reshape samples (shape (materialize (squeeze selected))) = Inr resampled"
    and asg: "assign_section data 3 ax c
              (resampled\<lparr>elem := (\<lambda>idx. if elem (line_mask tr) idx then 0
                                           else elem resampled idx)\<rparr>) = Inr d"
    by auto
  from sel have ssh: "shape selected = section_shape [n, h, w] 3 ax c"
    by (auto simp: select_section_def assms(1) split: if_splits)
  from reshape_shape [OF rs] have rsh: "shape resampled = filter (\<lambda>d. d \<noteq> 1) (shape selected)"
    by (simp add: materialize_def squeeze_def)
  from asg have a: "assignable (filter (\<lambda>d. d \<noteq> 1) (section_shape [n, h, w] 3 ax c))
                      (section_shape [n, h, w] 3 ax c)"
    by (auto simp: assign_section_def assms(1) rsh ssh split: if_splits)
  from rank have r: "length (filter (\<lambda>d. d \<noteq> 1) (section_shape [n, h, w] 3 ax c)) = 2"
    by (simp add: materialize_def squeeze_def ssh)
  from assms(2) show False
  proof
    assume "ax = 1"
    with a r assms(3-5) show False
      by (auto simp: section_shape_def assignable_def split: if_splits)
  next
    assume "ax = 2"
    with a r assms(3-5) show False
      by (auto simp: section_shape_def assignable_def split: if_splits)
  qed
qed

lemma ax_generation:
  "\<exists>tr. prepare_deform_slice ref_lib ax_cfg [2, 2] (ex_rng\<lparr>rand_pos := Suc 0\<rparr>)
           = Inr (tr, ex_rng\<lparr>rand_pos := 2, randint_pos := 2\<rparr>)
       \<and> length (flow_x tr) = 16 \<and> length (flow_y tr) = 16
       \<and> line_mask tr = ref_binary_dilation ex_line_mask 10"
proof -
  have c1: "lib_label ref_lib (nd_map Not ex_line_mask)
             = (fst (ref_label (nd_map Not ex_line_mask)), 2)"
    using ex_label_count by (simp add: ref_lib_def prod_eq_iff)
  have c2: "shape (fst (ref_label (nd_map Not ex_line_mask))) = [nat 4, nat 4]"
    "(0::int) < 4" "(0::int) < 4"
    by (simp_all add: ex_label_shape)
  note c = c1 c2
  from flow_fields_result [OF c, of 1 True "(0, 1, 3, 1)"] obtain fx fy where
    ff: "flow_fields ref_lib 1 (4, 4) True (0, 1, 3, 1) ex_line_mask = Inr (fx, fy)"
    and l: "length fx = 16" "length fy = 16"
    by auto
  have d: "lib_binary_dilation ref_lib = ref_binary_dilation" by (simp add: ref_lib_def)
  have s: "deformation_strength ax_cfg = 1" by (simp add: ax_cfg_def ex_cfg_def)
  have "prepare_deform_slice ref_lib ax_cfg [2, 2] (ex_rng\<lparr>rand_pos := Suc 0\<rparr>)
      = Inr (\<lparr>flow_x = fx, flow_y = fy, line_mask = ref_binary_dilation ex_line_mask 10\<rparr>,
             ex_rng\<lparr>rand_pos := 2, randint_pos := 2\<rparr>)"
    unfolding prepare_deform_slice_stages s
    by (simp add: ex_endpoints ex_rasterize ff then_do_def d)
  with l show ?thesis by simp
qed

lemma ax_prepare:
  "\<exists>st tr g'. prepare ref_lib ax_cfg ax_request ex_rng
                 = Inr (st, [RAW \<mapsto> ex_raw_spec\<lparr>spec_roi := ax_grown_roi\<rparr>], g')
     \<and> slice_to_augmentation st = [(0, ''deformed_slice'')]
     \<and> map_of (deform_slice_transformations st) 0 = Some tr
     \<and> length (flow_x tr) = 16 \<and> length (flow_y tr) = 16
     \<and> line_mask tr = ref_binary_dilation ex_line_mask 10"
proof -
  from ax_generation obtain tr where
    tr: "prepare_deform_slice ref_lib ax_cfg [2, 2] (ex_rng\<lparr>rand_pos := Suc 0\<rparr>)
           = Inr (tr, ex_rng\<lparr>rand_pos := 2, randint_pos := 2\<rparr>)"
    and l: "length (flow_x tr) = 16" "length (flow_y tr) = 16"
      "line_mask tr = ref_binary_dilation ex_line_mask 10"
    by blast
  have c: "prob_missing ax_cfg = 1 / 4" "prob_low_contrast ax_cfg = 1 / 4"
    "prob_artifact ax_cfg = 1 / 4" "prob_deform ax_cfg = 1 / 4" "axis ax_cfg = Suc 0"
    "voxel_size (raw_spec ax_cfg) = [40, 4, 4]" "deformation_strength ax_cfg = 1"
    by (simp_all add: ax_cfg_def ex_cfg_def ex_raw_spec_def)
  have g: "rand_stream ex_rng = (\<lambda>n. if n = 0 then 4 / 5 else if n = 1 then 3 / 10 else 1 / 10)"
    "rand_pos ex_rng = 0"
    by (simp_all add: ex_rng_def)
  define st1 where "st1 = (set_augmentation 0 ''deformed_slice'' empty_state)
                \<lparr>deform_slice_transformations := [(0, tr)]\<rparr>"
  have s0: "prepare_slice ref_lib ax_cfg [2, 1, 2] 0 (empty_state, ex_rng)
      = Inr (st1, ex_rng\<lparr>rand_pos := 2, randint_pos := 2\<rparr>)"
    unfolding prepare_slice_def st1_def
    by (simp add: c g random_random_def Let_def tr then_do_def empty_state_def)
  have plan: "slice_to_augmentation st1 = [(0, ''deformed_slice'')]"
    "map_of (deform_slice_transformations st1) 0 = Some tr"
    by (simp_all add: st1_def set_augmentation_def empty_state_def)
  have d: "roi_dims ax_roi = 3" by (simp add: roi_dims_def ax_roi_def)
  have dv: "roi_div ax_roi [40, 4, 4] = Inr \<lparr>roi_offset = [1, 0, 2], roi_shape = [2, 1, 2]\<rparr>"
    by (simp add: roi_div_def coordinate_div_def then_do_def ax_roi_def)
  have r: "ax_request RAW = Some (ex_raw_spec\<lparr>spec_roi := ax_roi\<rparr>)"
    by (simp add: ax_request_def)
  have gr: "growth ax_cfg 3 = Inr [40, 0, 4]"
    by (simp add: growth_def c upt_rec)
  have rg: "roi_grow ax_roi [40, 0, 4] [40, 0, 4] = ax_grown_roi"
    by (simp add: roi_grow_def ax_roi_def ax_grown_roi_def)
  have up: "ax_request(RAW \<mapsto> ex_raw_spec\<lparr>spec_roi := ax_grown_roi\<rparr>)
              = [RAW \<mapsto> ex_raw_spec\<lparr>spec_roi := ax_grown_roi\<rparr>]"
    by (simp add: ax_request_def)
  have "prepare ref_lib ax_cfg ax_request ex_rng
     = Inr (st1, [RAW \<mapsto> ex_raw_spec\<lparr>spec_roi := ax_grown_roi\<rparr>],
            ex_rng\<lparr>rand_pos := 2, randint_pos := 2\<rparr>)"
    unfolding prepare_def
    by (simp add: r c dv then_do_def Let_def s0 plan d gr rg up)
  with plan l show ?thesis by blast
qed

lemma ax_mask:
  "shape (ref_binary_dilation ex_line_mask 10) = [4, 4]"
  "elem (ref_binary_dilation ex_line_mask 10) [1, 1]"
proof -
  have s: "shape ex_line_mask = [4, 4]" and e: "elem ex_line_mask [1, 1]"
    by (simp_all add: ex_line_mask_def)
  show "shape (ref_binary_dilation ex_line_mask 10) = [4, 4]"
    by (simp add: ref_binary_dilation_def shape_dilate_funpow s)
  from dilate_funpow_keeps [OF s _ _ e, of 10]
  show "elem (ref_binary_dilation ex_line_mask 10) [1, 1]"
    by (simp add: ref_binary_dilation_def)
qed

lemma ref_resampling_returns:
  assumes "length (shape a) = 2" "length ys = k" "length xs = k"
  shows "lib_map_coordinates ref_lib a [ys, xs] ''constant'' ord cval
           = Inr (map2 (sample_at a cval) ys xs)"
    and "length (map2 (sample_at a cval) ys xs) = k"
  using assms by (simp_all add: ref_lib_def ref_map_coordinates_def)

lemma ax_deformed_slice:
  assumes "map_of (deform_slice_transformations st) 0 = Some tr"
    and "length (flow_x tr) = 16" "length (flow_y tr) = 16"
    and "line_mask tr = ref_binary_dilation ex_line_mask 10"
  shows "deformed_slice ref_lib ax_cfg st (np_full [4, 1, 4] 5) 3 1 0 = Inl ValueError"
proof -
  define selected :: "real ndarray" where
    "selected = \<lparr>shape = [4, 1, 4],
                  elem = (\<lambda>idx. elem (np_full [4, 1, 4] 5) (section_index 3 1 0 idx))\<rparr>"
  have sel: "select_section (np_full [4, 1, 4] (5::real)) 3 1 0 = Inr selected"
    by (simp add: select_section_def section_shape_def np_full_def selected_def)
  have psh: "shape (materialize (squeeze selected)) = [4, 4]"
    by (simp add: materialize_def squeeze_def selected_def)
  have rank: "length (shape (materialize (squeeze selected))) = 2" by (simp add: psh)
  note mc = ref_resampling_returns(1) [OF rank assms(3,2), of 3 0]
    ref_resampling_returns(2) [OF rank assms(3,2), of 0]
  have rs: "reshape (map2 (sample_at (materialize (squeeze selected)) 0) (flow_y tr) (flow_x tr))
              [4, 4]
            = Inr \<lparr>shape = [4, 4],
                   elem = (\<lambda>idx. map2 (sample_at (materialize (squeeze selected)) 0)
                                   (flow_y tr) (flow_x tr) ! ravel_index [4, 4] idx)\<rparr>"
    using mc(2) by (simp add: reshape_def)
  have na: "\<not> assignable [4, 4] (section_shape [4, 1, 4] 3 1 0)"
    by (simp add: assignable_def section_shape_def)
  have i: "interpolatable (raw_spec ax_cfg) = Some True"
    by (simp add: ax_cfg_def ex_cfg_def ex_raw_spec_def)
  have sh: "shape (np_full [4, 1, 4] (5::real)) = [4, 1, 4]" by (simp add: np_full_def)
  show ?thesis
    unfolding deformed_slice_def
    using mc(1) na sel rs psh sh
    by (simp add: then_do_def Let_def assms(1,4) ax_mask(1) assign_section_def i)
qed

lemma ax_process:
  assumes "slice_to_augmentation st = [(0, ''deformed_slice'')]"
    and "map_of (deform_slice_transformations st) 0 = Some tr"
    and "length (flow_x tr) = 16" "length (flow_y tr) = 16"
    and "line_mask tr = ref_binary_dilation ex_line_mask 10"
  shows "process ref_lib None ax_cfg st ax_batch ax_request = (Some ValueError, ax_batch)"
proof -
  have ax: "axis ax_cfg = 1" by (simp add: ax_cfg_def)
  have r3: "roi_dims ax_grown_roi = 3" by (simp add: roi_dims_def ax_grown_roi_def)
  have loop: "process_loop ref_lib None ax_cfg st Float32 3 [(0, ''deformed_slice'')]
                (np_full [4, 1, 4] 5, 0) = (Some ValueError, (np_full [4, 1, 4] 5, 0))"
    using ax_deformed_slice [OF assms(2-5)]
    by (simp add: process_deformed_slice ax then_do_def)
  show ?thesis
    unfolding process_def
    using loop by (simp add: ax_batch_def r3 assms(1) Let_def)
qed

lemma ex_sibling:
  assumes "map_of (deform_slice_transformations st) 0 = Some tr"
    and "length (flow_x tr) = 16" "length (flow_y tr) = 16"
    and "line_mask tr = ref_binary_dilation ex_line_mask 10"
  shows "\<exists>d. process_slice ref_lib None ex_cfg st Float32 3 (0, ''deformed_slice'')
                (np_full [1, 4, 4] 5, 0) = Inr (d, 0)
           \<and> elem d [0, 1, 1] = 0"
proof -
  have sh: "shape (np_full [1, 4, 4] (5::real)) = [1, 4, 4]" by (simp add: np_full_def)
  from select_section_3d [OF sh, of 0] obtain selected where
    sel: "select_section (np_full [1, 4, 4] (5::real)) 3 0 0 = Inr selected"
    and ssh: "shape selected = [1, 4, 4]"
    by simp
  have rank: "length (shape (materialize (squeeze selected))) = 2"
    using padded_slice_3d(1) [OF ssh] by simp
  have i: "(if interpolatable (raw_spec ex_cfg) = Some True then 3 else 0) = (3::nat)"
    by (simp add: ex_cfg_def ex_raw_spec_def)
  note mc = ref_resampling_returns(1) [OF rank assms(3,2), of 3 0]
    ref_resampling_returns(2) [OF rank assms(3,2), of 0]
  have len: "length (map2 (sample_at (materialize (squeeze selected)) 0) (flow_y tr) (flow_x tr))
               = 4 * 4"
    using mc(2) by simp
  have m: "shape (line_mask tr) = [4, 4]" by (simp add: assms(4) ax_mask(1))
  from deformed_slice_result [OF sh _ _ _ assms(1) sel _ len m, of ref_lib ex_cfg] mc(1) i
  obtain d where
    d: "deformed_slice ref_lib ex_cfg st (np_full [1, 4, 4] 5) 3 0 0 = Inr d"
    and e: "\<And>k i j. elem d [k, i, j] =
           (if k = 0 then (if elem (line_mask tr) [i, j] then 0
                           else map2 (sample_at (materialize (squeeze selected)) 0)
                                  (flow_y tr) (flow_x tr) ! (i * 4 + j))
            else elem (np_full [1, 4, 4] 5) [k, i, j])"
    by auto
  from e [of 0 1 1] ax_mask(2) have z: "elem d [0, 1, 1] = 0" by (simp add: assms(4))
  have ax: "axis ex_cfg = 0" by (simp add: ex_cfg_def)
  from d have "process_slice ref_lib None ex_cfg st Float32 3 (0, ''deformed_slice'')
                (np_full [1, 4, 4] 5, 0) = Inr (d, 0)"
    by (simp add: process_deformed_slice ax then_do_def)
  with z show ?thesis by blast
qed

text \<open>
  C5 (the code diverges). The deformed-slice branch squeezes the section to two
  dimensions (line 195) and stores the resampled and masked section through the selector
  of the section (line 212). Cut along axis 0, as in the worked request, the section has
  shape \<open>(1, h, w)\<close> and the store broadcasts: the pixel \<open>(1, 1)\<close> under the dilated line
  mask is 0 afterwards. Cut along axis 1 the section of the worked volume has shape
  \<open>(4, 1, 4)\<close>, the resampled section of shape \<open>(4, 4)\<close> does not broadcast to it, and
  \<^verbatim>\<open>process\<close> raises \<^verbatim>\<open>ValueError\<close> with the raw data as upstream delivered them.
\<close>

theorem deformed_slice_is_not_stored_on_other_axes:
  "\<exists>st g'. prepare ref_lib ax_cfg ax_request ex_rng
              = Inr (st, [RAW \<mapsto> ex_raw_spec\<lparr>spec_roi := ax_grown_roi\<rparr>], g')
     \<and> slice_to_augmentation st = [(0, ''deformed_slice'')]
     \<and> process ref_lib None ax_cfg st ax_batch ax_request = (Some ValueError, ax_batch)
     \<and> (\<exists>d. process_slice ref_lib None ex_cfg st Float32 3 (0, ''deformed_slice'')
                (np_full [1, 4, 4] 5, 0) = Inr (d, 0)
            \<and> elem d [0, 1, 1] = 0)"
proof -
  from ax_prepare obtain st tr g' where
    p: "prepare ref_lib ax_cfg ax_request ex_rng
          = Inr (st, [RAW \<mapsto> ex_raw_spec\<lparr>spec_roi := ax_grown_roi\<rparr>], g')"
    and plan: "slice_to_augmentation st = [(0, ''deformed_slice'')]"
    and tr: "map_of (deform_slice_transformations st) 0 = Some tr"
      "length (flow_x tr) = 16" "length (flow_y tr) = 16"
      "line_mask tr = ref_binary_dilation ex_line_mask 10"
    by blast
  from p plan ax_process [OF plan tr] ex_sibling [OF tr] show ?thesis by blast
qed

end
